theory Spec2Isabelle
  imports Complex_Main
begin

section \<open>Fresnel propagation of a Gaussian beam (poppy/fresnel.py)\<close>

text \<open>
  A shallow embedding of \<^verbatim>\<open>poppy/fresnel.py\<close>: the Gaussian-beam bookkeeping of
  the Fresnel \<^verbatim>\<open>Wavefront\<close> class, its FFT pair, the three propagation kernels
  \<^verbatim>\<open>ptp\<close>, \<^verbatim>\<open>wts\<close>, \<^verbatim>\<open>stw\<close>, the dispatcher
  \<^verbatim>\<open>propagate_fresnel\<close> and the thin-lens interaction \<^verbatim>\<open>apply_optic\<close>.

  Numbers. Lengths are astropy quantities in the source; here they are real numbers of
  metres, and every method is modelled for arguments that are quantities (the branch the
  class itself takes, since \<^verbatim>\<open>self.z\<close> is a quantity), except \<^verbatim>\<open>ptp\<close>, which
  tests its argument for units and is modelled for a quantity and for a bare number. Floating-point rounding is
  not modelled: arithmetic is exact. What is modelled of IEEE arithmetic is what the
  source relies on: \<^verbatim>\<open>np.inf\<close> as a value, \<^verbatim>\<open>1.0/np.inf = 0\<close>, and a
  division by zero that returns an infinity or a NaN instead of raising (numpy and astropy
  only warn). Expressions that divide are therefore evaluated in the type \<open>xreal\<close>;
  the attributes of the wavefront hold finite reals, and a run that would store an
  infinity or a NaN in one of them, or feed one into the complex field, ends in the
  outcome \<open>NotFinite\<close>, where the embedding stops following it.
\<close>

subsection \<open>Floating-point values with infinities and NaN\<close>

datatype xreal = Fin real | PInf | MInf | NaN

fun xneg :: "xreal \<Rightarrow> xreal" where
  "xneg (Fin a) = Fin (- a)"
| "xneg PInf = MInf"
| "xneg MInf = PInf"
| "xneg NaN = NaN"

fun xadd :: "xreal \<Rightarrow> xreal \<Rightarrow> xreal" where
  "xadd (Fin a) (Fin b) = Fin (a + b)"
| "xadd NaN _ = NaN"
| "xadd _ NaN = NaN"
| "xadd PInf MInf = NaN"
| "xadd MInf PInf = NaN"
| "xadd PInf _ = PInf"
| "xadd _ PInf = PInf"
| "xadd MInf _ = MInf"
| "xadd _ MInf = MInf"

text \<open>An infinity with the sign of a nonzero real; a zero factor gives NaN.\<close>

definition signed_inf :: "real \<Rightarrow> xreal" where
  "signed_inf a = (if a = 0 then NaN else if 0 < a then PInf else MInf)"

fun xmul :: "xreal \<Rightarrow> xreal \<Rightarrow> xreal" where
  "xmul (Fin a) (Fin b) = Fin (a * b)"
| "xmul NaN _ = NaN"
| "xmul _ NaN = NaN"
| "xmul (Fin a) PInf = signed_inf a"
| "xmul (Fin a) MInf = signed_inf (- a)"
| "xmul PInf (Fin b) = signed_inf b"
| "xmul MInf (Fin b) = signed_inf (- b)"
| "xmul PInf PInf = PInf"
| "xmul MInf MInf = PInf"
| "xmul PInf MInf = MInf"
| "xmul MInf PInf = MInf"

text \<open>
  Division as numpy performs it: a nonzero number over zero is an infinity, zero over
  zero is NaN, a finite number over an infinity is zero. The sign of a zero is not
  modelled: a zero denominator counts as \<open>+0\<close>.
\<close>

fun xdiv :: "xreal \<Rightarrow> xreal \<Rightarrow> xreal" where
  "xdiv (Fin a) (Fin b) = (if b = 0 then signed_inf a else Fin (a / b))"
| "xdiv NaN _ = NaN"
| "xdiv _ NaN = NaN"
| "xdiv (Fin a) PInf = Fin 0"
| "xdiv (Fin a) MInf = Fin 0"
| "xdiv PInf (Fin b) = (if b < 0 then MInf else PInf)"
| "xdiv MInf (Fin b) = (if b < 0 then PInf else MInf)"
| "xdiv PInf PInf = NaN"
| "xdiv PInf MInf = NaN"
| "xdiv MInf PInf = NaN"
| "xdiv MInf MInf = NaN"

fun xabs :: "xreal \<Rightarrow> xreal" where
  "xabs (Fin a) = Fin \<bar>a\<bar>"
| "xabs PInf = PInf"
| "xabs MInf = PInf"
| "xabs NaN = NaN"

fun xsqrt :: "xreal \<Rightarrow> xreal" where
  "xsqrt (Fin a) = (if a < 0 then NaN else Fin (sqrt a))"
| "xsqrt PInf = PInf"
| "xsqrt MInf = NaN"
| "xsqrt NaN = NaN"

text \<open>Comparisons: every comparison with NaN is false, also \<^verbatim>\<open>==\<close>.\<close>

fun xlt :: "xreal \<Rightarrow> xreal \<Rightarrow> bool" where
  "xlt (Fin a) (Fin b) = (a < b)"
| "xlt NaN _ = False"
| "xlt _ NaN = False"
| "xlt _ MInf = False"
| "xlt PInf _ = False"
| "xlt MInf _ = True"
| "xlt _ PInf = True"

fun xeq :: "xreal \<Rightarrow> xreal \<Rightarrow> bool" where
  "xeq NaN _ = False"
| "xeq _ NaN = False"
| "xeq a b = (a = b)"

instantiation xreal :: "{zero, one, plus, minus, uminus, times, inverse, abs, ord}"
begin

definition zero_xreal :: xreal where "zero_xreal = Fin 0"
definition one_xreal :: xreal where "one_xreal = Fin 1"
definition plus_xreal :: "xreal \<Rightarrow> xreal \<Rightarrow> xreal" where "plus_xreal = xadd"
definition minus_xreal :: "xreal \<Rightarrow> xreal \<Rightarrow> xreal" where "minus_xreal a b = xadd a (xneg b)"
definition uminus_xreal :: "xreal \<Rightarrow> xreal" where "uminus_xreal = xneg"
definition times_xreal :: "xreal \<Rightarrow> xreal \<Rightarrow> xreal" where "times_xreal = xmul"
definition divide_xreal :: "xreal \<Rightarrow> xreal \<Rightarrow> xreal" where "divide_xreal = xdiv"
definition inverse_xreal :: "xreal \<Rightarrow> xreal" where "inverse_xreal a = xdiv (Fin 1) a"
definition abs_xreal :: "xreal \<Rightarrow> xreal" where "abs_xreal = xabs"
definition less_xreal :: "xreal \<Rightarrow> xreal \<Rightarrow> bool" where "less_xreal = xlt"
definition less_eq_xreal :: "xreal \<Rightarrow> xreal \<Rightarrow> bool" where
  "less_eq_xreal a b = (xlt a b \<or> xeq a b)"

instance ..

end

text \<open>\<^verbatim>\<open>x**2\<close> on a float.\<close>

definition xsq :: "xreal \<Rightarrow> xreal" where
  "xsq x = x * x"

subsection \<open>Errors, plane types, logging\<close>

text \<open>
  The exceptions a run of the modelled methods can raise, and \<open>NotFinite\<close>, which is
  not an exception: it marks a run in which numpy would go on with an infinity or a NaN
  in the state or in the field.
\<close>

datatype error =
    NameError
  | AssertionError
  | ValueError
  | UnboundLocalError
  | UnitsError
  | NotFinite
  | BaseError string

type_synonym 'a result = "error + 'a"

definition bind :: "'a result \<Rightarrow> ('a \<Rightarrow> 'b result) \<Rightarrow> 'b result" where
  "bind r f = (case r of Inl e \<Rightarrow> Inl e | Inr x \<Rightarrow> f x)"

text \<open>A value that is stored in an attribute of the wavefront.\<close>

fun store :: "xreal \<Rightarrow> real result" where
  "store (Fin a) = Inr a"
| "store _ = Inl NotFinite"

text \<open>\<^verbatim>\<open>_PUPIL, _IMAGE, _DETECTOR, _ROTATION, _INTERMED\<close> of \<^verbatim>\<open>poppy_core\<close>.\<close>

datatype PlaneType = PUPIL | IMAGE | DETECTOR | ROTATION | INTERMED

text \<open>
  The module logger \<^verbatim>\<open>_log\<close>: each call appends its level and the literal part of
  its message (formatted numbers are left out).
\<close>

datatype level = DEBUG | WARN | ERROR

type_synonym log_entry = "level \<times> string"

text \<open>The entries this module appends to \<^verbatim>\<open>self.history\<close>, with the distance they print.\<close>

datatype history_entry =
    Padded
  | Propagated_PTP real
  | Propagated_WTS real
  | Propagated_STW real

subsection \<open>Arrays and the numpy FFT\<close>

text \<open>
  A two-dimensional complex array is a list of rows. \<^verbatim>\<open>self.shape\<close> is
  \<open>(shape0, shape1)\<close>; a numpy array is rectangular (\<open>rect\<close>).
\<close>

type_synonym ndarray = "complex list list"

definition shape0 :: "'a list list \<Rightarrow> nat" where
  "shape0 X = length X"

definition shape1 :: "'a list list \<Rightarrow> nat" where
  "shape1 X = (case X of [] \<Rightarrow> 0 | r # _ \<Rightarrow> length r)"

definition rect :: "'a list list \<Rightarrow> bool" where
  "rect X = list_all (\<lambda>r. length r = shape1 X) X"

definition tabulate2 :: "nat \<Rightarrow> nat \<Rightarrow> (nat \<Rightarrow> nat \<Rightarrow> 'a) \<Rightarrow> 'a list list" where
  "tabulate2 M N f = map (\<lambda>i. map (\<lambda>j. f i j) [0..<N]) [0..<M]"

text \<open>Elementwise product, and an array times or over a scalar.\<close>

definition mul_arr :: "ndarray \<Rightarrow> ndarray \<Rightarrow> ndarray" where
  "mul_arr X Y = map2 (map2 (*)) X Y"

definition scale_arr :: "complex \<Rightarrow> ndarray \<Rightarrow> ndarray" where
  "scale_arr c X = map (map (\<lambda>x. x * c)) X"

definition div_arr :: "ndarray \<Rightarrow> complex \<Rightarrow> ndarray" where
  "div_arr X c = map (map (\<lambda>x. x / c)) X"

text \<open>
  \<^verbatim>\<open>np.fft.fft2\<close> and \<^verbatim>\<open>np.fft.ifft2\<close>, from numpy's documentation: the
  two-dimensional discrete Fourier transform
  \<open>A[k,l] = \<Sum>m \<Sum>n a[m,n] exp(-2\<pi>i (mk/M + nl/N))\<close> and its inverse, which has the
  opposite sign in the exponent and the factor \<open>1/(MN)\<close>. numpy raises ValueError on an
  array with no data points.
\<close>

definition dft2 :: "real \<Rightarrow> ndarray \<Rightarrow> nat \<Rightarrow> nat \<Rightarrow> complex" where
  "dft2 s X k l = (\<Sum>m<shape0 X. \<Sum>n<shape1 X. X ! m ! n *
     cis (s * (2 * pi * (real m * real k / real (shape0 X) + real n * real l / real (shape1 X)))))"

definition np_fft2 :: "ndarray \<Rightarrow> ndarray result" where
  "np_fft2 X = (if shape0 X = 0 \<or> shape1 X = 0 then Inl ValueError
     else Inr (tabulate2 (shape0 X) (shape1 X) (dft2 (- 1) X)))"

definition np_ifft2 :: "ndarray \<Rightarrow> ndarray result" where
  "np_ifft2 X = (if shape0 X = 0 \<or> shape1 X = 0 then Inl ValueError
     else Inr (tabulate2 (shape0 X) (shape1 X)
       (\<lambda>k l. dft2 1 X k l / of_nat (shape0 X * shape1 X))))"

text \<open>
  \<^verbatim>\<open>np.fft.fftshift\<close>: along each axis of length \<open>n\<close> the entries are rolled
  forward by \<open>n div 2\<close>, which is a left rotation by \<open>(n + 1) div 2\<close>.
\<close>

definition fftshift1 :: "'a list \<Rightarrow> 'a list" where
  "fftshift1 xs = rotate ((length xs + 1) div 2) xs"

definition fftshift :: "'a list list \<Rightarrow> 'a list list" where
  "fftshift X = fftshift1 (map fftshift1 X)"

text \<open>
  An array of values that may be infinite or NaN becomes an array of numbers only when
  every entry is finite.
\<close>

fun collect :: "'a result list \<Rightarrow> 'a list result" where
  "collect [] = Inr []"
| "collect (r # rs) = bind r (\<lambda>x. bind (collect rs) (\<lambda>xs. Inr (x # xs)))"

definition collect2 :: "'a result list list \<Rightarrow> 'a list list result" where
  "collect2 X = collect (map collect X)"

subsection \<open>Optics and the wavefront\<close>

text \<open>
  What \<^verbatim>\<open>apply_optic\<close> reads of a \<^verbatim>\<open>GaussianLens\<close>: its name, plane type,
  oversampling and focal length \<^verbatim>\<open>fl\<close> in metres.
\<close>

record optic =
  optic_name :: string
  optic_planetype :: PlaneType
  optic_oversample :: real
  fl :: real

text \<open>
  The attributes of the base class \<^verbatim>\<open>poppy.Wavefront\<close> that this module reads and
  writes. The base class itself is not part of \<^verbatim>\<open>fresnel.py\<close>. \<open>logged\<close> is the
  output of the module logger, threaded through the state.
\<close>

record poppy_wavefront =
  wavefront :: ndarray
  pixelscale :: real
  planetype :: PlaneType
  history :: "history_entry list"
  wavelength :: real
  logged :: "log_entry list"

text \<open>
  The Fresnel \<^verbatim>\<open>Wavefront\<close>, a subclass of the former. \<^verbatim>\<open>self.n\<close> is the linear
  dimension \<^verbatim>\<open>shape[0]\<close> of the square arrays the base constructor builds;
  \<^verbatim>\<open>self.wavelen_m\<close> is \<open>wavelength\<close> as a quantity.
\<close>

record fresnel_wavefront = poppy_wavefront +
  oversample :: real
  w_0 :: real
  z :: real
  z_w0 :: real
  waists_w0 :: "real list"
  waists_z :: "real list"
  spherical :: bool
  force_fresnel :: bool
  rayl_factor :: real
  n :: nat

text \<open>
  What the module takes from outside: the two flags that select the FFT backend
  (\<^verbatim>\<open>poppy.conf.use_fftw\<close> and \<^verbatim>\<open>_FFTW_AVAILABLE\<close>), and two methods of the base
  class, taken as parameters: \<^verbatim>\<open>coordinates()\<close>, which returns the physical
  \<open>(y, x)\<close> of pixel \<open>(i, j)\<close> from the plane type, the shape and the pixel scale, and
  the Fraunhofer \<^verbatim>\<open>propagateTo(optic)\<close>, which acts on the base attributes.
\<close>

record env =
  conf_use_fftw :: bool
  FFTW_AVAILABLE :: bool
  coordinates :: "PlaneType \<Rightarrow> nat \<times> nat \<Rightarrow> real \<Rightarrow> nat \<Rightarrow> nat \<Rightarrow> real \<times> real"
  propagateTo :: "optic \<Rightarrow> poppy_wavefront \<Rightarrow> poppy_wavefront result"

definition add_log :: "log_entry list \<Rightarrow> fresnel_wavefront \<Rightarrow> fresnel_wavefront" where
  "add_log es w = w\<lparr>logged := logged w @ es\<rparr>"

definition shape :: "fresnel_wavefront \<Rightarrow> nat \<times> nat" where
  "shape w = (shape0 (wavefront w), shape1 (wavefront w))"

subsection \<open>Gaussian-beam quantities\<close>

text \<open>\<^verbatim>\<open>z_R\<close> (line 247): \<^verbatim>\<open>np.pi*self.w_0**2/(self.wavelen_m)\<close>.\<close>

definition z_R :: "fresnel_wavefront \<Rightarrow> xreal" where
  "z_R w = Fin (pi * (w_0 w)\<^sup>2) / Fin (wavelength w)"

text \<open>\<^verbatim>\<open>R_c\<close> (lines 307-314).\<close>

definition R_c :: "fresnel_wavefront \<Rightarrow> real \<Rightarrow> xreal" where
  "R_c w zz = (let dz = zz - z_w0 w in
     if dz = 0 then PInf else Fin dz * (Fin 1 + xsq (z_R w / Fin dz)))"

text \<open>\<^verbatim>\<open>spot_radius\<close> (lines 316-325).\<close>

definition spot_radius :: "fresnel_wavefront \<Rightarrow> real \<Rightarrow> xreal" where
  "spot_radius w zz = Fin (w_0 w) * xsqrt (Fin 1 + xsq (Fin (zz - z_w0 w) / z_R w))"

text \<open>\<^verbatim>\<open>fft_coords\<close> (lines 327-348): \<open>(y, x)\<close> of pixel \<open>(i, j)\<close>.\<close>

definition fft_coords :: "fresnel_wavefront \<Rightarrow> nat \<Rightarrow> nat \<Rightarrow> real \<times> real" where
  "fft_coords w i j =
     ((real i - real (fst (shape w)) / 2) * pixelscale w,
      (real j - real (snd (shape w)) / 2) * pixelscale w)"

text \<open>\<^verbatim>\<open>planar_range\<close> (lines 506-521).\<close>

definition planar_range :: "fresnel_wavefront \<Rightarrow> real \<Rightarrow> bool" where
  "planar_range w zz = (\<bar>Fin (z_w0 w - zz)\<bar> < z_R w)"

subsection \<open>The quadratic phase factor\<close>

text \<open>
  \<^verbatim>\<open>QuadPhase.getPhasor\<close> (lines 65-83), for a \<^verbatim>\<open>QuadPhase\<close> of radius
  \<open>z_m\<close> and reference wavelength \<open>lam\<close>: at the pixel with coordinates \<open>(y, x)\<close> the
  phase is \<^verbatim>\<open>k * rsqd/(2.0*z_m)\<close> with \<^verbatim>\<open>k = 2*pi/lam\<close>, and the phasor is
  \<^verbatim>\<open>exp(1j * phase)\<close>.
\<close>

definition QuadPhase_phase :: "real \<Rightarrow> xreal \<Rightarrow> real \<times> real \<Rightarrow> xreal" where
  "QuadPhase_phase lam z_m yx =
     (let rsqd = (snd yx)\<^sup>2 + (fst yx)\<^sup>2; k = Fin (2 * pi) / Fin lam
      in k * Fin rsqd / (Fin 2 * z_m))"

fun phasor :: "xreal \<Rightarrow> complex result" where
  "phasor (Fin p) = Inr (cis p)"
| "phasor _ = Inl NotFinite"

definition getPhasor :: "env \<Rightarrow> real \<Rightarrow> xreal \<Rightarrow> fresnel_wavefront \<Rightarrow> ndarray result" where
  "getPhasor E lam z_m w = collect2 (tabulate2 (fst (shape w)) (snd (shape w))
     (\<lambda>i j. phasor (QuadPhase_phase lam z_m
        (coordinates E (planetype w) (shape w) (pixelscale w) i j))))"

text \<open>
  Modelled from the spec: \<^verbatim>\<open>self *= QuadPhase(z_m, reference_wavelength=lam)\<close>, the
  in-place multiplication \<^verbatim>\<open>__imul__\<close> of the base class, which is not part of
  \<^verbatim>\<open>fresnel.py\<close>. The spec: the optic is "consumed by multiplication against a
  wavefront's field (applying the phase mask)". The three debug messages are those of
  \<^verbatim>\<open>getPhasor\<close>.
\<close>

definition imul_QuadPhase :: "env \<Rightarrow> xreal \<Rightarrow> real \<Rightarrow> fresnel_wavefront \<Rightarrow> fresnel_wavefront result" where
  "imul_QuadPhase E z_m lam w = bind (getPhasor E lam z_m w) (\<lambda>ph.
     Inr (w\<lparr>wavefront := mul_arr (wavefront w) ph,
           logged := logged w @
             [(DEBUG, ''Applying spherical phase curvature''),
              (DEBUG, ''Applying spherical lens phase''),
              (DEBUG, ''max_rsqd'')]\<rparr>))"

subsection \<open>The FFT pair\<close>

text \<open>
  \<^verbatim>\<open>_USE_FFTW = (poppy.conf.use_fftw and _FFTW_AVAILABLE)\<close>. When it holds, both
  methods evaluate the name \<^verbatim>\<open>pyfftw\<close> first (lines 279 and 296), and
  \<^verbatim>\<open>fresnel.py\<close> never imports \<^verbatim>\<open>pyfftw\<close>: Python raises NameError.
\<close>

definition USE_FFTW :: "env \<Rightarrow> bool" where
  "USE_FFTW E = (conf_use_fftw E \<and> FFTW_AVAILABLE E)"

text \<open>\<^verbatim>\<open>fft\<close> (lines 274-289).\<close>

definition fft :: "env \<Rightarrow> fresnel_wavefront \<Rightarrow> fresnel_wavefront result" where
  "fft E w =
     (if USE_FFTW E then Inl NameError
      else bind (np_fft2 (wavefront w)) (\<lambda>F.
        Inr (w\<lparr>logged := logged w @ [(DEBUG, ''Using numpy FFT'')],
              wavefront := div_arr F (of_nat (fst (shape w)))\<rparr>)))"

text \<open>\<^verbatim>\<open>inv_fft\<close> (lines 291-305).\<close>

definition inv_fft :: "env \<Rightarrow> fresnel_wavefront \<Rightarrow> fresnel_wavefront result" where
  "inv_fft E w =
     (if USE_FFTW E then Inl NameError
      else bind (np_ifft2 (wavefront w)) (\<lambda>F.
        Inr (w\<lparr>logged := logged w @ [(DEBUG, ''Using numpy FFT'')],
              wavefront := scale_arr (of_nat (fst (shape w))) F\<rparr>)))"

subsection \<open>The three propagation kernels\<close>

text \<open>One angstrom, in metres (line 413).\<close>

definition Angstrom :: real where
  "Angstrom = 1 / 10 ^ 10"

text \<open>
  \<^verbatim>\<open>ptp\<close>, lines 417-419: the frequency-domain radius \<^verbatim>\<open>rho\<close> at pixel
  \<open>(i, j)\<close> before the shift, and \<^verbatim>\<open>np.exp(T)\<close> for
  \<^verbatim>\<open>T = -1.0j*np.pi*self.wavelength*z_direct*rho\<close>.
\<close>

definition rho_px :: "fresnel_wavefront \<Rightarrow> nat \<Rightarrow> nat \<Rightarrow> xreal" where
  "rho_px w i j = (let (x, y) = fft_coords w i j in
     xsq (Fin x / Fin (pixelscale w) / Fin 2 / Fin (oversample w)) +
     xsq (Fin y / Fin (pixelscale w) / Fin 2 / Fin (oversample w)))"

fun exp_T_px :: "fresnel_wavefront \<Rightarrow> real \<Rightarrow> xreal \<Rightarrow> complex result" where
  "exp_T_px w z_direct (Fin r) = Inr (cis (- (pi * wavelength w * z_direct * r)))"
| "exp_T_px w z_direct _ = Inl NotFinite"

definition exp_T :: "fresnel_wavefront \<Rightarrow> real \<Rightarrow> ndarray result" where
  "exp_T w z_direct = collect2 (map (map (exp_T_px w z_direct))
     (fftshift (tabulate2 (fst (shape w)) (snd (shape w)) (rho_px w))))"

text \<open>
  The argument \<^verbatim>\<open>dz\<close> of \<^verbatim>\<open>ptp\<close>, which tests it for units itself
  (line 407): an astropy quantity, given by its value in metres, or a bare number.
\<close>

datatype distance = Metres real | Bare real

text \<open>
  \<^verbatim>\<open>np.abs(dz) < 1*u.Angstrom\<close> (line 413). The right-hand side is a quantity;
  astropy compares a bare number with a quantity only when the number is zero (or not
  finite) and raises a \<^verbatim>\<open>UnitsError\<close> otherwise.
\<close>

definition below_Angstrom :: "distance \<Rightarrow> bool result" where
  "below_Angstrom dz =
     (case dz of
        Metres d \<Rightarrow> Inr (\<bar>d\<bar> < Angstrom)
      | Bare d \<Rightarrow> if d = 0 then Inr True else Inl UnitsError)"

text \<open>
  \<^verbatim>\<open>ptp\<close> (lines 385-428). A \<^verbatim>\<open>dz\<close> without units is logged with a warning
  and taken as metres (lines 407-411). The lines after the test for a small \<^verbatim>\<open>dz\<close>
  are reached with a quantity only, since a bare number either is zero or stops the test.
\<close>

definition ptp :: "env \<Rightarrow> distance \<Rightarrow> fresnel_wavefront \<Rightarrow> fresnel_wavefront result" where
  "ptp E dz w =
     (let (z_direct, wa) =
            (case dz of
               Metres d \<Rightarrow> (d, w)
             | Bare d \<Rightarrow> (d, add_log [(WARN, ''has no units, assuming meters'')] w))
      in
      bind (below_Angstrom dz) (\<lambda>small.
        if small then Inr (add_log [(DEBUG, ''Skipping small dz'')] wa)
        else bind (exp_T wa z_direct) (\<lambda>eT.
             bind (fft E wa) (\<lambda>w1.
             bind (inv_fft E (w1\<lparr>wavefront := mul_arr (wavefront w1) eT\<rparr>)) (\<lambda>w2.
             Inr (w2\<lparr>z := z w2 + z_direct,
                   history := history w2 @ [Propagated_PTP z_direct]\<rparr>))))))"

text \<open>
  The new pixel scale of \<^verbatim>\<open>wts\<close> and \<^verbatim>\<open>stw\<close> (lines 462 and 500):
  \<^verbatim>\<open>self.wavelength*np.abs(dz.value)/(self.n*self.pixelscale)\<close>.
\<close>

definition fourier_pixelscale :: "fresnel_wavefront \<Rightarrow> real \<Rightarrow> xreal" where
  "fourier_pixelscale w dz = Fin (wavelength w * \<bar>dz\<bar>) / Fin (real (n w) * pixelscale w)"

text \<open>\<^verbatim>\<open>wts\<close> (lines 430-466).\<close>

definition wts :: "env \<Rightarrow> real \<Rightarrow> fresnel_wavefront \<Rightarrow> fresnel_wavefront result" where
  "wts E dz w =
     (let wa = add_log [(DEBUG, ''Waist to Spherical propagation, dz='')] w in
      if dz = 0 then
        Inr (add_log
          [(ERROR, ''Waist to Spherical propagation stopped, no change in distance.'')] wa)
      else bind (imul_QuadPhase E (Fin dz) (wavelength wa) wa) (\<lambda>w1.
           bind (if 0 < dz then fft E w1 else inv_fft E w1) (\<lambda>w2.
           bind (store (fourier_pixelscale w2 dz)) (\<lambda>ps.
           Inr (w2\<lparr>pixelscale := ps, z := z w2 + dz,
                 history := history w2 @ [Propagated_WTS dz]\<rparr>)))))"

text \<open>\<^verbatim>\<open>stw\<close> (lines 468-503).\<close>

definition stw :: "env \<Rightarrow> real \<Rightarrow> fresnel_wavefront \<Rightarrow> fresnel_wavefront result" where
  "stw E dz w =
     (let wa = add_log [(DEBUG, ''Spherical to Waist propagation,dz='')] w in
      if dz = 0 then
        Inr (add_log
          [(ERROR, ''Spherical to Waist propagation stopped, no change in distance.'')] wa)
      else bind (if 0 < dz then fft E wa else inv_fft E wa) (\<lambda>w1.
           bind (store (fourier_pixelscale w1 dz)) (\<lambda>ps.
           bind (imul_QuadPhase E (Fin dz) (wavelength w1) (w1\<lparr>pixelscale := ps\<rparr>)) (\<lambda>w2.
           Inr (w2\<lparr>z := z w2 + dz,
                 history := history w2 @ [Propagated_STW dz]\<rparr>)))))"

subsection \<open>The dispatcher\<close>

text \<open>
  \<^verbatim>\<open>propagate_fresnel\<close> (lines 523-588). The plots of
  \<^verbatim>\<open>display_intermed\<close> change nothing of the state and are left out.
\<close>

definition propagate_fresnel :: "env \<Rightarrow> real \<Rightarrow> fresnel_wavefront \<Rightarrow> fresnel_wavefront result" where
  "propagate_fresnel E delta_z w =
     (let zt = z w + delta_z;
          w0 = add_log [(DEBUG, ''Beginning Fresnel Prop. Waist at z = '')]
                 (w\<lparr>wavefront := fftshift (wavefront w)\<rparr>);
          r =
           (if \<not> spherical w0 then
              if planar_range w0 zt then
                ptp E (Metres delta_z)
                  (add_log [(DEBUG, ''Plane to Plane Regime, dz=''),
                            (DEBUG, ''Constant Pixelscale: '')] w0)
              else
                bind (ptp E (Metres (z_w0 w0 - z w0))
                       (add_log [(DEBUG, ''Plane to Spherical, inside Z_R to outside Z_R'')] w0))
                  (\<lambda>w1. wts E (zt - z_w0 w1) w1)
            else
              if planar_range w0 zt then
                bind (stw E (z_w0 w0 - z w0)
                       (add_log [(DEBUG, ''Spherical to Plane Regime, outside Z_R to inside Z_R'')] w0))
                  (\<lambda>w1. ptp E (Metres (zt - z_w0 w1)) w1)
              else
                bind (stw E (z_w0 w0 - z w0)
                       (add_log [(DEBUG, ''Spherical to Spherical, Outside Z_R to waist (z_w0) to outside Z_R''),
                                 (DEBUG, ''Starting Pixelscale: '')] w0))
                  (\<lambda>w1. wts E (zt - z_w0 w1)
                          (add_log [(DEBUG, ''Intermediate Pixelscale: '')] w1)))
      in bind r (\<lambda>w2.
           Inr (add_log [(DEBUG, ''------ Propagated to plane of type '')]
                 (w2\<lparr>wavefront := fftshift (wavefront w2), planetype := INTERMED\<rparr>))))"

text \<open>
  The regime table of the specification, in its words: the kernels to apply, with their
  arguments, for a wavefront and a distance.
\<close>

datatype kernel = PTP real | WTS real | STW real

definition regime_table :: "fresnel_wavefront \<Rightarrow> real \<Rightarrow> kernel list" where
  "regime_table w delta_z =
     (let z_target = z w + delta_z;
          in_range = (\<bar>Fin (z_w0 w - z_target)\<bar> < z_R w) in
      if \<not> spherical w then
        (if in_range then [PTP delta_z]
         else [PTP (z_w0 w - z w), WTS (z_target - z_w0 w)])
      else
        (if in_range then [STW (z_w0 w - z w), PTP (z_target - z_w0 w)]
         else [STW (z_w0 w - z w), WTS (z_target - z_w0 w)]))"

fun run_kernel :: "env \<Rightarrow> kernel \<Rightarrow> fresnel_wavefront \<Rightarrow> fresnel_wavefront result" where
  "run_kernel E (PTP d) w = ptp E (Metres d) w"
| "run_kernel E (WTS d) w = wts E d w"
| "run_kernel E (STW d) w = stw E d w"

fun run_kernels :: "env \<Rightarrow> kernel list \<Rightarrow> fresnel_wavefront \<Rightarrow> fresnel_wavefront result" where
  "run_kernels E [] w = Inr w"
| "run_kernels E (k # ks) w = bind (run_kernel E k w) (run_kernels E ks)"

text \<open>The state without the output of the logger.\<close>

definition nolog :: "fresnel_wavefront \<Rightarrow> fresnel_wavefront" where
  "nolog w = w\<lparr>logged := []\<rparr>"

subsection \<open>The thin-lens interaction\<close>

text \<open>
  \<^verbatim>\<open>apply_optic\<close>, lines 620-626: the beam is classified as spherical when
  \<^verbatim>\<open>np.abs(self.z_w0 - self.z) > self.rayl_factor*self.z_R\<close>; \<^verbatim>\<open>R_input_beam\<close>
  is then \<^verbatim>\<open>self.z - self.z_w0\<close>, and \<^verbatim>\<open>np.inf\<close> otherwise.
\<close>

definition outside_rayleigh :: "fresnel_wavefront \<Rightarrow> bool" where
  "outside_rayleigh w = (Fin (rayl_factor w) * z_R w < \<bar>Fin (z_w0 w - z w)\<bar>)"

definition R_input_beam :: "fresnel_wavefront \<Rightarrow> xreal" where
  "R_input_beam w = (if outside_rayleigh w then Fin (z w - z_w0 w) else PInf)"

definition classify :: "fresnel_wavefront \<Rightarrow> fresnel_wavefront" where
  "classify w =
     (if outside_rayleigh w
      then (add_log [(DEBUG, ''spherical''), (DEBUG, ''param_str'')] w)\<lparr>spherical := True\<rparr>
      else w)"

text \<open>Lines 628-635: the curvature \<^verbatim>\<open>r_curve\<close> behind the lens.\<close>

definition at_pupil_or_image :: "PlaneType \<Rightarrow> bool" where
  "at_pupil_or_image p = (p = PUPIL \<or> p = IMAGE)"

definition r_curve :: "optic \<Rightarrow> real \<Rightarrow> fresnel_wavefront \<Rightarrow> xreal" where
  "r_curve optic zl w =
     (if at_pupil_or_image (planetype w) then Fin (- fl optic)
      else Fin 1 / (Fin 1 / R_c w zl - Fin 1 / Fin (fl optic)))"

text \<open>
  Lines 637-645: the new waist. A flat output when \<^verbatim>\<open>self.R_c(zl) == optic.fl\<close>,
  the transformation of a Gaussian beam by a lens otherwise.
\<close>

definition new_z_w0 :: "real \<Rightarrow> xreal \<Rightarrow> xreal \<Rightarrow> real \<Rightarrow> xreal" where
  "new_z_w0 lam r new_waist zl =
     - r / (Fin 1 + xsq (Fin lam * r / (Fin pi * xsq new_waist))) + Fin zl"

definition new_w_0 :: "real \<Rightarrow> xreal \<Rightarrow> xreal \<Rightarrow> xreal" where
  "new_w_0 lam r new_waist =
     new_waist / xsqrt (Fin 1 + xsq (Fin pi * xsq new_waist / (Fin lam * r)))"

definition update_waist ::
  "optic \<Rightarrow> real \<Rightarrow> xreal \<Rightarrow> xreal \<Rightarrow> fresnel_wavefront \<Rightarrow> fresnel_wavefront result" where
  "update_waist optic zl new_waist r w =
     (if xeq (R_c w zl) (Fin (fl optic)) then
        bind (store new_waist) (\<lambda>w0'.
          Inr ((add_log [(DEBUG, ''has a flat output wavefront'')] w)
                 \<lparr>z_w0 := zl, w_0 := w0'\<rparr>))
      else
        bind (store (new_z_w0 (wavelength w) r new_waist zl)) (\<lambda>zw.
        bind (store (new_w_0 (wavelength w) r new_waist)) (\<lambda>w0'.
          Inr (add_log [(DEBUG, ''has a curvature of ='')] (w\<lparr>z_w0 := zw, w_0 := w0'\<rparr>)))))"

text \<open>Lines 650-651: the test for the Fraunhofer shortcut.\<close>

definition fraunhofer_suffices :: "optic \<Rightarrow> fresnel_wavefront \<Rightarrow> bool" where
  "fraunhofer_suffices optic w =
     (\<not> force_fresnel w \<and> at_pupil_or_image (planetype w) \<and>
      at_pupil_or_image (optic_planetype optic))"

text \<open>
  \<^verbatim>\<open>self.propagateTo(optic)\<close> (line 654): the method of the base class acts on
  the base attributes; the attributes of the subclass stay as they are.
\<close>

definition propagateTo_base :: "env \<Rightarrow> optic \<Rightarrow> fresnel_wavefront \<Rightarrow> fresnel_wavefront result" where
  "propagateTo_base E optic w =
     bind (propagateTo E optic (poppy_wavefront.truncate w))
       (\<lambda>b. Inr (poppy_wavefront.extend b (poppy_wavefront.more w)))"

text \<open>
  Lines 660-693: the effective focal length \<^verbatim>\<open>z_eff\<close>. The result records, in the
  order of execution, which assignments to \<^verbatim>\<open>z_eff\<close> ran and the denominator of
  every division that ran (those of the three debug messages of the
  spherical-to-spherical case included), the last value of \<^verbatim>\<open>z_eff\<close> if it was
  assigned at all, the \<^verbatim>\<open>spherical\<close> flag afterwards, and the messages logged.
\<close>

datatype zeff_case =
    NearField | PlaneToSpherical | SphSph_Rzero | SphSph_AtWaist | SphSph_Generic
  | SphericalToPlanar

record zeff_result =
  assigned :: "zeff_case list"
  divisors :: "xreal list"
  z_eff :: "xreal option"
  now_spherical :: bool
  messages :: "log_entry list"

definition effective_focal_length ::
  "optic \<Rightarrow> real \<Rightarrow> xreal \<Rightarrow> fresnel_wavefront \<Rightarrow> zeff_result" where
  "effective_focal_length optic zl R w =
     (let near = (\<bar>Fin (z_w0 w - zl)\<bar> < z_R w);
          far = (z_R w < \<bar>Fin (z_w0 w - zl)\<bar>);
          F = Fin (fl optic);
          d = Fin (z w - z_w0 w)
      in
      if \<not> spherical w \<and> near then
        \<lparr>assigned = [NearField], divisors = [], z_eff = Some F,
         now_spherical = spherical w,
         messages = [(DEBUG, ''Near-field, Plane-to-Plane Propagation.'')]\<rparr>
      else if \<not> spherical w \<and> far then
        \<lparr>assigned = [PlaneToSpherical],
         divisors = [F, d, Fin 1 / F + Fin 1 / d],
         z_eff = Some (Fin 1 / (Fin 1 / F + Fin 1 / d)),
         now_spherical = True,
         messages = [(DEBUG, ''Inside Rayleigh distance to Outside Rayleigh distance.'')]\<rparr>
      else if spherical w \<and> far then
        (let msgs = [(DEBUG, ''Spherical to Spherical wavefront propagation.''),
                     (DEBUG, ''1/fl=''), (DEBUG, ''1.0/(R_input_beam)=''),
                     (DEBUG, ''1.0/(self.z-self.z_w0)='')];
             first_if = (if xeq R (Fin 0) then [SphSph_Rzero] else []);
             first_divs = (if xeq R (Fin 0) then [F, R, Fin 1 / F - Fin 1 / R] else [])
         in
         if zl - z_w0 w = 0 then
           \<lparr>assigned = first_if @ [SphSph_AtWaist],
            divisors = [F, R, d] @ first_divs @ [F, d, Fin 1 / F + Fin 1 / d],
            z_eff = Some (Fin 1 / (Fin 1 / F + Fin 1 / d)),
            now_spherical = spherical w, messages = msgs\<rparr>
         else
           \<lparr>assigned = first_if @ [SphSph_Generic],
            divisors = [F, R, d] @ first_divs @
                       [F, d, R, Fin 1 / F + Fin 1 / d - Fin 1 / R],
            z_eff = Some (Fin 1 / (Fin 1 / F + Fin 1 / d - Fin 1 / R)),
            now_spherical = spherical w, messages = msgs\<rparr>)
      else if spherical w \<and> near then
        \<lparr>assigned = [SphericalToPlanar],
         divisors = [F, R, Fin 1 / F - Fin 1 / R],
         z_eff = Some (Fin 1 / (Fin 1 / F - Fin 1 / R)),
         now_spherical = False,
         messages = [(DEBUG, ''Spherical to Planar.'')]\<rparr>
      else
        \<lparr>assigned = [], divisors = [], z_eff = None,
         now_spherical = spherical w, messages = []\<rparr>)"

text \<open>
  Lines 695-703, after \<^verbatim>\<open>z_eff\<close>: the phase of the effective optic is applied
  (an unassigned \<^verbatim>\<open>z_eff\<close> raises UnboundLocalError), the new waist is appended to
  the two history lists, and the plane type becomes the optic's.
\<close>

definition apply_phase :: "env \<Rightarrow> optic \<Rightarrow> zeff_result \<Rightarrow> fresnel_wavefront \<Rightarrow> fresnel_wavefront result" where
  "apply_phase E optic r w =
     (let w1 = (add_log (messages r) w)\<lparr>spherical := now_spherical r\<rparr> in
      case z_eff r of
        None \<Rightarrow> Inl UnboundLocalError
      | Some ze \<Rightarrow>
          bind (imul_QuadPhase E (- ze) (wavelength w1) w1) (\<lambda>w2.
            Inr (w2\<lparr>waists_z := waists_z w2 @ [z_w0 w2],
                  waists_w0 := waists_w0 w2 @ [w_0 w2],
                  planetype := optic_planetype optic\<rparr>)))"

text \<open>
  \<^verbatim>\<open>apply_optic\<close>, lines 614-647, from the first debug message to the one after the
  new waist: the local \<^verbatim>\<open>R_input_beam\<close> and the wavefront with its beam parameters
  updated.
\<close>

definition beam_update :: "optic \<Rightarrow> real \<Rightarrow> fresnel_wavefront \<Rightarrow> (xreal \<times> fresnel_wavefront) result" where
  "beam_update optic zl w =
     (let wa = add_log [(DEBUG, ''Pre-Lens Parameters:'')] w;
          new_waist = spot_radius wa zl;
          wb = classify (add_log [(DEBUG, ''Beam radius at'')] wa);
          R = R_input_beam wa;
          r = r_curve optic zl wb;
          wc = add_log [(DEBUG, if at_pupil_or_image (planetype wb)
                                then '' input flat wavefront and ''
                                else '' input curved wavefront '')] wb
      in
      bind (update_waist optic zl new_waist r wc) (\<lambda>wd.
        Inr (R, add_log [(DEBUG, ''Post Optic Parameters:'')] wd)))"

text \<open>\<^verbatim>\<open>apply_optic\<close> (lines 590-703).\<close>

definition apply_optic ::
  "env \<Rightarrow> optic \<Rightarrow> real \<Rightarrow> bool \<Rightarrow> fresnel_wavefront \<Rightarrow> fresnel_wavefront result" where
  "apply_optic E optic z_lens ignore_wavefront w =
     (if oversample w \<noteq> optic_oversample optic then Inl AssertionError
      else
        bind (beam_update optic z_lens w) (\<lambda>(R, we).
          if fraunhofer_suffices optic we then
            propagateTo_base E optic
              (add_log [(DEBUG, ''Simple pupil / image propagation, Fresnel unnecessary.'')] we)
          else if ignore_wavefront then Inr we
          else apply_phase E optic (effective_focal_length optic z_lens R we) we))"

subsection \<open>Well-formed arrays, and the two normalised transforms as arrays\<close>

text \<open>
  A numpy array with at least one entry; the array \<^verbatim>\<open>fft()\<close> leaves in
  \<^verbatim>\<open>self.wavefront\<close> under the numpy backend, and the one \<^verbatim>\<open>inv_fft()\<close> leaves.
\<close>

definition grid :: "'a list list \<Rightarrow> bool" where
  "grid X = (rect X \<and> 0 < shape0 X \<and> 0 < shape1 X)"

definition fft_array :: "ndarray \<Rightarrow> ndarray" where
  "fft_array X = tabulate2 (shape0 X) (shape1 X)
     (\<lambda>k l. dft2 (- 1) X k l / of_nat (shape0 X))"

definition ifft_array :: "ndarray \<Rightarrow> ndarray" where
  "ifft_array X = tabulate2 (shape0 X) (shape1 X)
     (\<lambda>k l. dft2 1 X k l / of_nat (shape0 X * shape1 X) * of_nat (shape0 X))"

text \<open>
  A wavefront on which the kernels run to their end under the numpy backend: the field is
  an array with at least one entry, and the wavelength, the pixel scale, the oversampling
  and \<^verbatim>\<open>n\<close> are not zero (the constructor makes them positive).
\<close>

definition well_formed :: "env \<Rightarrow> fresnel_wavefront \<Rightarrow> bool" where
  "well_formed E w = (\<not> USE_FFTW E \<and> grid (wavefront w) \<and> wavelength w \<noteq> 0 \<and>
     pixelscale w \<noteq> 0 \<and> oversample w \<noteq> 0 \<and> n w \<noteq> 0)"

text \<open>Two arrays of the same shape, the second with at least one entry.\<close>

definition same_grid :: "'a list list \<Rightarrow> 'b list list \<Rightarrow> bool" where
  "same_grid X Y = (grid Y \<and> shape0 Y = shape0 X \<and> shape1 Y = shape1 X)"

text \<open>
  The phase and the phasor array of \<^verbatim>\<open>QuadPhase.getPhasor\<close> when the wavelength
  and the radius are finite and not zero, as real-number expressions.
\<close>

definition quad_phase :: "real \<Rightarrow> real \<Rightarrow> real \<times> real \<Rightarrow> real" where
  "quad_phase lam zm yx = 2 * pi / lam * ((snd yx)\<^sup>2 + (fst yx)\<^sup>2) / (2 * zm)"

definition phasor_array :: "env \<Rightarrow> real \<Rightarrow> real \<Rightarrow> PlaneType \<Rightarrow> nat \<times> nat \<Rightarrow> real \<Rightarrow> ndarray" where
  "phasor_array E lam zm pt sh ps =
     tabulate2 (fst sh) (snd sh) (\<lambda>i j. cis (quad_phase lam zm (coordinates E pt sh ps i j)))"

subsection \<open>Concrete inputs\<close>

text \<open>
  The state \<^verbatim>\<open>__init__\<close> leaves (lines 187-231) around a field \<open>X\<close> of the base
  constructor, with wavelength \<open>lam\<close>, pixel scale \<open>ps\<close> and beam radius \<open>W\<close>:
  a planar wavefront at a pupil, at \<open>z = 0\<close>, with its waist there, and the defaults
  \<^verbatim>\<open>force_fresnel=True, rayl_factor=2.0, oversample=2\<close>.
\<close>

definition init_wavefront :: "ndarray \<Rightarrow> real \<Rightarrow> real \<Rightarrow> real \<Rightarrow> fresnel_wavefront" where
  "init_wavefront X lam ps W =
     \<lparr>wavefront = X, pixelscale = ps, planetype = PUPIL, history = [Padded],
      wavelength = lam, logged = [],
      oversample = 2, w_0 = W, z = 0, z_w0 = 0, waists_w0 = [W], waists_z = [0],
      spherical = False, force_fresnel = True, rayl_factor = 2, n = shape0 X\<rparr>"

text \<open>
  Coordinate grids for \<^verbatim>\<open>coordinates()\<close>: the pixel index minus the centre of the
  axis, times the pixel scale. Two conventions for the centre of an axis of length \<open>n\<close>
  are in use: \<open>(n - 1) / 2\<close>, between the two middle pixels, and \<open>n / 2\<close>, the FFT
  centre that \<^verbatim>\<open>fft_coords\<close> uses.
\<close>

definition centred_at :: "(nat \<Rightarrow> real) \<Rightarrow> PlaneType \<Rightarrow> nat \<times> nat \<Rightarrow> real \<Rightarrow> nat \<Rightarrow> nat \<Rightarrow> real \<times> real" where
  "centred_at c pt sh ps i j = ((real i - c (fst sh)) * ps, (real j - c (snd sh)) * ps)"

definition mid_centre :: "nat \<Rightarrow> real" where
  "mid_centre k = (real k - 1) / 2"

definition fft_centre :: "nat \<Rightarrow> real" where
  "fft_centre k = real k / 2"

text \<open>
  An environment with the numpy backend and such a grid. Its \<^verbatim>\<open>propagateTo\<close>
  leaves the base attributes as they are.
\<close>

definition numpy_env :: "(nat \<Rightarrow> real) \<Rightarrow> env" where
  "numpy_env c = \<lparr>conf_use_fftw = False, FFTW_AVAILABLE = False,
     coordinates = centred_at c, propagateTo = (\<lambda>optic b. Inr b)\<rparr>"

text \<open>Two runs with the same outcome up to the output of the logger.\<close>

definition same_run :: "fresnel_wavefront result \<Rightarrow> fresnel_wavefront result \<Rightarrow> bool" where
  "same_run r1 r2 = (map_sum id nolog r1 = map_sum id nolog r2)"

text \<open>
  The outcome of a kernel on a well-formed wavefront: it returns, and the wavefront it
  returns differs from \<open>w\<close> at most in the field (of the same shape), the log, the
  pixel scale (not zero), the history, and in \<open>z\<close>, which is \<open>zz\<close>.
\<close>

definition steps_to :: "fresnel_wavefront \<Rightarrow> real \<Rightarrow> fresnel_wavefront result \<Rightarrow> bool" where
  "steps_to w zz r = (\<exists>X L H ps. same_grid (wavefront w) X \<and> ps \<noteq> 0 \<and>
     r = Inr (w\<lparr>wavefront := X, logged := L, pixelscale := ps, z := zz, history := H\<rparr>))"

text \<open>
  The distance \<^verbatim>\<open>propagate_fresnel\<close> hands to \<^verbatim>\<open>ptp\<close>, row by row (0 in the
  spherical, out-of-range row, which calls no \<^verbatim>\<open>ptp\<close>).
\<close>

definition ptp_leg :: "fresnel_wavefront \<Rightarrow> real \<Rightarrow> real" where
  "ptp_leg w delta_z =
     (let zt = z w + delta_z in
      if \<not> spherical w then (if planar_range w zt then delta_z else z_w0 w - z w)
      else (if planar_range w zt then zt - z_w0 w else 0))"

text \<open>
  The dispatch as the specification describes it: shift the field, run the kernels of the
  table, shift the field again, mark the plane as intermediate.
\<close>

definition table_run :: "env \<Rightarrow> real \<Rightarrow> fresnel_wavefront \<Rightarrow> fresnel_wavefront result" where
  "table_run E delta_z w =
     bind (run_kernels E (regime_table w delta_z) (w\<lparr>wavefront := fftshift (wavefront w)\<rparr>))
       (\<lambda>w'. Inr (w'\<lparr>wavefront := fftshift (wavefront w'), planetype := INTERMED\<rparr>))"

text \<open>
  A \<^verbatim>\<open>GaussianLens\<close> of focal length \<open>f\<close> with the defaults of its constructor
  (lines 107-113): an intermediate plane, oversampling 2.
\<close>

definition GaussianLens :: "real \<Rightarrow> optic" where
  "GaussianLens f = \<lparr>optic_name = ''Gaussian Lens'', optic_planetype = INTERMED,
     optic_oversample = 2, fl = f\<rparr>"

section \<open>Properties\<close>

subsection \<open>Results and floating-point values\<close>

lemma bind_simps [simp]:
  "bind (Inr x) f = f x"
  "bind (Inl e) f = Inl e"
  by (simp_all add: bind_def)

lemma bind_eq_Inr: "bind r f = Inr y \<longleftrightarrow> (\<exists>x. r = Inr x \<and> f x = Inr y)"
  by (cases r) simp_all

lemma xreal_arith [simp]:
  "Fin a + Fin b = Fin (a + b)"
  "Fin a - Fin b = Fin (a - b)"
  "- Fin a = Fin (- a)"
  "Fin a * Fin b = Fin (a * b)"
  "\<bar>Fin a\<bar> = Fin \<bar>a\<bar>"
  "(Fin a < Fin b) = (a < b)"
  "xsq (Fin a) = Fin (a * a)"
  by (simp_all add: plus_xreal_def minus_xreal_def uminus_xreal_def times_xreal_def
      abs_xreal_def less_xreal_def xsq_def)

lemma xreal_div [simp]:
  "Fin a / Fin b = (if b = 0 then signed_inf a else Fin (a / b))"
  "Fin a / PInf = Fin 0"
  "Fin a / MInf = Fin 0"
  by (simp_all add: divide_xreal_def)

lemma xreal_inf [simp]:
  "Fin a + PInf = PInf" "PInf + Fin a = PInf"
  "Fin a - PInf = MInf" "PInf - Fin a = PInf"
  "(Fin a < PInf) = True" "(PInf < Fin a) = False"
  "(PInf < PInf) = False" "\<bar>PInf\<bar> = PInf"
  "(NaN < b) = False" "(b < NaN) = False"
  "- PInf = MInf" "- MInf = PInf" "- NaN = NaN"
  by (cases b; simp add: plus_xreal_def minus_xreal_def uminus_xreal_def times_xreal_def
      abs_xreal_def less_xreal_def xsq_def)+

lemma signed_inf_simps [simp]:
  "signed_inf 0 = NaN" "0 < a \<Longrightarrow> signed_inf a = PInf" "a < 0 \<Longrightarrow> signed_inf a = MInf"
  by (simp_all add: signed_inf_def)

lemma store_eq_Inr [simp]: "store x = Inr a \<longleftrightarrow> x = Fin a"
  by (cases x) simp_all

subsection \<open>Arrays\<close>

lemma shape0_tabulate2 [simp]: "shape0 (tabulate2 M N f) = M"
  by (simp add: tabulate2_def shape0_def)

lemma shape1_tabulate2 [simp]: "0 < M \<Longrightarrow> shape1 (tabulate2 M N f) = N"
proof -
  assume "0 < M"
  then have "[0..<M] = 0 # [Suc 0..<M]" by (rule upt_conv_Cons)
  then show ?thesis by (simp add: tabulate2_def shape1_def)
qed

lemma rect_tabulate2 [simp]: "rect (tabulate2 M N f)"
proof (cases "0 < M")
  case True
  then have "shape1 (tabulate2 M N f) = N" by simp
  then show ?thesis
    unfolding rect_def list_all_iff by (auto simp: tabulate2_def)
next
  case False
  then show ?thesis by (simp add: rect_def tabulate2_def)
qed

lemma nth_tabulate2 [simp]: "i < M \<Longrightarrow> j < N \<Longrightarrow> tabulate2 M N f ! i ! j = f i j"
  by (simp add: tabulate2_def)

lemma rect_nth: "rect X \<Longrightarrow> i < shape0 X \<Longrightarrow> length (X ! i) = shape1 X"
  by (simp add: rect_def list_all_length shape0_def)

lemma tabulate2_cong:
  "(\<And>i j. i < M \<Longrightarrow> j < N \<Longrightarrow> f i j = g i j) \<Longrightarrow> tabulate2 M N f = tabulate2 M N g"
  by (simp add: tabulate2_def)

lemma array_eqI:
  assumes "rect X" "rect Y" "shape0 X = shape0 Y" "shape1 X = shape1 Y"
    and "\<And>i j. i < shape0 X \<Longrightarrow> j < shape1 X \<Longrightarrow> X ! i ! j = Y ! i ! j"
  shows "X = Y"
proof (rule nth_equalityI)
  show "length X = length Y" using assms(3) by (simp add: shape0_def)
next
  fix i assume i: "i < length X"
  then have lx: "length (X ! i) = shape1 X" using assms(1) by (simp add: rect_nth shape0_def)
  from i have ly: "length (Y ! i) = shape1 Y" using assms(2,3) by (simp add: rect_nth shape0_def)
  show "X ! i = Y ! i"
  proof (rule nth_equalityI)
    show "length (X ! i) = length (Y ! i)" using lx ly assms(4) by simp
  next
    fix j assume "j < length (X ! i)"
    then show "X ! i ! j = Y ! i ! j" using assms(5) i lx by (simp add: shape0_def)
  qed
qed

subsection \<open>The discrete Fourier transform and its inverse\<close>

lemma root_sum:
  assumes "p < M" "m < M"
  shows "(\<Sum>k<M. cis (2 * pi * (real k * (real p - real m) / real M))) =
    (if p = m then of_nat M else 0)"
proof (cases "p = m")
  case True
  then show ?thesis by simp
next
  case False
  define x where "x = cis (2 * pi * ((real p - real m) / real M))"
  have M: "M > 0" using assms by simp
  have pow: "cis (2 * pi * (real k * (real p - real m) / real M)) = x ^ k" for k
    unfolding x_def by (simp add: DeMoivre algebra_simps)
  have xM: "x ^ M = 1"
  proof -
    have "x ^ M = cis (2 * pi * (real p - real m))"
      unfolding x_def using M by (simp add: DeMoivre)
    also have "(real p - real m) = of_int (int p - int m)" by simp
    also have "cis (2 * pi * of_int (int p - int m)) = 1"
      by (rule cis_multiple_2pi) simp
    finally show ?thesis .
  qed
  have x1: "x \<noteq> 1"
  proof
    assume "x = 1"
    then have "cos (2 * pi * ((real p - real m) / real M)) = 1"
      unfolding x_def by (metis cis.simps(1) one_complex.simps(1))
    then obtain j :: int where "2 * pi * ((real p - real m) / real M) = of_int j * (2 * pi)"
      using cos_one_2pi_int by (auto simp: mult.assoc)
    then have "2 * pi * ((real p - real m) / real M) = 2 * pi * of_int j"
      by (simp add: mult.commute)
    then have "(real p - real m) / real M = of_int j"
      by (simp only: mult_cancel_left) simp
    then have "real p - real m = of_int j * real M" using M by (simp add: field_simps)
    then have "real_of_int (int p - int m) = real_of_int (j * int M)" by simp
    then have e: "int p - int m = j * int M" using of_int_eq_iff by blast
    have "\<bar>int p - int m\<bar> < int M" using assms by linarith
    with e have "\<bar>j\<bar> * int M < 1 * int M" by (simp add: abs_mult)
    then have "\<bar>j\<bar> < 1" using M by (simp only: mult_less_cancel_right)
    then have "j = 0" by simp
    with e False show False by simp
  qed
  have "(\<Sum>k<M. x ^ k) = (x ^ M - 1) / (x - 1)"
    using x1 by (rule geometric_sum)
  with xM have "(\<Sum>k<M. x ^ k) = 0" by simp
  with False show ?thesis by (simp only: pow if_False)
qed

lemma root_sum_sgn:
  assumes "s = 1 \<or> s = - 1" "p < M" "m < M"
  shows "(\<Sum>k<M. cis (s * (2 * pi * (real k * (real p - real m) / real M)))) =
    (if p = m then of_nat M else 0)"
proof (cases "s = 1")
  case True
  then show ?thesis using root_sum[OF assms(2,3)] by simp
next
  case False
  then have s: "s = - 1" using assms(1) by simp
  have "(\<Sum>k<M. cis (s * (2 * pi * (real k * (real p - real m) / real M)))) =
        (\<Sum>k<M. cis (2 * pi * (real k * (real m - real p) / real M)))"
    by (rule sum.cong[OF refl]) (simp add: s algebra_simps minus_divide_left)
  also have "\<dots> = (if m = p then of_nat M else 0)" by (rule root_sum[OF assms(3,2)])
  finally show ?thesis by (simp add: eq_commute)
qed

lemma sum_factor2:
  fixes c :: complex
  shows "(\<Sum>k\<in>A. \<Sum>l\<in>B. c * (a k * b l)) = c * (sum a A * sum b B)"
proof -
  have "sum a A * sum b B = (\<Sum>k\<in>A. \<Sum>l\<in>B. a k * b l)" by (rule sum_product)
  then show ?thesis by (simp only: sum_distrib_left)
qed

lemma sum_delta_mult:
  fixes f :: "nat \<Rightarrow> complex"
  assumes "q < N"
  shows "(\<Sum>j<N. f j * (if q = j then d else 0)) = f q * d"
proof -
  have "(\<Sum>j<N. f j * (if q = j then d else 0)) = (\<Sum>j<N. if q = j then f j * d else 0)"
    by (rule sum.cong[OF refl]) simp
  also have "\<dots> = f q * d" using assms by (simp add: sum.delta')
  finally show ?thesis .
qed

lemma cis_split2:
  "cis (s * (2 * pi * (real m * real k / real M + real j * real l / real N))) *
   cis (- s * (2 * pi * (real k * real p / real M + real l * real q / real N))) =
   cis (- s * (2 * pi * (real k * (real p - real m) / real M))) *
   cis (- s * (2 * pi * (real l * (real q - real j) / real N)))"
  by (simp add: cis_mult algebra_simps diff_divide_distrib add_divide_distrib)

lemma dft2_inverse:
  assumes s: "s = 1 \<or> s = - 1"
    and sh: "shape0 Y = shape0 X" "shape1 Y = shape1 X"
    and Y: "\<And>k l. k < shape0 X \<Longrightarrow> l < shape1 X \<Longrightarrow> Y ! k ! l = c * dft2 s X k l"
    and pq: "p < shape0 X" "q < shape1 X"
  shows "dft2 (- s) Y p q = c * (of_nat (shape0 X) * of_nat (shape1 X)) * X ! p ! q"
proof -
  define M where "M = shape0 X"
  define N where "N = shape1 X"
  have MN: "p < M" "q < N" using pq by (auto simp: M_def N_def)
  have s': "- s = 1 \<or> - s = - 1" using s by auto
  let ?w = "\<lambda>m j k l. cis (s * (2 * pi * (real m * real k / real M + real j * real l / real N)))"
  let ?v = "\<lambda>k l. cis (- s * (2 * pi * (real k * real p / real M + real l * real q / real N)))"
  let ?a = "\<lambda>k m. cis (- s * (2 * pi * (real k * (real p - real m) / real M)))"
  let ?b = "\<lambda>l j. cis (- s * (2 * pi * (real l * (real q - real j) / real N)))"
  have "dft2 (- s) Y p q = (\<Sum>k<M. \<Sum>l<N. Y ! k ! l * ?v k l)"
    by (simp add: dft2_def sh M_def N_def)
  also have "\<dots> = (\<Sum>k<M. \<Sum>l<N. (c * (\<Sum>m<M. \<Sum>j<N. X ! m ! j * ?w m j k l)) * ?v k l)"
    by (rule sum.cong[OF refl], rule sum.cong[OF refl]) (simp add: Y dft2_def M_def N_def)
  also have "\<dots> = (\<Sum>k<M. \<Sum>l<N. \<Sum>m<M. \<Sum>j<N. (c * X ! m ! j) * (?a k m * ?b l j))"
    by (simp only: sum_distrib_left sum_distrib_right mult.assoc[where 'a=complex] cis_split2)
  also have "\<dots> = (\<Sum>m<M. \<Sum>j<N. \<Sum>k<M. \<Sum>l<N. (c * X ! m ! j) * (?a k m * ?b l j))"
  proof -
    have "(\<Sum>k<M. \<Sum>l<N. \<Sum>m<M. \<Sum>j<N. (c * X ! m ! j) * (?a k m * ?b l j))
        = (\<Sum>k<M. \<Sum>m<M. \<Sum>l<N. \<Sum>j<N. (c * X ! m ! j) * (?a k m * ?b l j))"
      by (rule sum.cong[OF refl]) (rule sum.swap)
    also have "\<dots> = (\<Sum>m<M. \<Sum>k<M. \<Sum>l<N. \<Sum>j<N. (c * X ! m ! j) * (?a k m * ?b l j))"
      by (rule sum.swap)
    also have "\<dots> = (\<Sum>m<M. \<Sum>k<M. \<Sum>j<N. \<Sum>l<N. (c * X ! m ! j) * (?a k m * ?b l j))"
      by (rule sum.cong[OF refl], rule sum.cong[OF refl], rule sum.swap)
    also have "\<dots> = (\<Sum>m<M. \<Sum>j<N. \<Sum>k<M. \<Sum>l<N. (c * X ! m ! j) * (?a k m * ?b l j))"
      by (rule sum.cong[OF refl], rule sum.swap)
    finally show ?thesis .
  qed
  also have "\<dots> = (\<Sum>m<M. \<Sum>j<N. (c * X ! m ! j) * ((\<Sum>k<M. ?a k m) * (\<Sum>l<N. ?b l j)))"
    by (simp only: sum_factor2)
  also have "\<dots> = (\<Sum>m<M. \<Sum>j<N. (c * X ! m ! j) *
       ((if p = m then of_nat M else 0) * (if q = j then of_nat N else 0)))"
  proof (rule sum.cong[OF refl], rule sum.cong[OF refl])
    fix m j assume "m \<in> {..<M}" "j \<in> {..<N}"
    then have "m < M" "j < N" by simp_all
    then show "(c * X ! m ! j) * ((\<Sum>k<M. ?a k m) * (\<Sum>l<N. ?b l j)) =
       (c * X ! m ! j) * ((if p = m then of_nat M else 0) * (if q = j then of_nat N else 0))"
      by (simp only: root_sum_sgn[OF s' MN(1)] root_sum_sgn[OF s' MN(2)])
  qed
  also have "\<dots> = (\<Sum>m<M. (if p = m then of_nat M else 0) * ((c * X ! m ! q) * of_nat N))"
    by (rule sum.cong[OF refl])
      (simp only: mult.left_commute[of "c * X ! _ ! _"] sum_distrib_left[symmetric]
        sum_delta_mult[OF MN(2)])
  also have "\<dots> = (\<Sum>m<M. ((c * X ! m ! q) * of_nat N) * (if p = m then of_nat M else 0))"
    by (simp only: mult.commute)
  also have "\<dots> = (c * X ! p ! q) * of_nat N * of_nat M"
    by (simp only: sum_delta_mult[OF MN(1)])
  finally show ?thesis by (simp add: M_def N_def)
qed

subsection \<open>Array operations on tabulated arrays\<close>

lemma rect_tabulate2_eq:
  assumes "rect X"
  shows "tabulate2 (shape0 X) (shape1 X) (\<lambda>i j. X ! i ! j) = X"
proof (cases "0 < shape0 X")
  case True
  show ?thesis
    by (rule array_eqI) (use True assms in simp_all)
next
  case False
  then show ?thesis by (simp add: tabulate2_def shape0_def)
qed

lemma div_arr_tabulate2: "div_arr (tabulate2 M N f) c = tabulate2 M N (\<lambda>i j. f i j / c)"
  by (simp add: div_arr_def tabulate2_def)

lemma scale_arr_tabulate2: "scale_arr c (tabulate2 M N f) = tabulate2 M N (\<lambda>i j. f i j * c)"
  by (simp add: scale_arr_def tabulate2_def)

lemma map2_map_upt:
  "map2 h (map f [0..<N]) (map g [0..<N]) = map (\<lambda>j. h (f j) (g j)) [0..<N]"
  by (rule nth_equalityI) simp_all

lemma mul_arr_tabulate2:
  "mul_arr (tabulate2 M N f) (tabulate2 M N g) = tabulate2 M N (\<lambda>i j. f i j * g i j)"
  unfolding mul_arr_def tabulate2_def
  by (simp only: map2_map_upt)

lemma collect_map_Inr: "collect (map (\<lambda>j. Inr (g j)) xs) = Inr (map g xs)"
  by (induction xs) simp_all

lemma collect2_tabulate2_Inr:
  "collect2 (tabulate2 M N (\<lambda>i j. Inr (g i j))) = Inr (tabulate2 M N g)"
proof -
  have "map collect (tabulate2 M N (\<lambda>i j. Inr (g i j))) =
        map (\<lambda>i. Inr (map (g i) [0..<N])) [0..<M]"
    by (simp add: tabulate2_def collect_map_Inr comp_def)
  then have "collect2 (tabulate2 M N (\<lambda>i j. Inr (g i j))) =
        collect (map (\<lambda>i. Inr (map (g i) [0..<N])) [0..<M])"
    by (simp only: collect2_def)
  also have "\<dots> = Inr (map (\<lambda>i. map (g i) [0..<N]) [0..<M])"
    by (rule collect_map_Inr)
  finally show ?thesis by (simp only: tabulate2_def)
qed

lemma collect2_tabulate2:
  assumes "\<And>i j. i < M \<Longrightarrow> j < N \<Longrightarrow> f i j = Inr (g i j)"
  shows "collect2 (tabulate2 M N f) = Inr (tabulate2 M N g)"
proof -
  have "tabulate2 M N f = tabulate2 M N (\<lambda>i j. Inr (g i j))"
    by (rule tabulate2_cong) (rule assms)
  then show ?thesis by (simp add: collect2_tabulate2_Inr)
qed

subsection \<open>The FFT pair\<close>

lemma grid_tabulate2 [simp]: "grid (tabulate2 M N f) = (0 < M \<and> 0 < N)"
  by (auto simp: grid_def)

lemma grid_shape: "grid X \<Longrightarrow> 0 < shape0 X" "grid X \<Longrightarrow> 0 < shape1 X" "grid X \<Longrightarrow> rect X"
  by (simp_all add: grid_def)

lemma shape_fft_array [simp]:
  "shape0 (fft_array X) = shape0 X" "grid X \<Longrightarrow> shape1 (fft_array X) = shape1 X"
  "shape0 (ifft_array X) = shape0 X" "grid X \<Longrightarrow> shape1 (ifft_array X) = shape1 X"
  by (simp_all add: fft_array_def ifft_array_def grid_def)

lemma grid_fft_array [simp]: "grid X \<Longrightarrow> grid (fft_array X)" "grid X \<Longrightarrow> grid (ifft_array X)"
  by (simp_all add: fft_array_def ifft_array_def grid_def)

lemma fft_numpy:
  assumes "\<not> USE_FFTW E" "grid (wavefront w)"
  shows "fft E w = Inr (w\<lparr>logged := logged w @ [(DEBUG, ''Using numpy FFT'')],
     wavefront := fft_array (wavefront w)\<rparr>)"
  using assms by (simp add: fft_def np_fft2_def grid_def shape_def div_arr_tabulate2 fft_array_def)

lemma inv_fft_numpy:
  assumes "\<not> USE_FFTW E" "grid (wavefront w)"
  shows "inv_fft E w = Inr (w\<lparr>logged := logged w @ [(DEBUG, ''Using numpy FFT'')],
     wavefront := ifft_array (wavefront w)\<rparr>)"
  using assms
  by (simp only: inv_fft_def np_ifft2_def grid_def shape_def scale_arr_tabulate2 ifft_array_def
      if_False bind_simps fst_conv neq0_conv[symmetric] de_Morgan_disj simp_thms)

lemma ifft_fft_array:
  assumes "grid X"
  shows "ifft_array (fft_array X) = X"
proof -
  let ?M = "shape0 X" and ?N = "shape1 X"
  let ?Y = "fft_array X"
  have MN: "0 < ?M" "0 < ?N" "rect X" using assms by (auto simp: grid_def)
  have "dft2 1 ?Y p q / of_nat (?M * ?N) * of_nat ?M = X ! p ! q"
    if pq: "p < ?M" "q < ?N" for p q
  proof -
    have "dft2 (- (- 1)) ?Y p q = (1 / of_nat ?M) * (of_nat ?M * of_nat ?N) * X ! p ! q"
      by (rule dft2_inverse) (use MN pq assms in \<open>simp_all add: fft_array_def\<close>)
    then show ?thesis using MN by simp
  qed
  then have "tabulate2 ?M ?N (\<lambda>p q. dft2 1 ?Y p q / of_nat (?M * ?N) * of_nat ?M) =
     tabulate2 ?M ?N (\<lambda>p q. X ! p ! q)"
    by (intro tabulate2_cong)
  then show ?thesis
    unfolding ifft_array_def[of ?Y] using assms MN by (simp only: shape_fft_array rect_tabulate2_eq)
qed

lemma fft_ifft_array:
  assumes "grid X"
  shows "fft_array (ifft_array X) = X"
proof -
  let ?M = "shape0 X" and ?N = "shape1 X"
  let ?Y = "ifft_array X"
  have MN: "0 < ?M" "0 < ?N" "rect X" using assms by (auto simp: grid_def)
  have "dft2 (- 1) ?Y p q / of_nat ?M = X ! p ! q"
    if pq: "p < ?M" "q < ?N" for p q
  proof -
    have "dft2 (- 1) ?Y p q = (of_nat ?M / of_nat (?M * ?N)) * (of_nat ?M * of_nat ?N) * X ! p ! q"
      by (rule dft2_inverse) (use MN pq assms in \<open>simp_all add: ifft_array_def\<close>)
    then show ?thesis using MN by simp
  qed
  then have "tabulate2 ?M ?N (\<lambda>p q. dft2 (- 1) ?Y p q / of_nat ?M) =
     tabulate2 ?M ?N (\<lambda>p q. X ! p ! q)"
    by (intro tabulate2_cong)
  then show ?thesis
    unfolding fft_array_def[of ?Y] using assms MN by (simp only: shape_fft_array rect_tabulate2_eq)
qed

lemma inv_fft_fft:
  assumes "\<not> USE_FFTW E" "grid (wavefront w)"
  shows "bind (fft E w) (inv_fft E) =
    Inr (w\<lparr>logged := logged w @ [(DEBUG, ''Using numpy FFT''), (DEBUG, ''Using numpy FFT'')]\<rparr>)"
  using assms by (simp add: fft_numpy inv_fft_numpy ifft_fft_array)

lemma fft_inv_fft:
  assumes "\<not> USE_FFTW E" "grid (wavefront w)"
  shows "bind (inv_fft E w) (fft E) =
    Inr (w\<lparr>logged := logged w @ [(DEBUG, ''Using numpy FFT''), (DEBUG, ''Using numpy FFT'')]\<rparr>)"
  using assms by (simp add: fft_numpy inv_fft_numpy fft_ifft_array)

lemma same_grid_refl [simp]: "same_grid X X = grid X"
  by (auto simp: same_grid_def)

lemma same_grid_tabulate2 [simp]:
  "same_grid X (tabulate2 M N f) = (0 < M \<and> 0 < N \<and> M = shape0 X \<and> N = shape1 X)"
  by (auto simp: same_grid_def)

lemma same_grid_fft_array [simp]:
  "grid X \<Longrightarrow> same_grid X (fft_array X)" "grid X \<Longrightarrow> same_grid X (ifft_array X)"
  by (simp_all add: same_grid_def)

lemma same_grid_trans: "same_grid X Y \<Longrightarrow> same_grid Y Z \<Longrightarrow> same_grid X Z"
  by (simp add: same_grid_def)

lemma same_grid_grid: "same_grid X Y \<Longrightarrow> grid Y"
  by (simp add: same_grid_def)

lemma mul_arr_eq:
  assumes "grid X" "same_grid X Y"
  shows "mul_arr X Y = tabulate2 (shape0 X) (shape1 X) (\<lambda>i j. X ! i ! j * Y ! i ! j)"
proof -
  have "rect X" "rect Y" "shape0 Y = shape0 X" "shape1 Y = shape1 X"
    using assms by (simp_all add: grid_def same_grid_def)
  then have "mul_arr X Y = mul_arr (tabulate2 (shape0 X) (shape1 X) (\<lambda>i j. X ! i ! j))
       (tabulate2 (shape0 X) (shape1 X) (\<lambda>i j. Y ! i ! j))"
    using rect_tabulate2_eq[of X] rect_tabulate2_eq[of Y] by simp
  then show ?thesis by (simp only: mul_arr_tabulate2)
qed

lemma same_grid_mul_arr:
  assumes "grid X" "same_grid X Y"
  shows "same_grid X (mul_arr X Y)"
  using assms by (simp add: mul_arr_eq grid_def)

subsection \<open>fftshift keeps the shape\<close>

lemma length_fftshift1 [simp]: "length (fftshift1 xs) = length xs"
  by (simp add: fftshift1_def)

lemma set_fftshift1 [simp]: "set (fftshift1 xs) = set xs"
  by (simp add: fftshift1_def)

lemma shape0_fftshift [simp]: "shape0 (fftshift X) = shape0 X"
  by (simp add: fftshift_def shape0_def)

lemma grid_fftshift:
  assumes "grid X"
  shows "same_grid X (fftshift X)"
proof -
  have r: "\<forall>r\<in>set X. length r = shape1 X" and p: "X \<noteq> []" "0 < shape1 X"
    using assms by (auto simp: grid_def rect_def list_all_iff shape0_def)
  have "\<forall>r\<in>set (fftshift X). length r = shape1 X"
    using r by (auto simp: fftshift_def)
  moreover have "fftshift X \<noteq> []" using p by (simp add: fftshift_def fftshift1_def)
  ultimately have "shape1 (fftshift X) = shape1 X" "rect (fftshift X)"
    by (auto simp: shape1_def rect_def list_all_iff split: list.splits)
  then show ?thesis using assms by (simp add: same_grid_def grid_def)
qed

lemma fftshift_map_map: "fftshift (map (map f) X) = map (map f) (fftshift X)"
  by (simp add: fftshift_def fftshift1_def rotate_map comp_def)

subsection \<open>The phase factor on a well-formed wavefront\<close>

lemma QuadPhase_phase_finite:
  "lam \<noteq> 0 \<Longrightarrow> zm \<noteq> 0 \<Longrightarrow> QuadPhase_phase lam (Fin zm) yx = Fin (quad_phase lam zm yx)"
  by (simp add: QuadPhase_phase_def quad_phase_def Let_def)

lemma getPhasor_finite:
  assumes "lam \<noteq> 0" "zm \<noteq> 0"
  shows "getPhasor E lam (Fin zm) w =
    Inr (phasor_array E lam zm (planetype w) (shape w) (pixelscale w))"
  unfolding getPhasor_def phasor_array_def
  by (rule collect2_tabulate2) (simp add: QuadPhase_phase_finite[OF assms])

lemma imul_QuadPhase_finite:
  assumes "lam \<noteq> 0" "zm \<noteq> 0"
  shows "imul_QuadPhase E (Fin zm) lam w =
    Inr (w\<lparr>wavefront := mul_arr (wavefront w)
               (phasor_array E lam zm (planetype w) (shape w) (pixelscale w)),
           logged := logged w @
             [(DEBUG, ''Applying spherical phase curvature''),
              (DEBUG, ''Applying spherical lens phase''),
              (DEBUG, ''max_rsqd'')]\<rparr>)"
  by (simp add: imul_QuadPhase_def getPhasor_finite[OF assms])

lemma same_grid_phasor_array:
  "grid X \<Longrightarrow> same_grid X (phasor_array E lam zm pt (shape0 X, shape1 X) ps)"
  by (simp add: phasor_array_def grid_def)

lemma phasor_array_cancel:
  assumes "grid X"
  shows "mul_arr (mul_arr X (phasor_array E lam zm pt (shape0 X, shape1 X) ps))
           (phasor_array E lam (- zm) pt (shape0 X, shape1 X) ps) = X"
proof -
  define M where "M = shape0 X"
  define N where "N = shape1 X"
  define x where "x = (\<lambda>i j. X ! i ! j)"
  define p where "p = (\<lambda>i j. cis (quad_phase lam zm (coordinates E pt (M, N) ps i j)))"
  define q where "q = (\<lambda>i j. cis (quad_phase lam (- zm) (coordinates E pt (M, N) ps i j)))"
  have X: "X = tabulate2 M N x"
    using assms rect_tabulate2_eq[of X] by (simp add: grid_def M_def N_def x_def)
  have "mul_arr (mul_arr (tabulate2 M N x) (tabulate2 M N p)) (tabulate2 M N q) =
        tabulate2 M N (\<lambda>i j. x i j * p i j * q i j)"
    by (simp only: mul_arr_tabulate2)
  also have "\<dots> = tabulate2 M N x"
    by (rule tabulate2_cong) (simp add: p_def q_def quad_phase_def cis_mult)
  finally show ?thesis
    unfolding phasor_array_def fst_conv snd_conv M_def[symmetric] N_def[symmetric]
      p_def[symmetric] q_def[symmetric]
    using X by simp
qed

subsection \<open>The transfer function of ptp\<close>

lemma collect2_map_map_Inr: "collect2 (map (map (\<lambda>x. Inr (g x))) X) = Inr (map (map g) X)"
proof -
  have "map collect (map (map (\<lambda>x. Inr (g x))) X) = map (\<lambda>r. Inr (map g r)) X"
    by (simp add: collect_map_Inr comp_def)
  then have "collect2 (map (map (\<lambda>x. Inr (g x))) X) = collect (map (\<lambda>r. Inr (map g r)) X)"
    by (simp only: collect2_def)
  also have "\<dots> = Inr (map (map g) X)" by (rule collect_map_Inr)
  finally show ?thesis .
qed

lemma same_grid_map_map [simp]: "same_grid X (map (map f) Y) = same_grid X Y"
proof -
  have "shape1 (map (map f) Y) = shape1 Y" by (cases Y) (simp_all add: shape1_def)
  then show ?thesis
    by (simp add: same_grid_def grid_def rect_def shape0_def list_all_iff)
qed

lemma rho_px_finite:
  assumes "pixelscale w \<noteq> 0" "oversample w \<noteq> 0"
  shows "\<exists>r. rho_px w i j = Fin r"
  using assms by (simp add: rho_px_def Let_def split: prod.splits)

lemma exp_T_finite:
  assumes "grid (wavefront w)" "pixelscale w \<noteq> 0" "oversample w \<noteq> 0"
  shows "\<exists>Y. exp_T w zd = Inr Y \<and> same_grid (wavefront w) Y"
proof -
  let ?M = "shape0 (wavefront w)" and ?N = "shape1 (wavefront w)"
  define r where "r = (\<lambda>i j. SOME x. rho_px w i j = Fin x)"
  have r: "rho_px w i j = Fin (r i j)" for i j
    unfolding r_def using rho_px_finite[OF assms(2,3)] by (rule someI_ex)
  let ?R = "tabulate2 ?M ?N r"
  let ?g = "\<lambda>x. cis (- (pi * wavelength w * zd * x))"
  have "tabulate2 ?M ?N (rho_px w) = map (map Fin) ?R"
    by (simp add: tabulate2_def r)
  then have "map (map (exp_T_px w zd)) (fftshift (tabulate2 ?M ?N (rho_px w))) =
     map (map (\<lambda>x. Inr (?g x))) (fftshift ?R)"
    by (simp add: fftshift_map_map comp_def)
  then have "exp_T w zd = Inr (map (map ?g) (fftshift ?R))"
    by (simp add: exp_T_def shape_def collect2_map_map_Inr)
  moreover have "same_grid (wavefront w) (map (map ?g) (fftshift ?R))"
  proof -
    have "grid ?R" using assms(1) by (simp add: grid_def)
    then have "same_grid ?R (fftshift ?R)" by (rule grid_fftshift)
    moreover have "same_grid (wavefront w) ?R" using assms(1) by (simp add: grid_def)
    ultimately have "same_grid (wavefront w) (fftshift ?R)" by (auto simp: same_grid_def)
    then show ?thesis by (simp only: same_grid_map_map)
  qed
  ultimately show ?thesis by blast
qed

subsection \<open>The kernels on a well-formed wavefront\<close>

lemma grid_mul_phasor:
  assumes "grid X"
  shows "grid (mul_arr X (phasor_array E lam zm pt (shape0 X, shape1 X) ps))"
  using same_grid_mul_arr[OF assms same_grid_phasor_array[OF assms]]
  by (simp add: same_grid_def)

lemma shape_mul_phasor:
  assumes "grid X"
  shows "shape0 (mul_arr X (phasor_array E lam zm pt (shape0 X, shape1 X) ps)) = shape0 X"
    "shape1 (mul_arr X (phasor_array E lam zm pt (shape0 X, shape1 X) ps)) = shape1 X"
  using same_grid_mul_arr[OF assms same_grid_phasor_array[OF assms]]
  by (simp_all add: same_grid_def)

lemma fourier_pixelscale_finite:
  "n w \<noteq> 0 \<Longrightarrow> pixelscale w \<noteq> 0 \<Longrightarrow>
   fourier_pixelscale w dz = Fin (wavelength w * \<bar>dz\<bar> / (real (n w) * pixelscale w))"
  by (simp add: fourier_pixelscale_def)

lemma wts_zero:
  "wts E 0 w = Inr (w\<lparr>logged := logged w @
     [(DEBUG, ''Waist to Spherical propagation, dz=''),
      (ERROR, ''Waist to Spherical propagation stopped, no change in distance.'')]\<rparr>)"
  by (simp add: wts_def add_log_def)

lemma stw_zero:
  "stw E 0 w = Inr (w\<lparr>logged := logged w @
     [(DEBUG, ''Spherical to Waist propagation,dz=''),
      (ERROR, ''Spherical to Waist propagation stopped, no change in distance.'')]\<rparr>)"
  by (simp add: stw_def add_log_def)

text \<open>\<^verbatim>\<open>ptp\<close> on a quantity, and on a bare number.\<close>

lemma ptp_Metres:
  "ptp E (Metres dz) w =
     (let z_direct = dz in
      if \<bar>dz\<bar> < Angstrom then Inr (add_log [(DEBUG, ''Skipping small dz'')] w)
      else bind (exp_T w z_direct) (\<lambda>eT.
           bind (fft E w) (\<lambda>w1.
           bind (inv_fft E (w1\<lparr>wavefront := mul_arr (wavefront w1) eT\<rparr>)) (\<lambda>w2.
           Inr (w2\<lparr>z := z w2 + dz,
                 history := history w2 @ [Propagated_PTP z_direct]\<rparr>)))))"
  by (simp add: ptp_def below_Angstrom_def)



lemma ptp_skip:
  "\<bar>dz\<bar> < Angstrom \<Longrightarrow> ptp E (Metres dz) w = Inr (w\<lparr>logged := logged w @ [(DEBUG, ''Skipping small dz'')]\<rparr>)"
  by (simp add: ptp_Metres add_log_def)

lemma wts_form:
  assumes "well_formed E w" "dz \<noteq> 0"
  shows "wts E dz w = Inr (w\<lparr>
      wavefront := (if 0 < dz then fft_array else ifft_array)
         (mul_arr (wavefront w)
            (phasor_array E (wavelength w) dz (planetype w) (shape w) (pixelscale w))),
      logged := logged w @
         [(DEBUG, ''Waist to Spherical propagation, dz=''),
          (DEBUG, ''Applying spherical phase curvature''),
          (DEBUG, ''Applying spherical lens phase''),
          (DEBUG, ''max_rsqd''),
          (DEBUG, ''Using numpy FFT'')],
      pixelscale := wavelength w * \<bar>dz\<bar> / (real (n w) * pixelscale w),
      z := z w + dz,
      history := history w @ [Propagated_WTS dz]\<rparr>)"
proof -
  have wf: "\<not> USE_FFTW E" "grid (wavefront w)" "wavelength w \<noteq> 0" "pixelscale w \<noteq> 0"
    "n w \<noteq> 0"
    using assms(1) by (simp_all add: well_formed_def)
  show ?thesis
    using assms(2) wf
    by (simp add: wts_def add_log_def imul_QuadPhase_finite shape_def fft_numpy inv_fft_numpy
        grid_mul_phasor fourier_pixelscale_finite)
qed

lemma stw_form:
  assumes "well_formed E w" "dz \<noteq> 0"
  shows "stw E dz w = Inr (w\<lparr>
      wavefront := mul_arr ((if 0 < dz then fft_array else ifft_array) (wavefront w))
            (phasor_array E (wavelength w) dz (planetype w) (shape w)
               (wavelength w * \<bar>dz\<bar> / (real (n w) * pixelscale w))),
      logged := logged w @
         [(DEBUG, ''Spherical to Waist propagation,dz=''),
          (DEBUG, ''Using numpy FFT''),
          (DEBUG, ''Applying spherical phase curvature''),
          (DEBUG, ''Applying spherical lens phase''),
          (DEBUG, ''max_rsqd'')],
      pixelscale := wavelength w * \<bar>dz\<bar> / (real (n w) * pixelscale w),
      z := z w + dz,
      history := history w @ [Propagated_STW dz]\<rparr>)"
proof -
  have wf: "\<not> USE_FFTW E" "grid (wavefront w)" "wavelength w \<noteq> 0" "pixelscale w \<noteq> 0"
    "n w \<noteq> 0"
    using assms(1) by (simp_all add: well_formed_def)
  show ?thesis
    using assms(2) wf
    by (simp add: stw_def add_log_def imul_QuadPhase_finite shape_def fft_numpy inv_fft_numpy
        fourier_pixelscale_finite)
qed

lemma ptp_form:
  assumes "well_formed E w" "\<not> \<bar>dz\<bar> < Angstrom"
  shows "\<exists>X. same_grid (wavefront w) X \<and>
    ptp E (Metres dz) w = Inr (w\<lparr>wavefront := X,
      logged := logged w @ [(DEBUG, ''Using numpy FFT''), (DEBUG, ''Using numpy FFT'')],
      z := z w + dz,
      history := history w @ [Propagated_PTP dz]\<rparr>)"
proof -
  have wf: "\<not> USE_FFTW E" "grid (wavefront w)" "pixelscale w \<noteq> 0" "oversample w \<noteq> 0"
    using assms(1) by (simp_all add: well_formed_def)
  obtain Y where Y: "exp_T w dz = Inr Y" "same_grid (wavefront w) Y"
    using exp_T_finite[OF wf(2,3,4)] by blast
  let ?F = "fft_array (wavefront w)"
  have gF: "grid ?F" using wf(2) by simp
  have sFY: "same_grid ?F Y" using Y(2) wf(2) by (simp add: same_grid_def)
  have gm: "grid (mul_arr ?F Y)" "same_grid ?F (mul_arr ?F Y)"
    using same_grid_mul_arr[OF gF sFY] by (simp_all add: same_grid_def)
  let ?X = "ifft_array (mul_arr ?F Y)"
  have "same_grid (wavefront w) ?X"
    using gm wf(2) by (simp add: same_grid_def)
  moreover have "ptp E (Metres dz) w = Inr (w\<lparr>wavefront := ?X,
      logged := logged w @ [(DEBUG, ''Using numpy FFT''), (DEBUG, ''Using numpy FFT'')],
      z := z w + dz,
      history := history w @ [Propagated_PTP dz]\<rparr>)"
    using assms(2) wf gm
    by (simp add: ptp_Metres Y fft_numpy inv_fft_numpy)
  ultimately show ?thesis by blast
qed

subsection \<open>C9: the FFT round trip and the two backends\<close>

text \<open>
  Under the numpy backend the pair is a round trip on every array with at least one
  entry, whatever its dimensions: \<open>inv_fft_fft\<close> and \<open>fft_inv_fft\<close> above. The division
  and the multiplication by \<^verbatim>\<open>self.shape[0]\<close> cancel.
\<close>

text \<open>
  C9. The claim: for every complex field, \<^verbatim>\<open>fft()\<close> followed by \<^verbatim>\<open>inv_fft()\<close>
  reconstructs the field, under either FFT backend configuration. With the FFTW backend
  selected (\<^verbatim>\<open>poppy.conf.use_fftw\<close> set and \<^verbatim>\<open>_FFTW_AVAILABLE\<close> true) both
  methods raise NameError before they touch the field, on every wavefront: the module
  uses the name \<^verbatim>\<open>pyfftw\<close> and never imports it.
\<close>

theorem fft_pair_raises_under_fftw_backend:
  "fft (E\<lparr>conf_use_fftw := True, FFTW_AVAILABLE := True\<rparr>) w = Inl NameError \<and>
   inv_fft (E\<lparr>conf_use_fftw := True, FFTW_AVAILABLE := True\<rparr>) w = Inl NameError \<and>
   bind (fft (E\<lparr>conf_use_fftw := True, FFTW_AVAILABLE := True\<rparr>) w)
        (inv_fft (E\<lparr>conf_use_fftw := True, FFTW_AVAILABLE := True\<rparr>)) = Inl NameError"
  by (simp add: fft_def inv_fft_def USE_FFTW_def)

lemma Angstrom_pos: "0 < Angstrom"
  by (simp add: Angstrom_def)

subsection \<open>C7: calls over no distance\<close>




subsection \<open>C4: the waist round trip\<close>

lemma pixelscale_back:
  fixes lam dz ps :: real
  assumes "lam \<noteq> 0" "dz \<noteq> 0" "k \<noteq> 0" "ps \<noteq> 0"
  shows "lam * \<bar>dz\<bar> / (real k * (lam * \<bar>dz\<bar> / (real k * ps))) = ps"
  using assms by (simp add: field_simps)

lemma pixelscale_nonzero:
  fixes lam dz ps :: real
  assumes "lam \<noteq> 0" "dz \<noteq> 0" "k \<noteq> 0" "ps \<noteq> 0"
  shows "lam * \<bar>dz\<bar> / (real k * ps) \<noteq> 0"
  using assms by simp

lemma well_formed_update:
  assumes "well_formed E w" "grid X" "ps \<noteq> 0"
  shows "well_formed E (w\<lparr>wavefront := X, logged := L, pixelscale := ps, z := zz, history := H\<rparr>)"
  using assms by (simp add: well_formed_def)

lemma wts_then_stw:
  assumes wf: "well_formed E w" and dz: "dz \<noteq> 0"
  shows "\<exists>w'. bind (wts E dz w) (stw E (- dz)) = Inr w' \<and>
     pixelscale w' = pixelscale w \<and> wavefront w' = wavefront w \<and> z w' = z w"
proof -
  let ?X = "wavefront w"
  let ?lam = "wavelength w"
  let ?ps' = "?lam * \<bar>dz\<bar> / (real (n w) * pixelscale w)"
  let ?P = "phasor_array E ?lam dz (planetype w) (shape0 ?X, shape1 ?X) (pixelscale w)"
  let ?Tr = "(if 0 < dz then fft_array else ifft_array) :: ndarray \<Rightarrow> ndarray"
  let ?Ti = "(if 0 < - dz then fft_array else ifft_array) :: ndarray \<Rightarrow> ndarray"
  have w: "\<not> USE_FFTW E" "grid ?X" "?lam \<noteq> 0" "pixelscale w \<noteq> 0" "n w \<noteq> 0"
    using wf by (simp_all add: well_formed_def)
  have gm: "grid (mul_arr ?X ?P)" by (rule grid_mul_phasor[OF w(2)])
  have gT: "grid (?Tr (mul_arr ?X ?P))" using gm by simp
  have shT: "shape0 (?Tr (mul_arr ?X ?P)) = shape0 ?X" "shape1 (?Tr (mul_arr ?X ?P)) = shape1 ?X"
    using gm shape_mul_phasor[OF w(2)] by simp_all
  have undo: "?Ti (?Tr (mul_arr ?X ?P)) = mul_arr ?X ?P"
    using dz gm by (cases "0 < dz") (simp_all add: ifft_fft_array fft_ifft_array)
  have ps': "?ps' \<noteq> 0" by (rule pixelscale_nonzero[OF w(3) dz w(5) w(4)])
  have psb: "?lam * \<bar>- dz\<bar> / (real (n w) * ?ps') = pixelscale w"
    using pixelscale_back[OF w(3) dz w(5) w(4)] by simp
  define w1 where "w1 = w\<lparr>
      wavefront := ?Tr (mul_arr ?X ?P),
      logged := logged w @
         [(DEBUG, ''Waist to Spherical propagation, dz=''),
          (DEBUG, ''Applying spherical phase curvature''),
          (DEBUG, ''Applying spherical lens phase''),
          (DEBUG, ''max_rsqd''),
          (DEBUG, ''Using numpy FFT'')],
      pixelscale := ?ps',
      z := z w + dz,
      history := history w @ [Propagated_WTS dz]\<rparr>"
  have 1: "wts E dz w = Inr w1"
    unfolding w1_def using wts_form[OF wf dz] by (simp add: shape_def)
  have wf1: "well_formed E w1"
    unfolding w1_def using wf gT ps' by (simp add: well_formed_def)
  have f1: "wavefront w1 = ?Tr (mul_arr ?X ?P)" "pixelscale w1 = ?ps'" "wavelength w1 = ?lam"
    "n w1 = n w" "planetype w1 = planetype w" "z w1 = z w + dz"
    "shape w1 = (shape0 ?X, shape1 ?X)"
    unfolding w1_def using shT by (simp_all add: shape_def)
  have 2: "stw E (- dz) w1 = Inr (w1\<lparr>
      wavefront := mul_arr (?Ti (wavefront w1))
            (phasor_array E (wavelength w1) (- dz) (planetype w1) (shape w1)
               (wavelength w1 * \<bar>- dz\<bar> / (real (n w1) * pixelscale w1))),
      logged := logged w1 @
         [(DEBUG, ''Spherical to Waist propagation,dz=''),
          (DEBUG, ''Using numpy FFT''),
          (DEBUG, ''Applying spherical phase curvature''),
          (DEBUG, ''Applying spherical lens phase''),
          (DEBUG, ''max_rsqd'')],
      pixelscale := wavelength w1 * \<bar>- dz\<bar> / (real (n w1) * pixelscale w1),
      z := z w1 + - dz,
      history := history w1 @ [Propagated_STW (- dz)]\<rparr>)"
    by (rule stw_form[OF wf1]) (use dz in simp)
  have psb': "wavelength w1 * \<bar>- dz\<bar> / (real (n w1) * pixelscale w1) = pixelscale w"
    unfolding f1 by (rule psb)
  have field: "mul_arr (?Ti (wavefront w1))
            (phasor_array E (wavelength w1) (- dz) (planetype w1) (shape w1) (pixelscale w)) = ?X"
    unfolding f1 undo by (rule phasor_array_cancel[OF w(2)])
  have "stw E (- dz) w1 = Inr (w1\<lparr>
      wavefront := ?X,
      logged := logged w1 @
         [(DEBUG, ''Spherical to Waist propagation,dz=''),
          (DEBUG, ''Using numpy FFT''),
          (DEBUG, ''Applying spherical phase curvature''),
          (DEBUG, ''Applying spherical lens phase''),
          (DEBUG, ''max_rsqd'')],
      pixelscale := pixelscale w,
      z := z w1 + - dz,
      history := history w1 @ [Propagated_STW (- dz)]\<rparr>)"
    using 2 unfolding psb' field .
  then show ?thesis
    unfolding 1 bind_simps by (simp add: f1(6))
qed

lemma stw_result:
  assumes wf: "well_formed E w" and dz: "dz \<noteq> 0"
  defines "Y \<equiv> (if 0 < dz then fft_array else ifft_array) (wavefront w)"
  defines "ps' \<equiv> wavelength w * \<bar>dz\<bar> / (real (n w) * pixelscale w)"
  defines "w1 \<equiv> w\<lparr>
      wavefront := mul_arr Y (phasor_array E (wavelength w) dz (planetype w) (shape0 Y, shape1 Y) ps'),
      logged := logged w @
         [(DEBUG, ''Spherical to Waist propagation,dz=''),
          (DEBUG, ''Using numpy FFT''),
          (DEBUG, ''Applying spherical phase curvature''),
          (DEBUG, ''Applying spherical lens phase''),
          (DEBUG, ''max_rsqd'')],
      pixelscale := ps',
      z := z w + dz,
      history := history w @ [Propagated_STW dz]\<rparr>"
  shows "stw E dz w = Inr w1" "well_formed E w1" "grid Y"
    "shape w1 = (shape0 Y, shape1 Y)" "ps' \<noteq> 0"
proof -
  have w: "\<not> USE_FFTW E" "grid (wavefront w)" "wavelength w \<noteq> 0" "pixelscale w \<noteq> 0" "n w \<noteq> 0"
    using wf by (simp_all add: well_formed_def)
  show gY: "grid Y" unfolding Y_def using w(2) by simp
  have shY: "shape0 Y = shape0 (wavefront w)" "shape1 Y = shape1 (wavefront w)"
    unfolding Y_def using w(2) by simp_all
  show ps': "ps' \<noteq> 0" unfolding ps'_def by (rule pixelscale_nonzero[OF w(3) dz w(5) w(4)])
  show "stw E dz w = Inr w1"
    unfolding w1_def shY using stw_form[OF wf dz] by (simp add: shape_def Y_def ps'_def)
  show "well_formed E w1"
    unfolding w1_def using wf grid_mul_phasor[OF gY] ps' by (simp add: well_formed_def)
  show "shape w1 = (shape0 Y, shape1 Y)"
    unfolding w1_def using shape_mul_phasor[OF gY] by (simp add: shape_def)
qed

lemma stw_then_wts:
  assumes wf: "well_formed E w" and dz: "dz \<noteq> 0"
  shows "\<exists>w'. bind (stw E dz w) (wts E (- dz)) = Inr w' \<and>
     pixelscale w' = pixelscale w \<and> wavefront w' = wavefront w \<and> z w' = z w"
proof -
  let ?X = "wavefront w"
  let ?lam = "wavelength w"
  let ?Tr = "(if 0 < dz then fft_array else ifft_array) :: ndarray \<Rightarrow> ndarray"
  let ?Ti = "(if 0 < - dz then fft_array else ifft_array) :: ndarray \<Rightarrow> ndarray"
  let ?Y = "?Tr ?X"
  let ?ps' = "?lam * \<bar>dz\<bar> / (real (n w) * pixelscale w)"
  have w: "\<not> USE_FFTW E" "grid ?X" "?lam \<noteq> 0" "pixelscale w \<noteq> 0" "n w \<noteq> 0"
    using wf by (simp_all add: well_formed_def)
  define w1 where "w1 = w\<lparr>
      wavefront := mul_arr ?Y (phasor_array E ?lam dz (planetype w) (shape0 ?Y, shape1 ?Y) ?ps'),
      logged := logged w @
         [(DEBUG, ''Spherical to Waist propagation,dz=''),
          (DEBUG, ''Using numpy FFT''),
          (DEBUG, ''Applying spherical phase curvature''),
          (DEBUG, ''Applying spherical lens phase''),
          (DEBUG, ''max_rsqd'')],
      pixelscale := ?ps',
      z := z w + dz,
      history := history w @ [Propagated_STW dz]\<rparr>"
  note r = stw_result[OF wf dz, folded w1_def]
  have f1: "wavefront w1 =
      mul_arr ?Y (phasor_array E ?lam dz (planetype w) (shape0 ?Y, shape1 ?Y) ?ps')"
    "pixelscale w1 = ?ps'" "wavelength w1 = ?lam"
    "n w1 = n w" "planetype w1 = planetype w" "z w1 = z w + dz"
    unfolding w1_def by simp_all
  have 2: "wts E (- dz) w1 = Inr (w1\<lparr>
      wavefront := ?Ti
         (mul_arr (wavefront w1)
            (phasor_array E (wavelength w1) (- dz) (planetype w1) (shape w1) (pixelscale w1))),
      logged := logged w1 @
         [(DEBUG, ''Waist to Spherical propagation, dz=''),
          (DEBUG, ''Applying spherical phase curvature''),
          (DEBUG, ''Applying spherical lens phase''),
          (DEBUG, ''max_rsqd''),
          (DEBUG, ''Using numpy FFT'')],
      pixelscale := wavelength w1 * \<bar>- dz\<bar> / (real (n w1) * pixelscale w1),
      z := z w1 + - dz,
      history := history w1 @ [Propagated_WTS (- dz)]\<rparr>)"
    by (rule wts_form[OF r(2)]) (use dz in simp)
  have psb': "wavelength w1 * \<bar>- dz\<bar> / (real (n w1) * pixelscale w1) = pixelscale w"
    unfolding f1 using pixelscale_back[OF w(3) dz w(5) w(4)] by simp
  have cancel: "mul_arr (wavefront w1)
       (phasor_array E (wavelength w1) (- dz) (planetype w1) (shape w1) (pixelscale w1)) = ?Y"
    unfolding r(4) unfolding f1 by (rule phasor_array_cancel[OF r(3)])
  have undo: "?Ti ?Y = ?X"
    using dz w(2) by (cases "0 < dz") (simp_all add: ifft_fft_array fft_ifft_array)
  have "wts E (- dz) w1 = Inr (w1\<lparr>
      wavefront := ?X,
      logged := logged w1 @
         [(DEBUG, ''Waist to Spherical propagation, dz=''),
          (DEBUG, ''Applying spherical phase curvature''),
          (DEBUG, ''Applying spherical lens phase''),
          (DEBUG, ''max_rsqd''),
          (DEBUG, ''Using numpy FFT'')],
      pixelscale := pixelscale w,
      z := z w1 + - dz,
      history := history w1 @ [Propagated_WTS (- dz)]\<rparr>)"
    using 2 unfolding psb' cancel undo .
  then show ?thesis
    unfolding r(1) bind_simps by (simp add: f1(6))
qed

lemma stw_then_wts_same_sign:
  assumes wf: "well_formed E w" and dz: "dz \<noteq> 0"
  shows "\<exists>w'. bind (stw E dz w) (wts E dz) = Inr w' \<and> pixelscale w' = pixelscale w"
proof -
  let ?lam = "wavelength w"
  let ?Y = "(if 0 < dz then fft_array else ifft_array) (wavefront w)"
  let ?ps' = "?lam * \<bar>dz\<bar> / (real (n w) * pixelscale w)"
  have w: "?lam \<noteq> 0" "pixelscale w \<noteq> 0" "n w \<noteq> 0"
    using wf by (simp_all add: well_formed_def)
  define w1 where "w1 = w\<lparr>
      wavefront := mul_arr ?Y (phasor_array E ?lam dz (planetype w) (shape0 ?Y, shape1 ?Y) ?ps'),
      logged := logged w @
         [(DEBUG, ''Spherical to Waist propagation,dz=''),
          (DEBUG, ''Using numpy FFT''),
          (DEBUG, ''Applying spherical phase curvature''),
          (DEBUG, ''Applying spherical lens phase''),
          (DEBUG, ''max_rsqd'')],
      pixelscale := ?ps',
      z := z w + dz,
      history := history w @ [Propagated_STW dz]\<rparr>"
  note r = stw_result[OF wf dz, folded w1_def]
  have f1: "pixelscale w1 = ?ps'" "wavelength w1 = ?lam" "n w1 = n w"
    unfolding w1_def by simp_all
  have psb': "wavelength w1 * \<bar>dz\<bar> / (real (n w1) * pixelscale w1) = pixelscale w"
    unfolding f1 by (rule pixelscale_back[OF w(1) dz w(3) w(2)])
  show ?thesis
    unfolding r(1) bind_simps wts_form[OF r(2) dz] psb' by simp
qed

subsection \<open>Evaluation on a two-by-two field\<close>

lemma tabulate2_2_2: "tabulate2 2 2 f = [[f 0 0, f 0 (Suc 0)], [f (Suc 0) 0, f (Suc 0) (Suc 0)]]"
proof -
  have "[0..<2] = [0, 1]" by (simp add: upt_rec)
  then show ?thesis by (simp add: tabulate2_def)
qed

lemma shape_2_2 [simp]:
  "shape0 [[a, b], [c, d]] = 2" "shape1 [[a, b], [c, d]] = 2"
  "grid [[a, b], [c, d]]"
  by (simp_all add: shape0_def shape1_def grid_def rect_def)

lemma cis_minus_pi [simp]: "cis (- pi) = - 1"
  by (simp add: complex_eq_iff)

lemma cis_minus_2pi [simp]: "cis (- (2 * pi)) = 1"
  by (simp add: complex_eq_iff)

lemma cis_pi_2 [simp]: "cis (pi * 2) = 1" "cis (- (pi * 2)) = 1"
  by (simp_all add: complex_eq_iff mult.commute)

lemma dft2_2_2:
  assumes "s = 1 \<or> s = - 1"
  shows "dft2 s [[a, b], [c, d]] 0 0 = a + b + c + d"
    "dft2 s [[a, b], [c, d]] 0 (Suc 0) = a - b + c - d"
    "dft2 s [[a, b], [c, d]] (Suc 0) 0 = a + b - c - d"
    "dft2 s [[a, b], [c, d]] (Suc 0) (Suc 0) = a - b - c + d"
  using assms
  by (auto simp: dft2_def lessThan_Suc numeral_2_eq_2 algebra_simps)

lemma fft_array_2_2:
  "fft_array [[a, b], [c, d]] =
     [[(a + b + c + d) / 2, (a - b + c - d) / 2], [(a + b - c - d) / 2, (a - b - c + d) / 2]]"
  by (simp add: fft_array_def tabulate2_2_2 dft2_2_2)

lemma mul_arr_2_2:
  "mul_arr [[a, b], [c, d]] [[p, q], [r, s]] = [[a * p, b * q], [c * r, d * s]]"
  by (simp add: mul_arr_def)

lemma well_formed_init_2_2:
  "lam \<noteq> 0 \<Longrightarrow> ps \<noteq> 0 \<Longrightarrow> well_formed (numpy_env c) (init_wavefront [[a, b], [c', d]] lam ps W)"
  by (simp add: well_formed_def numpy_env_def USE_FFTW_def init_wavefront_def)

lemma phasor_mid_centre:
  "phasor_array (numpy_env mid_centre) 2 1 PUPIL (2, 2) 1 =
     [[cis (pi / 4), cis (pi / 4)], [cis (pi / 4), cis (pi / 4)]]"
  by (simp add: phasor_array_def tabulate2_2_2 quad_phase_def numpy_env_def centred_at_def
      mid_centre_def power2_eq_square)

lemma phasor_fft_centre:
  "phasor_array (numpy_env fft_centre) 2 1 PUPIL (2, 2) 1 = [[- 1, \<i>], [\<i>, 1]]"
  by (simp add: phasor_array_def tabulate2_2_2 quad_phase_def numpy_env_def centred_at_def
      fft_centre_def power2_eq_square)

lemma cis_quarter_sq: "cis (pi / 4) * cis (pi / 4) = \<i>"
  by (simp add: cis_mult)

lemma same_sign_field:
  assumes P: "phasor_array (numpy_env c) 2 1 PUPIL (2, 2) 1 = [[p, q], [r, s]]"
  shows "\<exists>w'. bind (stw (numpy_env c) 1 (init_wavefront [[1, 0], [0, 0]] 2 1 1))
                  (wts (numpy_env c) 1) = Inr w' \<and>
     wavefront w' = fft_array [[p * p / 2, q * q / 2], [r * r / 2, s * s / 2]]"
proof -
  let ?E = "numpy_env c"
  let ?w = "init_wavefront [[1, 0], [0, 0]] 2 1 1"
  have wf: "well_formed ?E ?w" by (rule well_formed_init_2_2) simp_all
  have f: "wavefront ?w = [[1, 0], [0, 0]]" "wavelength ?w = 2" "pixelscale ?w = 1"
    "n ?w = 2" "planetype ?w = PUPIL" "shape ?w = (2, 2)"
    by (simp_all add: init_wavefront_def shape_def)
  define w1 where "w1 = ?w\<lparr>wavefront := [[p / 2, q / 2], [r / 2, s / 2]],
         logged := logged ?w @
           [(DEBUG, ''Spherical to Waist propagation,dz=''), (DEBUG, ''Using numpy FFT''),
            (DEBUG, ''Applying spherical phase curvature''),
            (DEBUG, ''Applying spherical lens phase''), (DEBUG, ''max_rsqd'')],
         pixelscale := 1, z := z ?w + 1, history := history ?w @ [Propagated_STW 1]\<rparr>"
  have 1: "stw ?E 1 ?w = Inr w1"
    unfolding w1_def stw_form[OF wf one_neq_zero[where 'a=real]]
    by (simp add: f P fft_array_2_2 mul_arr_2_2)
  have f1: "wavefront w1 = [[p / 2, q / 2], [r / 2, s / 2]]" "wavelength w1 = 2"
    "pixelscale w1 = 1" "n w1 = 2" "planetype w1 = PUPIL" "shape w1 = (2, 2)"
    unfolding w1_def by (simp_all add: init_wavefront_def shape_def)
  have wf1: "well_formed ?E w1"
    using wf by (simp add: well_formed_def f1) (simp add: w1_def init_wavefront_def)
  have "\<exists>w'. wts ?E 1 w1 = Inr w' \<and>
     wavefront w' = fft_array [[p * p / 2, q * q / 2], [r * r / 2, s * s / 2]]"
    unfolding wts_form[OF wf1 one_neq_zero[where 'a=real]]
    by (simp add: f1 P mul_arr_2_2)
  then show ?thesis unfolding 1 bind_simps .
qed

text \<open>
  C4, as the code has it. For every nonzero \<open>dz\<close>, on a well-formed wavefront, the
  sign-adjusted pairs \<^verbatim>\<open>wts(dz)\<close> then \<^verbatim>\<open>stw(-dz)\<close>, and \<^verbatim>\<open>stw(dz)\<close> then
  \<^verbatim>\<open>wts(-dz)\<close>, return the pixel scale and the field (and \<open>z\<close>) to their values
  before the pair; \<^verbatim>\<open>stw(dz)\<close> then \<^verbatim>\<open>wts(dz)\<close> returns the pixel scale to its
  value.
\<close>

theorem waist_round_trip:
  "well_formed E w \<Longrightarrow> dz \<noteq> 0 \<Longrightarrow>
   (\<exists>w'. bind (wts E dz w) (stw E (- dz)) = Inr w' \<and>
      pixelscale w' = pixelscale w \<and> wavefront w' = wavefront w \<and> z w' = z w) \<and>
   (\<exists>w'. bind (stw E dz w) (wts E (- dz)) = Inr w' \<and>
      pixelscale w' = pixelscale w \<and> wavefront w' = wavefront w \<and> z w' = z w) \<and>
   (\<exists>w'. bind (stw E dz w) (wts E dz) = Inr w' \<and> pixelscale w' = pixelscale w)"
  using wts_then_stw stw_then_wts stw_then_wts_same_sign by blast

theorem waist_round_trip_witness:
  "well_formed (numpy_env mid_centre) (init_wavefront [[1, 0], [0, 0]] 2 1 1) \<and> (1::real) \<noteq> 0 \<and>
   (\<exists>w'. bind (wts (numpy_env mid_centre) 1 (init_wavefront [[1, 0], [0, 0]] 2 1 1))
              (stw (numpy_env mid_centre) (- 1)) = Inr w' \<and>
      pixelscale w' = 1 \<and> wavefront w' = [[1, 0], [0, 0]] \<and> z w' = 0) \<and>
   (\<exists>w'. bind (stw (numpy_env mid_centre) 1 (init_wavefront [[1, 0], [0, 0]] 2 1 1))
              (wts (numpy_env mid_centre) (- 1)) = Inr w' \<and>
      pixelscale w' = 1 \<and> wavefront w' = [[1, 0], [0, 0]] \<and> z w' = 0) \<and>
   (\<exists>w'. bind (stw (numpy_env mid_centre) 1 (init_wavefront [[1, 0], [0, 0]] 2 1 1))
              (wts (numpy_env mid_centre) 1) = Inr w' \<and> pixelscale w' = 1)"
proof -
  have wf: "well_formed (numpy_env mid_centre) (init_wavefront [[1, 0], [0, 0]] 2 1 1)"
    by (rule well_formed_init_2_2) simp_all
  have f: "pixelscale (init_wavefront [[1, 0], [0, 0]] 2 1 1) = 1"
    "wavefront (init_wavefront [[1, 0], [0, 0]] 2 1 1) = [[1, 0], [0, 0]]"
    "z (init_wavefront [[1, 0], [0, 0]] 2 1 1) = 0"
    by (simp_all add: init_wavefront_def)
  show ?thesis
    using waist_round_trip[OF wf one_neq_zero[where 'a=real]] wf unfolding f by simp
qed

text \<open>
  The claim as stated has \<^verbatim>\<open>stw(dz)\<close> followed by \<^verbatim>\<open>wts(dz)\<close> return the field
  too. On the two-by-two field \<open>[[1, 0], [0, 0]]\<close> with wavelength 2 and pixel scale 1,
  \<^verbatim>\<open>stw(1)\<close> then \<^verbatim>\<open>wts(1)\<close> leaves another field, under either convention for
  the centre of the coordinate grid.
\<close>

theorem same_sign_pair_changes_field:
  "(\<exists>w'. bind (stw (numpy_env mid_centre) 1 (init_wavefront [[1, 0], [0, 0]] 2 1 1))
              (wts (numpy_env mid_centre) 1) = Inr w' \<and>
      wavefront w' = [[\<i>, 0], [0, 0]] \<and>
      wavefront w' \<noteq> wavefront (init_wavefront [[1, 0], [0, 0]] 2 1 1)) \<and>
   (\<exists>w'. bind (stw (numpy_env fft_centre) 1 (init_wavefront [[1, 0], [0, 0]] 2 1 1))
              (wts (numpy_env fft_centre) 1) = Inr w' \<and>
      wavefront w' = [[0, 0], [0, 1]] \<and>
      wavefront w' \<noteq> wavefront (init_wavefront [[1, 0], [0, 0]] 2 1 1))"
proof -
  have a: "fft_array [[cis (pi / 4) * cis (pi / 4) / 2, cis (pi / 4) * cis (pi / 4) / 2],
                      [cis (pi / 4) * cis (pi / 4) / 2, cis (pi / 4) * cis (pi / 4) / 2]] =
           [[\<i>, 0], [0, 0]]"
    unfolding cis_quarter_sq by (simp add: fft_array_2_2)
  have b: "fft_array [[- 1 * - 1 / 2, \<i> * \<i> / 2], [\<i> * \<i> / 2, 1 * 1 / 2]] = [[0, 0], [0, 1]]"
    by (simp add: fft_array_2_2)
  have f: "wavefront (init_wavefront [[1, 0], [0, 0]] 2 1 1) = [[1, 0], [0, 0]]"
    by (simp add: init_wavefront_def)
  have i1: "\<i> \<noteq> 1" by (simp add: complex_eq_iff)
  show ?thesis
    using same_sign_field[OF phasor_mid_centre] same_sign_field[OF phasor_fft_centre]
    unfolding a b f using i1 by auto
qed

subsection \<open>The kernels do not read the log\<close>

lemma nolog_eqD: "nolog a = nolog b \<Longrightarrow> b = a\<lparr>logged := logged b\<rparr>"
  by (cases a, cases b) (simp add: nolog_def)

lemma nolog_logged [simp]: "nolog (w\<lparr>logged := l\<rparr>) = nolog w"
  by (simp add: nolog_def)

lemma nolog_add_log [simp]: "nolog (add_log es w) = nolog w"
  by (simp add: add_log_def)

lemma same_run_Inr [simp]: "same_run (Inr a) (Inr b) = (nolog a = nolog b)"
  by (simp add: same_run_def)

lemma same_run_Inl [simp]: "same_run (Inl e) (Inl e') = (e = e')"
  "same_run (Inl e) (Inr b) = False" "same_run (Inr a) (Inl e) = False"
  by (simp_all add: same_run_def)

lemma same_run_refl [simp]: "same_run r r"
  by (simp add: same_run_def)

lemma same_run_bind:
  assumes "same_run r1 r2"
    and "\<And>a b. nolog a = nolog b \<Longrightarrow> same_run (f a) (g b)"
  shows "same_run (bind r1 f) (bind r2 g)"
  using assms by (cases r1; cases r2) simp_all

lemma same_run_trans: "same_run a b \<Longrightarrow> same_run b c \<Longrightarrow> same_run a c"
  by (simp add: same_run_def)

lemma same_run_sym: "same_run a b \<Longrightarrow> same_run b a"
  by (simp add: same_run_def)

lemma exp_T_px_logged [simp]: "exp_T_px (w\<lparr>logged := l\<rparr>) zd x = exp_T_px w zd x"
  by (cases x) simp_all

lemma shape_logged [simp]: "shape (w\<lparr>logged := l\<rparr>) = shape w"
  by (simp add: shape_def)

lemma exp_T_logged [simp]: "exp_T (w\<lparr>logged := l\<rparr>) zd = exp_T w zd"
proof -
  have "rho_px (w\<lparr>logged := l\<rparr>) = rho_px w"
    by (intro ext) (simp add: rho_px_def fft_coords_def)
  moreover have "exp_T_px (w\<lparr>logged := l\<rparr>) zd = exp_T_px w zd"
    by (intro ext) simp
  ultimately show ?thesis by (simp add: exp_T_def)
qed

lemma getPhasor_logged [simp]: "getPhasor E lam zm (w\<lparr>logged := l\<rparr>) = getPhasor E lam zm w"
  by (simp add: getPhasor_def)

lemma fft_logged: "same_run (fft E (w\<lparr>logged := l\<rparr>)) (fft E w)"
  by (cases "np_fft2 (wavefront w)") (simp_all add: fft_def nolog_def)

lemma inv_fft_logged: "same_run (inv_fft E (w\<lparr>logged := l\<rparr>)) (inv_fft E w)"
  by (cases "np_ifft2 (wavefront w)") (simp_all add: inv_fft_def nolog_def)

lemma imul_logged: "same_run (imul_QuadPhase E zm lam (w\<lparr>logged := l\<rparr>)) (imul_QuadPhase E zm lam w)"
  by (cases "getPhasor E lam zm w") (simp_all add: imul_QuadPhase_def nolog_def)

lemma fft_same_run: "nolog a = nolog b \<Longrightarrow> same_run (fft E a) (fft E b)"
  using fft_logged[where w=a and l="logged b" and E=E] nolog_eqD[of a b] by (simp add: same_run_sym)

lemma inv_fft_same_run: "nolog a = nolog b \<Longrightarrow> same_run (inv_fft E a) (inv_fft E b)"
  using inv_fft_logged[where w=a and l="logged b" and E=E] nolog_eqD[of a b] by (simp add: same_run_sym)

lemma imul_same_run:
  "nolog a = nolog b \<Longrightarrow> same_run (imul_QuadPhase E zm lam a) (imul_QuadPhase E zm lam b)"
  using imul_logged[where w=a and l="logged b" and E=E and zm=zm and lam=lam] nolog_eqD[of a b] by (simp add: same_run_sym)

lemma nolog_fields:
  assumes "nolog a = nolog b"
  shows "wavefront a = wavefront b" "pixelscale a = pixelscale b" "planetype a = planetype b"
    "history a = history b" "wavelength a = wavelength b" "oversample a = oversample b"
    "w_0 a = w_0 b" "z a = z b" "z_w0 a = z_w0 b" "spherical a = spherical b" "n a = n b"
    "exp_T a = exp_T b" "fourier_pixelscale a = fourier_pixelscale b"
proof -
  obtain l where b: "b = a\<lparr>logged := l\<rparr>" using nolog_eqD[OF assms] by blast
  show "wavefront a = wavefront b" "pixelscale a = pixelscale b" "planetype a = planetype b"
    "history a = history b" "wavelength a = wavelength b" "oversample a = oversample b"
    "w_0 a = w_0 b" "z a = z b" "z_w0 a = z_w0 b" "spherical a = spherical b" "n a = n b"
    unfolding b by simp_all
  show "exp_T a = exp_T b" unfolding b by (rule ext) simp
  show "fourier_pixelscale a = fourier_pixelscale b"
    unfolding b by (rule ext) (simp add: fourier_pixelscale_def)
qed

lemma nolog_update:
  assumes "nolog a = nolog b"
  shows "nolog (a\<lparr>wavefront := X\<rparr>) = nolog (b\<lparr>wavefront := X\<rparr>)"
    "nolog (a\<lparr>pixelscale := p\<rparr>) = nolog (b\<lparr>pixelscale := p\<rparr>)"
    "nolog (a\<lparr>z := zz\<rparr>) = nolog (b\<lparr>z := zz\<rparr>)"
    "nolog (a\<lparr>history := H\<rparr>) = nolog (b\<lparr>history := H\<rparr>)"
    "nolog (a\<lparr>planetype := pt\<rparr>) = nolog (b\<lparr>planetype := pt\<rparr>)"
proof -
  obtain l where b: "b = a\<lparr>logged := l\<rparr>" using nolog_eqD[OF assms] by blast
  show "nolog (a\<lparr>wavefront := X\<rparr>) = nolog (b\<lparr>wavefront := X\<rparr>)"
    "nolog (a\<lparr>pixelscale := p\<rparr>) = nolog (b\<lparr>pixelscale := p\<rparr>)"
    "nolog (a\<lparr>z := zz\<rparr>) = nolog (b\<lparr>z := zz\<rparr>)"
    "nolog (a\<lparr>history := H\<rparr>) = nolog (b\<lparr>history := H\<rparr>)"
    "nolog (a\<lparr>planetype := pt\<rparr>) = nolog (b\<lparr>planetype := pt\<rparr>)"
    unfolding b by (simp_all add: nolog_def)
qed

lemma ptp_same_run:
  assumes "nolog a = nolog b"
  shows "same_run (ptp E (Metres d) a) (ptp E (Metres d) b)"
proof (cases "\<bar>d\<bar> < Angstrom")
  case True
  then show ?thesis using assms by (simp add: ptp_Metres)
next
  case False
  note f = nolog_fields[OF assms]
  have "same_run
     (bind (exp_T b d) (\<lambda>eT. bind (fft E a) (\<lambda>w1.
        bind (inv_fft E (w1\<lparr>wavefront := mul_arr (wavefront w1) eT\<rparr>)) (\<lambda>w2.
          Inr (w2\<lparr>z := z w2 + d, history := history w2 @ [Propagated_PTP d]\<rparr>)))))
     (bind (exp_T b d) (\<lambda>eT. bind (fft E b) (\<lambda>w1.
        bind (inv_fft E (w1\<lparr>wavefront := mul_arr (wavefront w1) eT\<rparr>)) (\<lambda>w2.
          Inr (w2\<lparr>z := z w2 + d, history := history w2 @ [Propagated_PTP d]\<rparr>)))))"
  proof (cases "exp_T b d")
    case (Inl e)
    then show ?thesis by simp
  next
    case (Inr eT)
    show ?thesis
      unfolding Inr bind_simps
    proof (rule same_run_bind[OF fft_same_run[OF assms]])
      fix a1 b1 :: fresnel_wavefront
      assume 1: "nolog a1 = nolog b1"
      show "same_run
        (bind (inv_fft E (a1\<lparr>wavefront := mul_arr (wavefront a1) eT\<rparr>)) (\<lambda>w2.
          Inr (w2\<lparr>z := z w2 + d, history := history w2 @ [Propagated_PTP d]\<rparr>)))
        (bind (inv_fft E (b1\<lparr>wavefront := mul_arr (wavefront b1) eT\<rparr>)) (\<lambda>w2.
          Inr (w2\<lparr>z := z w2 + d, history := history w2 @ [Propagated_PTP d]\<rparr>)))"
      proof (rule same_run_bind)
        show "same_run (inv_fft E (a1\<lparr>wavefront := mul_arr (wavefront a1) eT\<rparr>))
              (inv_fft E (b1\<lparr>wavefront := mul_arr (wavefront b1) eT\<rparr>))"
          by (rule inv_fft_same_run) (simp add: nolog_fields(1)[OF 1] nolog_update(1)[OF 1])
      next
        fix a2 b2 :: fresnel_wavefront
        assume 2: "nolog a2 = nolog b2"
        have "nolog (a2\<lparr>z := z b2 + d\<rparr>) = nolog (b2\<lparr>z := z b2 + d\<rparr>)"
          by (rule nolog_update(3)[OF 2])
        then have "nolog (a2\<lparr>z := z b2 + d, history := history b2 @ [Propagated_PTP d]\<rparr>) =
                   nolog (b2\<lparr>z := z b2 + d, history := history b2 @ [Propagated_PTP d]\<rparr>)"
          by (rule nolog_update(4))
        then show "same_run
           (Inr (a2\<lparr>z := z a2 + d, history := history a2 @ [Propagated_PTP d]\<rparr>))
           (Inr (b2\<lparr>z := z b2 + d, history := history b2 @ [Propagated_PTP d]\<rparr>))"
          by (simp add: nolog_fields[OF 2])
      qed
    qed
  qed
  then show ?thesis using False by (simp add: ptp_Metres f)
qed

lemma store_same_run:
  assumes "nolog a = nolog b"
  shows "same_run
     (bind (store x) (\<lambda>ps. Inr (a\<lparr>pixelscale := ps, z := z a + d, history := history a @ H\<rparr>)))
     (bind (store x) (\<lambda>ps. Inr (b\<lparr>pixelscale := ps, z := z b + d, history := history b @ H\<rparr>)))"
proof (cases "store x")
  case (Inl e)
  then show ?thesis by simp
next
  case (Inr ps)
  have "nolog (a\<lparr>pixelscale := ps\<rparr>) = nolog (b\<lparr>pixelscale := ps\<rparr>)"
    by (rule nolog_update(2)[OF assms])
  then have "nolog (a\<lparr>pixelscale := ps, z := z b + d\<rparr>) =
             nolog (b\<lparr>pixelscale := ps, z := z b + d\<rparr>)"
    by (rule nolog_update(3))
  then have "nolog (a\<lparr>pixelscale := ps, z := z b + d, history := history b @ H\<rparr>) =
             nolog (b\<lparr>pixelscale := ps, z := z b + d, history := history b @ H\<rparr>)"
    by (rule nolog_update(4))
  then show ?thesis by (simp add: Inr nolog_fields[OF assms])
qed

lemma transform_same_run:
  "nolog a = nolog b \<Longrightarrow>
   same_run (if 0 < d then fft E a else inv_fft E a) (if 0 < (d::real) then fft E b else inv_fft E b)"
  by (simp add: fft_same_run inv_fft_same_run)

lemma wts_same_run:
  assumes "nolog a = nolog b"
  shows "same_run (wts E d a) (wts E d b)"
proof (cases "d = 0")
  case True
  then show ?thesis using assms by (simp add: wts_def)
next
  case False
  let ?es = "[(DEBUG, ''Waist to Spherical propagation, dz='')]"
  have 0: "nolog (add_log ?es a) = nolog (add_log ?es b)" using assms by simp
  have wl: "wavelength (add_log ?es a) = wavelength (add_log ?es b)"
    by (rule nolog_fields(5)[OF 0])
  have "same_run
     (bind (imul_QuadPhase E (Fin d) (wavelength (add_log ?es b)) (add_log ?es a)) (\<lambda>w1.
        bind (if 0 < d then fft E w1 else inv_fft E w1) (\<lambda>w2.
          bind (store (fourier_pixelscale w2 d)) (\<lambda>ps.
            Inr (w2\<lparr>pixelscale := ps, z := z w2 + d,
                  history := history w2 @ [Propagated_WTS d]\<rparr>)))))
     (bind (imul_QuadPhase E (Fin d) (wavelength (add_log ?es b)) (add_log ?es b)) (\<lambda>w1.
        bind (if 0 < d then fft E w1 else inv_fft E w1) (\<lambda>w2.
          bind (store (fourier_pixelscale w2 d)) (\<lambda>ps.
            Inr (w2\<lparr>pixelscale := ps, z := z w2 + d,
                  history := history w2 @ [Propagated_WTS d]\<rparr>)))))"
  proof (rule same_run_bind[OF imul_same_run[OF 0]])
    fix a1 b1 :: fresnel_wavefront
    assume 1: "nolog a1 = nolog b1"
    show "same_run
        (bind (if 0 < d then fft E a1 else inv_fft E a1) (\<lambda>w2.
          bind (store (fourier_pixelscale w2 d)) (\<lambda>ps.
            Inr (w2\<lparr>pixelscale := ps, z := z w2 + d,
                  history := history w2 @ [Propagated_WTS d]\<rparr>))))
        (bind (if 0 < d then fft E b1 else inv_fft E b1) (\<lambda>w2.
          bind (store (fourier_pixelscale w2 d)) (\<lambda>ps.
            Inr (w2\<lparr>pixelscale := ps, z := z w2 + d,
                  history := history w2 @ [Propagated_WTS d]\<rparr>))))"
    proof (rule same_run_bind[OF transform_same_run[OF 1]])
      fix a2 b2 :: fresnel_wavefront
      assume 2: "nolog a2 = nolog b2"
      show "same_run
          (bind (store (fourier_pixelscale a2 d)) (\<lambda>ps.
            Inr (a2\<lparr>pixelscale := ps, z := z a2 + d,
                  history := history a2 @ [Propagated_WTS d]\<rparr>)))
          (bind (store (fourier_pixelscale b2 d)) (\<lambda>ps.
            Inr (b2\<lparr>pixelscale := ps, z := z b2 + d,
                  history := history b2 @ [Propagated_WTS d]\<rparr>)))"
        unfolding nolog_fields(13)[OF 2] by (rule store_same_run[OF 2])
    qed
  qed
  then show ?thesis using False by (simp add: wts_def Let_def wl)
qed

lemma stw_same_run:
  assumes "nolog a = nolog b"
  shows "same_run (stw E d a) (stw E d b)"
proof (cases "d = 0")
  case True
  then show ?thesis using assms by (simp add: stw_def)
next
  case False
  let ?es = "[(DEBUG, ''Spherical to Waist propagation,dz='')]"
  have 0: "nolog (add_log ?es a) = nolog (add_log ?es b)" using assms by simp
  have "same_run
     (bind (if 0 < d then fft E (add_log ?es a) else inv_fft E (add_log ?es a)) (\<lambda>w1.
        bind (store (fourier_pixelscale w1 d)) (\<lambda>ps.
          bind (imul_QuadPhase E (Fin d) (wavelength w1) (w1\<lparr>pixelscale := ps\<rparr>)) (\<lambda>w2.
            Inr (w2\<lparr>z := z w2 + d, history := history w2 @ [Propagated_STW d]\<rparr>)))))
     (bind (if 0 < d then fft E (add_log ?es b) else inv_fft E (add_log ?es b)) (\<lambda>w1.
        bind (store (fourier_pixelscale w1 d)) (\<lambda>ps.
          bind (imul_QuadPhase E (Fin d) (wavelength w1) (w1\<lparr>pixelscale := ps\<rparr>)) (\<lambda>w2.
            Inr (w2\<lparr>z := z w2 + d, history := history w2 @ [Propagated_STW d]\<rparr>)))))"
  proof (rule same_run_bind[OF transform_same_run[OF 0]])
    fix a1 b1 :: fresnel_wavefront
    assume 1: "nolog a1 = nolog b1"
    show "same_run
        (bind (store (fourier_pixelscale a1 d)) (\<lambda>ps.
          bind (imul_QuadPhase E (Fin d) (wavelength a1) (a1\<lparr>pixelscale := ps\<rparr>)) (\<lambda>w2.
            Inr (w2\<lparr>z := z w2 + d, history := history w2 @ [Propagated_STW d]\<rparr>))))
        (bind (store (fourier_pixelscale b1 d)) (\<lambda>ps.
          bind (imul_QuadPhase E (Fin d) (wavelength b1) (b1\<lparr>pixelscale := ps\<rparr>)) (\<lambda>w2.
            Inr (w2\<lparr>z := z w2 + d, history := history w2 @ [Propagated_STW d]\<rparr>))))"
      unfolding nolog_fields(13)[OF 1] nolog_fields(5)[OF 1]
    proof (cases "store (fourier_pixelscale b1 d)")
      case (Inl e)
      then show "same_run
        (bind (store (fourier_pixelscale b1 d)) (\<lambda>ps.
          bind (imul_QuadPhase E (Fin d) (wavelength b1) (a1\<lparr>pixelscale := ps\<rparr>)) (\<lambda>w2.
            Inr (w2\<lparr>z := z w2 + d, history := history w2 @ [Propagated_STW d]\<rparr>))))
        (bind (store (fourier_pixelscale b1 d)) (\<lambda>ps.
          bind (imul_QuadPhase E (Fin d) (wavelength b1) (b1\<lparr>pixelscale := ps\<rparr>)) (\<lambda>w2.
            Inr (w2\<lparr>z := z w2 + d, history := history w2 @ [Propagated_STW d]\<rparr>))))"
        by simp
    next
      case (Inr ps)
      have p: "nolog (a1\<lparr>pixelscale := ps\<rparr>) = nolog (b1\<lparr>pixelscale := ps\<rparr>)"
        by (rule nolog_update(2)[OF 1])
      have "same_run
          (bind (imul_QuadPhase E (Fin d) (wavelength b1) (a1\<lparr>pixelscale := ps\<rparr>)) (\<lambda>w2.
            Inr (w2\<lparr>z := z w2 + d, history := history w2 @ [Propagated_STW d]\<rparr>)))
          (bind (imul_QuadPhase E (Fin d) (wavelength b1) (b1\<lparr>pixelscale := ps\<rparr>)) (\<lambda>w2.
            Inr (w2\<lparr>z := z w2 + d, history := history w2 @ [Propagated_STW d]\<rparr>)))"
      proof (rule same_run_bind[OF imul_same_run[OF p]])
        fix a2 b2 :: fresnel_wavefront
        assume 2: "nolog a2 = nolog b2"
        have "nolog (a2\<lparr>z := z b2 + d\<rparr>) = nolog (b2\<lparr>z := z b2 + d\<rparr>)"
          by (rule nolog_update(3)[OF 2])
        then have "nolog (a2\<lparr>z := z b2 + d, history := history b2 @ [Propagated_STW d]\<rparr>) =
                   nolog (b2\<lparr>z := z b2 + d, history := history b2 @ [Propagated_STW d]\<rparr>)"
          by (rule nolog_update(4))
        then show "same_run
           (Inr (a2\<lparr>z := z a2 + d, history := history a2 @ [Propagated_STW d]\<rparr>))
           (Inr (b2\<lparr>z := z b2 + d, history := history b2 @ [Propagated_STW d]\<rparr>))"
          by (simp add: nolog_fields[OF 2])
      qed
      then show "same_run
        (bind (store (fourier_pixelscale b1 d)) (\<lambda>ps.
          bind (imul_QuadPhase E (Fin d) (wavelength b1) (a1\<lparr>pixelscale := ps\<rparr>)) (\<lambda>w2.
            Inr (w2\<lparr>z := z w2 + d, history := history w2 @ [Propagated_STW d]\<rparr>))))
        (bind (store (fourier_pixelscale b1 d)) (\<lambda>ps.
          bind (imul_QuadPhase E (Fin d) (wavelength b1) (b1\<lparr>pixelscale := ps\<rparr>)) (\<lambda>w2.
            Inr (w2\<lparr>z := z w2 + d, history := history w2 @ [Propagated_STW d]\<rparr>))))"
        by (simp add: Inr)
    qed
  qed
  then show ?thesis using False by (simp add: stw_def Let_def)
qed

subsection \<open>The kernels return on a well-formed wavefront\<close>

lemma steps_toI:
  "same_grid (wavefront w) X \<Longrightarrow> ps \<noteq> 0 \<Longrightarrow>
   r = Inr (w\<lparr>wavefront := X, logged := L, pixelscale := ps, z := zz, history := H\<rparr>) \<Longrightarrow>
   steps_to w zz r"
  unfolding steps_to_def by blast

lemma well_formed_grid: "well_formed E w \<Longrightarrow> grid (wavefront w)"
  by (simp add: well_formed_def)

lemma ptp_steps:
  assumes "well_formed E w"
  shows "steps_to w (if \<bar>d\<bar> < Angstrom then z w else z w + d) (ptp E (Metres d) w)"
proof (cases "\<bar>d\<bar> < Angstrom")
  case True
  have "ptp E (Metres d) w = Inr (w\<lparr>wavefront := wavefront w,
      logged := logged w @ [(DEBUG, ''Skipping small dz'')],
      pixelscale := pixelscale w, z := z w, history := history w\<rparr>)"
    using True by (simp add: ptp_skip)
  then show ?thesis
    using assms True
    by (intro steps_toI[where X="wavefront w" and ps="pixelscale w" and H="history w"
          and L="logged w @ [(DEBUG, ''Skipping small dz'')]"])
      (simp_all add: well_formed_def)
next
  case False
  obtain X where X: "same_grid (wavefront w) X"
    "ptp E (Metres d) w = Inr (w\<lparr>wavefront := X,
      logged := logged w @ [(DEBUG, ''Using numpy FFT''), (DEBUG, ''Using numpy FFT'')],
      z := z w + d, history := history w @ [Propagated_PTP d]\<rparr>)"
    using ptp_form[OF assms False] by blast
  show ?thesis
    using assms False X
    by (intro steps_toI[where X=X and ps="pixelscale w"
          and H="history w @ [Propagated_PTP d]"
          and L="logged w @ [(DEBUG, ''Using numpy FFT''), (DEBUG, ''Using numpy FFT'')]"])
      (simp_all add: well_formed_def)
qed

lemma wts_steps:
  assumes "well_formed E w"
  shows "steps_to w (z w + d) (wts E d w)"
proof (cases "d = 0")
  case True
  show ?thesis
    using assms True
    by (intro steps_toI[where X="wavefront w" and ps="pixelscale w" and H="history w"
          and L="logged w @ [(DEBUG, ''Waist to Spherical propagation, dz=''),
            (ERROR, ''Waist to Spherical propagation stopped, no change in distance.'')]"])
      (simp_all add: well_formed_def wts_zero)
next
  case False
  have w: "grid (wavefront w)" "wavelength w \<noteq> 0" "pixelscale w \<noteq> 0" "n w \<noteq> 0"
    using assms by (simp_all add: well_formed_def)
  have g: "grid (mul_arr (wavefront w)
      (phasor_array E (wavelength w) d (planetype w) (shape w) (pixelscale w)))"
    "shape0 (mul_arr (wavefront w)
      (phasor_array E (wavelength w) d (planetype w) (shape w) (pixelscale w))) = shape0 (wavefront w)"
    "shape1 (mul_arr (wavefront w)
      (phasor_array E (wavelength w) d (planetype w) (shape w) (pixelscale w))) = shape1 (wavefront w)"
    unfolding shape_def using grid_mul_phasor[OF w(1)] shape_mul_phasor[OF w(1)] by simp_all
  show ?thesis
    by (rule steps_toI[OF _ pixelscale_nonzero[OF w(2) False w(4) w(3)] wts_form[OF assms False]])
      (use g in \<open>simp add: same_grid_def\<close>)
qed

lemma stw_steps:
  assumes "well_formed E w"
  shows "steps_to w (z w + d) (stw E d w)"
proof (cases "d = 0")
  case True
  show ?thesis
    using assms True
    by (intro steps_toI[where X="wavefront w" and ps="pixelscale w" and H="history w"
          and L="logged w @ [(DEBUG, ''Spherical to Waist propagation,dz=''),
            (ERROR, ''Spherical to Waist propagation stopped, no change in distance.'')]"])
      (simp_all add: well_formed_def stw_zero)
next
  case False
  have w: "grid (wavefront w)" "wavelength w \<noteq> 0" "pixelscale w \<noteq> 0" "n w \<noteq> 0"
    using assms by (simp_all add: well_formed_def)
  let ?Y = "(if 0 < d then fft_array else ifft_array) (wavefront w)"
  have gY: "grid ?Y" "shape0 ?Y = shape0 (wavefront w)" "shape1 ?Y = shape1 (wavefront w)"
    using w(1) by simp_all
  have eq: "(shape0 ?Y, shape1 ?Y) = shape w" using gY(2,3) by (simp only: shape_def)
  have "same_grid ?Y (mul_arr ?Y (phasor_array E (wavelength w) d (planetype w)
           (shape0 ?Y, shape1 ?Y) (wavelength w * \<bar>d\<bar> / (real (n w) * pixelscale w))))"
    by (rule same_grid_mul_arr[OF gY(1) same_grid_phasor_array[OF gY(1)]])
  moreover have "same_grid (wavefront w) ?Y" using gY by (simp only: same_grid_def simp_thms)
  ultimately have "same_grid (wavefront w) (mul_arr ?Y (phasor_array E (wavelength w) d (planetype w)
           (shape0 ?Y, shape1 ?Y) (wavelength w * \<bar>d\<bar> / (real (n w) * pixelscale w))))"
    by (rule same_grid_trans[rotated])
  then have g: "same_grid (wavefront w) (mul_arr ?Y (phasor_array E (wavelength w) d (planetype w)
           (shape w) (wavelength w * \<bar>d\<bar> / (real (n w) * pixelscale w))))"
    by (simp only: eq)
  show ?thesis
    by (rule steps_toI[OF g pixelscale_nonzero[OF w(2) False w(4) w(3)] stw_form[OF assms False]])
qed

lemma steps_to_bind:
  assumes "steps_to w z1 r" "well_formed E w"
    and "\<And>w1. well_formed E w1 \<Longrightarrow> z w1 = z1 \<Longrightarrow> r = Inr w1 \<Longrightarrow> steps_to w1 z2 (f w1)"
  shows "steps_to w z2 (bind r f)"
proof -
  obtain X L H ps where 1: "same_grid (wavefront w) X" "ps \<noteq> 0"
    "r = Inr (w\<lparr>wavefront := X, logged := L, pixelscale := ps, z := z1, history := H\<rparr>)"
    using assms(1) unfolding steps_to_def by blast
  let ?w1 = "w\<lparr>wavefront := X, logged := L, pixelscale := ps, z := z1, history := H\<rparr>"
  have wf1: "well_formed E ?w1"
    using assms(2) 1 by (simp add: well_formed_def same_grid_def)
  have "steps_to ?w1 z2 (f ?w1)" by (rule assms(3)[OF wf1 _ 1(3)]) simp
  then obtain X' L' H' ps' where 2: "same_grid X X'" "ps' \<noteq> 0"
    "f ?w1 = Inr (?w1\<lparr>wavefront := X', logged := L', pixelscale := ps', z := z2, history := H'\<rparr>)"
    unfolding steps_to_def by auto
  have "same_grid (wavefront w) X'" using 1(1) 2(1) by (rule same_grid_trans)
  then show ?thesis
    by (rule steps_toI[OF _ 2(2)]) (simp add: 1(3) 2(3))
qed

lemma steps_to_fields:
  assumes "steps_to w zz (Inr w')" "well_formed E w"
  shows "well_formed E w'" "z w' = zz" "z_w0 w' = z_w0 w" "w_0 w' = w_0 w"
    "wavelength w' = wavelength w" "spherical w' = spherical w" "planetype w' = planetype w"
    "waists_z w' = waists_z w" "waists_w0 w' = waists_w0 w"
  using assms unfolding steps_to_def by (auto simp: well_formed_def same_grid_def)

lemma steps_to_add_log: "steps_to (add_log es w) zz r \<Longrightarrow> steps_to w zz r"
  unfolding steps_to_def add_log_def by auto

lemma well_formed_add_log [simp]: "well_formed E (add_log es w) = well_formed E w"
  by (simp add: well_formed_def add_log_def)

lemma add_log_fields [simp]:
  "z (add_log es w) = z w" "z_w0 (add_log es w) = z_w0 w" "spherical (add_log es w) = spherical w"
  "w_0 (add_log es w) = w_0 w" "wavelength (add_log es w) = wavelength w"
  "wavefront (add_log es w) = wavefront w" "planetype (add_log es w) = planetype w"
  "pixelscale (add_log es w) = pixelscale w" "waists_z (add_log es w) = waists_z w"
  "waists_w0 (add_log es w) = waists_w0 w" "rayl_factor (add_log es w) = rayl_factor w"
  "force_fresnel (add_log es w) = force_fresnel w" "oversample (add_log es w) = oversample w"
  "n (add_log es w) = n w" "history (add_log es w) = history w"
  "logged (add_log es w) = logged w @ es"
  by (simp_all add: add_log_def)

lemma planar_range_cong:
  "z_w0 a = z_w0 b \<Longrightarrow> w_0 a = w_0 b \<Longrightarrow> wavelength a = wavelength b \<Longrightarrow>
   planar_range a zz = planar_range b zz"
  by (simp add: planar_range_def z_R_def)

lemma ptp_steps_log:
  "well_formed E w \<Longrightarrow>
   steps_to w (if \<bar>d\<bar> < Angstrom then z w else z w + d) (ptp E (Metres d) (add_log es w))"
  using ptp_steps[of E "add_log es w" d, unfolded add_log_fields well_formed_add_log]
  by (rule steps_to_add_log)

lemma wts_steps_log:
  "well_formed E w \<Longrightarrow> steps_to w (z w + d) (wts E d (add_log es w))"
  using wts_steps[of E "add_log es w" d, unfolded add_log_fields well_formed_add_log]
  by (rule steps_to_add_log)

lemma stw_steps_log:
  "well_formed E w \<Longrightarrow> steps_to w (z w + d) (stw E d (add_log es w))"
  using stw_steps[of E "add_log es w" d, unfolded add_log_fields well_formed_add_log]
  by (rule steps_to_add_log)

lemma dispatch_steps:
  assumes wf: "well_formed E w0"
  shows "steps_to w0
     (z w0 + dz - (if \<bar>ptp_leg w0 dz\<bar> < Angstrom then ptp_leg w0 dz else 0))
     (if \<not> spherical w0 then
        if planar_range w0 (z w0 + dz) then ptp E (Metres dz) (add_log e1 w0)
        else bind (ptp E (Metres (z_w0 w0 - z w0)) (add_log e2 w0))
               (\<lambda>w1. wts E (z w0 + dz - z_w0 w1) w1)
      else
        if planar_range w0 (z w0 + dz) then
          bind (stw E (z_w0 w0 - z w0) (add_log e3 w0))
            (\<lambda>w1. ptp E (Metres (z w0 + dz - z_w0 w1)) w1)
        else
          bind (stw E (z_w0 w0 - z w0) (add_log e4 w0))
            (\<lambda>w1. wts E (z w0 + dz - z_w0 w1) (add_log e5 w1)))"
proof -
  let ?zt = "z w0 + dz"
  consider (r1) "\<not> spherical w0" "planar_range w0 ?zt"
    | (r2) "\<not> spherical w0" "\<not> planar_range w0 ?zt"
    | (r3) "spherical w0" "planar_range w0 ?zt"
    | (r4) "spherical w0" "\<not> planar_range w0 ?zt"
    by blast
  then show ?thesis
  proof cases
    case r1
    have "z w0 + dz - (if \<bar>ptp_leg w0 dz\<bar> < Angstrom then ptp_leg w0 dz else 0) =
       (if \<bar>dz\<bar> < Angstrom then z w0 else z w0 + dz)"
      using r1 by (simp add: ptp_leg_def)
    then show ?thesis using r1 ptp_steps_log[OF wf, of dz e1] by simp
  next
    case r2
    let ?leg = "z_w0 w0 - z w0"
    let ?z1 = "if \<bar>?leg\<bar> < Angstrom then z w0 else z w0 + ?leg"
    have 1: "steps_to w0 ?z1 (ptp E (Metres ?leg) (add_log e2 w0))"
      by (rule ptp_steps_log[OF wf])
    have "steps_to w0 (?z1 + (?zt - z_w0 w0))
       (bind (ptp E (Metres ?leg) (add_log e2 w0)) (\<lambda>w1. wts E (?zt - z_w0 w1) w1))"
    proof (rule steps_to_bind[OF 1 wf])
      fix w1 assume a: "well_formed E w1" "z w1 = ?z1" "ptp E (Metres ?leg) (add_log e2 w0) = Inr w1"
      have b: "z_w0 w1 = z_w0 w0"
        by (rule steps_to_fields(3)[OF 1[unfolded a(3)] wf])
      show "steps_to w1 (?z1 + (?zt - z_w0 w0)) (wts E (?zt - z_w0 w1) w1)"
        using wts_steps[OF a(1), of "?zt - z_w0 w1"] unfolding a(2) b .
    qed
    moreover have "?z1 + (?zt - z_w0 w0) =
       z w0 + dz - (if \<bar>ptp_leg w0 dz\<bar> < Angstrom then ptp_leg w0 dz else 0)"
      using r2 by (simp add: ptp_leg_def)
    ultimately show ?thesis using r2 by simp
  next
    case r3
    let ?leg = "?zt - z_w0 w0"
    let ?z1 = "z w0 + (z_w0 w0 - z w0)"
    have 1: "steps_to w0 ?z1 (stw E (z_w0 w0 - z w0) (add_log e3 w0))"
      by (rule stw_steps_log[OF wf])
    have "steps_to w0 (if \<bar>?leg\<bar> < Angstrom then ?z1 else ?z1 + ?leg)
       (bind (stw E (z_w0 w0 - z w0) (add_log e3 w0)) (\<lambda>w1. ptp E (Metres (?zt - z_w0 w1)) w1))"
    proof (rule steps_to_bind[OF 1 wf])
      fix w1 assume a: "well_formed E w1" "z w1 = ?z1"
        "stw E (z_w0 w0 - z w0) (add_log e3 w0) = Inr w1"
      have b: "z_w0 w1 = z_w0 w0"
        by (rule steps_to_fields(3)[OF 1[unfolded a(3)] wf])
      show "steps_to w1 (if \<bar>?leg\<bar> < Angstrom then ?z1 else ?z1 + ?leg)
          (ptp E (Metres (?zt - z_w0 w1)) w1)"
        using ptp_steps[OF a(1), of "?zt - z_w0 w1"] unfolding a(2) b .
    qed
    moreover have "(if \<bar>?leg\<bar> < Angstrom then ?z1 else ?z1 + ?leg) =
       z w0 + dz - (if \<bar>ptp_leg w0 dz\<bar> < Angstrom then ptp_leg w0 dz else 0)"
      using r3 by (simp add: ptp_leg_def)
    ultimately show ?thesis using r3 by simp
  next
    case r4
    let ?z1 = "z w0 + (z_w0 w0 - z w0)"
    have 1: "steps_to w0 ?z1 (stw E (z_w0 w0 - z w0) (add_log e4 w0))"
      by (rule stw_steps_log[OF wf])
    have "steps_to w0 (?z1 + (?zt - z_w0 w0))
       (bind (stw E (z_w0 w0 - z w0) (add_log e4 w0))
          (\<lambda>w1. wts E (?zt - z_w0 w1) (add_log e5 w1)))"
    proof (rule steps_to_bind[OF 1 wf])
      fix w1 assume a: "well_formed E w1" "z w1 = ?z1"
        "stw E (z_w0 w0 - z w0) (add_log e4 w0) = Inr w1"
      have b: "z_w0 w1 = z_w0 w0"
        by (rule steps_to_fields(3)[OF 1[unfolded a(3)] wf])
      show "steps_to w1 (?z1 + (?zt - z_w0 w0)) (wts E (?zt - z_w0 w1) (add_log e5 w1))"
        using wts_steps_log[OF a(1), of "?zt - z_w0 w1" e5] unfolding a(2) b .
    qed
    moreover have "?z1 + (?zt - z_w0 w0) =
       z w0 + dz - (if \<bar>ptp_leg w0 dz\<bar> < Angstrom then ptp_leg w0 dz else 0)"
      using r4 by (simp add: ptp_leg_def)
    ultimately show ?thesis using r4 by simp
  qed
qed

lemma ptp_leg_cong:
  "z a = z b \<Longrightarrow> z_w0 a = z_w0 b \<Longrightarrow> w_0 a = w_0 b \<Longrightarrow> wavelength a = wavelength b \<Longrightarrow>
   spherical a = spherical b \<Longrightarrow> ptp_leg a dz = ptp_leg b dz"
  using planar_range_cong[of a b] by (simp add: ptp_leg_def Let_def)

lemma propagate_fresnel_run:
  assumes wf: "well_formed E w"
  shows "\<exists>w'. propagate_fresnel E dz w = Inr w' \<and> well_formed E w' \<and>
     z w' = z w + dz - (if \<bar>ptp_leg w dz\<bar> < Angstrom then ptp_leg w dz else 0) \<and>
     spherical w' = spherical w \<and> z_w0 w' = z_w0 w \<and> w_0 w' = w_0 w \<and>
     wavelength w' = wavelength w \<and> planetype w' = INTERMED"
proof -
  define w0 where "w0 = add_log [(DEBUG, ''Beginning Fresnel Prop. Waist at z = '')]
                 (w\<lparr>wavefront := fftshift (wavefront w)\<rparr>)"
  have g: "grid (fftshift (wavefront w))"
    using grid_fftshift[OF well_formed_grid[OF wf]] by (simp add: same_grid_def)
  have wf0: "well_formed E w0"
    unfolding w0_def using wf g by (simp add: well_formed_def)
  have f0: "z w0 = z w" "z_w0 w0 = z_w0 w" "w_0 w0 = w_0 w" "wavelength w0 = wavelength w"
    "spherical w0 = spherical w" "planetype w0 = planetype w"
    unfolding w0_def by simp_all
  have leg: "ptp_leg w0 dz = ptp_leg w dz"
    by (rule ptp_leg_cong) (simp_all add: f0)
  let ?zf = "z w + dz - (if \<bar>ptp_leg w dz\<bar> < Angstrom then ptp_leg w dz else 0)"
  let ?r = "(if \<not> spherical w0 then
              if planar_range w0 (z w0 + dz) then
                ptp E (Metres dz)
                  (add_log [(DEBUG, ''Plane to Plane Regime, dz=''),
                            (DEBUG, ''Constant Pixelscale: '')] w0)
              else
                bind (ptp E (Metres (z_w0 w0 - z w0))
                       (add_log [(DEBUG, ''Plane to Spherical, inside Z_R to outside Z_R'')] w0))
                  (\<lambda>w1. wts E (z w0 + dz - z_w0 w1) w1)
            else
              if planar_range w0 (z w0 + dz) then
                bind (stw E (z_w0 w0 - z w0)
                       (add_log [(DEBUG, ''Spherical to Plane Regime, outside Z_R to inside Z_R'')] w0))
                  (\<lambda>w1. ptp E (Metres (z w0 + dz - z_w0 w1)) w1)
              else
                bind (stw E (z_w0 w0 - z w0)
                       (add_log [(DEBUG, ''Spherical to Spherical, Outside Z_R to waist (z_w0) to outside Z_R''),
                                 (DEBUG, ''Starting Pixelscale: '')] w0))
                  (\<lambda>w1. wts E (z w0 + dz - z_w0 w1)
                          (add_log [(DEBUG, ''Intermediate Pixelscale: '')] w1)))"
  have st: "steps_to w0 ?zf ?r"
    using dispatch_steps[OF wf0, of dz] unfolding leg f0(1) .
  then obtain w2 where w2: "?r = Inr w2" unfolding steps_to_def by blast
  note fs = steps_to_fields[OF st[unfolded w2] wf0]
  have pf: "propagate_fresnel E dz w =
     Inr (add_log [(DEBUG, ''------ Propagated to plane of type '')]
           (w2\<lparr>wavefront := fftshift (wavefront w2), planetype := INTERMED\<rparr>))"
    unfolding propagate_fresnel_def Let_def w0_def[symmetric] f0(1)[symmetric] w2 by simp
  have g2: "grid (fftshift (wavefront w2))"
    using grid_fftshift[OF well_formed_grid[OF fs(1)]] by (simp add: same_grid_def)
  show ?thesis
    unfolding pf using fs g2 by (simp add: f0 well_formed_def)
qed

subsection \<open>C1: the dispatch follows the regime table\<close>

lemma bind_Inr_right [simp]: "bind r Inr = r"
  by (cases r) simp_all

lemma finish_same_run:
  assumes "nolog a = nolog b"
  shows "same_run
    (Inr (add_log es (a\<lparr>wavefront := fftshift (wavefront a), planetype := INTERMED\<rparr>)))
    (Inr (b\<lparr>wavefront := fftshift (wavefront b), planetype := INTERMED\<rparr>))"
proof -
  have "nolog (a\<lparr>wavefront := fftshift (wavefront b)\<rparr>) =
        nolog (b\<lparr>wavefront := fftshift (wavefront b)\<rparr>)"
    by (rule nolog_update(1)[OF assms])
  then have "nolog (a\<lparr>wavefront := fftshift (wavefront b), planetype := INTERMED\<rparr>) =
        nolog (b\<lparr>wavefront := fftshift (wavefront b), planetype := INTERMED\<rparr>)"
    by (rule nolog_update(5))
  then show ?thesis by (simp add: nolog_fields(1)[OF assms])
qed

lemma regime_table_rows:
  "regime_table w dz =
     (if \<not> spherical w then
        (if planar_range w (z w + dz) then [PTP dz]
         else [PTP (z_w0 w - z w), WTS (z w + dz - z_w0 w)])
      else
        (if planar_range w (z w + dz) then [STW (z_w0 w - z w), PTP (z w + dz - z_w0 w)]
         else [STW (z_w0 w - z w), WTS (z w + dz - z_w0 w)]))"
  by (simp add: regime_table_def planar_range_def Let_def)

lemma run_kernels_nil_fun: "run_kernels E [] = Inr"
  by (rule ext) simp

lemma run_kernels_one_fun: "run_kernels E [k] = run_kernel E k"
  by (rule ext) (simp add: run_kernels_nil_fun)

lemma run_kernel_fun:
  "run_kernel E (PTP d) = ptp E (Metres d)" "run_kernel E (WTS d) = wts E d"
  "run_kernel E (STW d) = stw E d"
  by (rule ext, simp)+

lemma run_kernels_one: "run_kernels E [k] w = run_kernel E k w"
  by (simp only: run_kernels_one_fun)

lemma run_kernels_two:
  "run_kernels E [k1, k2] w = bind (run_kernel E k1 w) (run_kernel E k2)"
  by (simp only: run_kernels.simps(2)[of E k1 "[k2]"] run_kernels_one_fun)

lemma same_run_bind_results:
  assumes "same_run r1 r2"
    and "\<And>a b. r1 = Inr a \<Longrightarrow> r2 = Inr b \<Longrightarrow> nolog a = nolog b \<Longrightarrow> same_run (f a) (g b)"
  shows "same_run (bind r1 f) (bind r2 g)"
  using assms by (cases r1; cases r2) simp_all

lemma fft_z_w0: "fft E w = Inr w' \<Longrightarrow> z_w0 w' = z_w0 w"
  by (auto simp: fft_def bind_eq_Inr split: if_splits)

lemma inv_fft_z_w0: "inv_fft E w = Inr w' \<Longrightarrow> z_w0 w' = z_w0 w"
  by (auto simp: inv_fft_def bind_eq_Inr split: if_splits)

lemma imul_z_w0: "imul_QuadPhase E zm lam w = Inr w' \<Longrightarrow> z_w0 w' = z_w0 w"
  by (auto simp: imul_QuadPhase_def bind_eq_Inr)

lemma ptp_z_w0:
  assumes "ptp E (Metres d) w = Inr w'"
  shows "z_w0 w' = z_w0 w"
proof (cases "\<bar>d\<bar> < Angstrom")
  case True
  then show ?thesis using assms by (auto simp: ptp_Metres)
next
  case False
  then obtain eT w1 w2 where "fft E w = Inr w1"
    "inv_fft E (w1\<lparr>wavefront := mul_arr (wavefront w1) eT\<rparr>) = Inr w2"
    "w' = w2\<lparr>z := z w2 + d, history := history w2 @ [Propagated_PTP d]\<rparr>"
    using assms by (auto simp: ptp_Metres bind_eq_Inr)
  then show ?thesis using fft_z_w0 inv_fft_z_w0 by fastforce
qed

lemma stw_z_w0:
  assumes "stw E d w = Inr w'"
  shows "z_w0 w' = z_w0 w"
proof (cases "d = 0")
  case True
  then show ?thesis using assms by (auto simp: stw_def)
next
  case False
  let ?wa = "add_log [(DEBUG, ''Spherical to Waist propagation,dz='')] w"
  from False obtain w1 ps w2 where 1: "(if 0 < d then fft E ?wa else inv_fft E ?wa) = Inr w1"
    "imul_QuadPhase E (Fin d) (wavelength w1) (w1\<lparr>pixelscale := ps\<rparr>) = Inr w2"
    "w' = w2\<lparr>z := z w2 + d, history := history w2 @ [Propagated_STW d]\<rparr>"
    using assms by (auto simp: stw_def Let_def bind_eq_Inr)
  have "z_w0 w1 = z_w0 w"
    using 1(1) fft_z_w0[of E ?wa w1] inv_fft_z_w0[of E ?wa w1] by (simp split: if_splits)
  moreover have "z_w0 w2 = z_w0 w1" using imul_z_w0[OF 1(2)] by simp
  ultimately show ?thesis using 1(3) by simp
qed

lemma dispatch_same_run:
  "same_run (propagate_fresnel E delta_z w) (table_run E delta_z w)"
proof -
  define ws where "ws = w\<lparr>wavefront := fftshift (wavefront w)\<rparr>"
  define w0 where "w0 = add_log [(DEBUG, ''Beginning Fresnel Prop. Waist at z = '')] ws"
  have n0: "nolog (add_log es w0) = nolog ws" for es by (simp add: w0_def)
  have f0: "z w0 = z w" "z_w0 w0 = z_w0 w" "spherical w0 = spherical w"
    "planar_range w0 zz = planar_range w zz" for zz
    by (simp_all add: w0_def ws_def planar_range_def z_R_def)
  have zws: "z_w0 ws = z_w0 w" by (simp add: ws_def)
  let ?zt = "z w + delta_z"
  let ?fin = "\<lambda>w2. Inr (add_log [(DEBUG, ''------ Propagated to plane of type '')]
                 (w2\<lparr>wavefront := fftshift (wavefront w2), planetype := INTERMED\<rparr>))"
  let ?fin' = "\<lambda>w'. Inr (w'\<lparr>wavefront := fftshift (wavefront w'), planetype := INTERMED\<rparr>)"
  have fin: "\<And>a b. nolog a = nolog b \<Longrightarrow> same_run (?fin a) (?fin' b)"
    by (rule finish_same_run)
  have pf: "propagate_fresnel E delta_z w = bind
     (if \<not> spherical w then
              if planar_range w ?zt then
                ptp E (Metres delta_z)
                  (add_log [(DEBUG, ''Plane to Plane Regime, dz=''),
                            (DEBUG, ''Constant Pixelscale: '')] w0)
              else
                bind (ptp E (Metres (z_w0 w - z w))
                       (add_log [(DEBUG, ''Plane to Spherical, inside Z_R to outside Z_R'')] w0))
                  (\<lambda>w1. wts E (?zt - z_w0 w1) w1)
            else
              if planar_range w ?zt then
                bind (stw E (z_w0 w - z w)
                       (add_log [(DEBUG, ''Spherical to Plane Regime, outside Z_R to inside Z_R'')] w0))
                  (\<lambda>w1. ptp E (Metres (?zt - z_w0 w1)) w1)
              else
                bind (stw E (z_w0 w - z w)
                       (add_log [(DEBUG, ''Spherical to Spherical, Outside Z_R to waist (z_w0) to outside Z_R''),
                                 (DEBUG, ''Starting Pixelscale: '')] w0))
                  (\<lambda>w1. wts E (?zt - z_w0 w1)
                          (add_log [(DEBUG, ''Intermediate Pixelscale: '')] w1))) ?fin"
    unfolding propagate_fresnel_def Let_def ws_def[symmetric] w0_def[symmetric] f0 ..
  have tr: "table_run E delta_z w = bind (run_kernels E (regime_table w delta_z) ws) ?fin'"
    unfolding table_run_def ws_def ..
  consider (r1) "\<not> spherical w" "planar_range w ?zt"
    | (r2) "\<not> spherical w" "\<not> planar_range w ?zt"
    | (r3) "spherical w" "planar_range w ?zt"
    | (r4) "spherical w" "\<not> planar_range w ?zt"
    by blast
  then show ?thesis
  proof cases
    case r1
    have "same_run (bind (ptp E (Metres delta_z) (add_log [(DEBUG, ''Plane to Plane Regime, dz=''),
                            (DEBUG, ''Constant Pixelscale: '')] w0)) ?fin)
                   (bind (ptp E (Metres delta_z) ws) ?fin')"
      by (rule same_run_bind[OF ptp_same_run[OF n0] fin])
    then show ?thesis
      unfolding pf tr regime_table_rows using r1
      by (simp add: run_kernels_nil_fun run_kernels_one_fun run_kernel_fun)
  next
    case r2
    have "same_run
       (bind (bind (ptp E (Metres (z_w0 w - z w))
                (add_log [(DEBUG, ''Plane to Spherical, inside Z_R to outside Z_R'')] w0))
              (\<lambda>w1. wts E (?zt - z_w0 w1) w1)) ?fin)
       (bind (bind (ptp E (Metres (z_w0 w - z w)) ws) (wts E (?zt - z_w0 w))) ?fin')"
    proof (rule same_run_bind[OF same_run_bind_results[OF ptp_same_run[OF n0]] fin])
      fix a b :: fresnel_wavefront
      assume ab: "nolog a = nolog b" and b: "ptp E (Metres (z_w0 w - z w)) ws = Inr b"
      have "z_w0 a = z_w0 w"
        using nolog_fields(9)[OF ab] ptp_z_w0[OF b] zws by simp
      then show "same_run (wts E (?zt - z_w0 a) a) (wts E (?zt - z_w0 w) b)"
        using wts_same_run[OF ab] by simp
    qed
    then show ?thesis
      unfolding pf tr regime_table_rows using r2
      by (simp add: run_kernels_nil_fun run_kernels_one_fun run_kernel_fun)
  next
    case r3
    have "same_run
       (bind (bind (stw E (z_w0 w - z w)
                (add_log [(DEBUG, ''Spherical to Plane Regime, outside Z_R to inside Z_R'')] w0))
              (\<lambda>w1. ptp E (Metres (?zt - z_w0 w1)) w1)) ?fin)
       (bind (bind (stw E (z_w0 w - z w) ws) (ptp E (Metres (?zt - z_w0 w)))) ?fin')"
    proof (rule same_run_bind[OF same_run_bind_results[OF stw_same_run[OF n0]] fin])
      fix a b :: fresnel_wavefront
      assume ab: "nolog a = nolog b" and b: "stw E (z_w0 w - z w) ws = Inr b"
      have "z_w0 a = z_w0 w"
        using nolog_fields(9)[OF ab] stw_z_w0[OF b] zws by simp
      then show "same_run (ptp E (Metres (?zt - z_w0 a)) a) (ptp E (Metres (?zt - z_w0 w)) b)"
        using ptp_same_run[OF ab] by simp
    qed
    then show ?thesis
      unfolding pf tr regime_table_rows using r3
      by (simp add: run_kernels_nil_fun run_kernels_one_fun run_kernel_fun)
  next
    case r4
    have "same_run
       (bind (bind (stw E (z_w0 w - z w)
                (add_log [(DEBUG, ''Spherical to Spherical, Outside Z_R to waist (z_w0) to outside Z_R''),
                          (DEBUG, ''Starting Pixelscale: '')] w0))
              (\<lambda>w1. wts E (?zt - z_w0 w1)
                      (add_log [(DEBUG, ''Intermediate Pixelscale: '')] w1))) ?fin)
       (bind (bind (stw E (z_w0 w - z w) ws) (wts E (?zt - z_w0 w))) ?fin')"
    proof (rule same_run_bind[OF same_run_bind_results[OF stw_same_run[OF n0]] fin])
      fix a b :: fresnel_wavefront
      assume ab: "nolog a = nolog b" and b: "stw E (z_w0 w - z w) ws = Inr b"
      have "z_w0 a = z_w0 w"
        using nolog_fields(9)[OF ab] stw_z_w0[OF b] zws by simp
      moreover have "nolog (add_log [(DEBUG, ''Intermediate Pixelscale: '')] a) = nolog b"
        using ab by simp
      ultimately show "same_run
          (wts E (?zt - z_w0 a) (add_log [(DEBUG, ''Intermediate Pixelscale: '')] a))
          (wts E (?zt - z_w0 w) b)"
        using wts_same_run by simp
    qed
    then show ?thesis
      unfolding pf tr regime_table_rows using r4
      by (simp add: run_kernels_nil_fun run_kernels_one_fun run_kernel_fun)
  qed
qed

subsection \<open>What a kernel that returns leaves of the beam parameters\<close>

lemma fft_frame:
  "fft E w = Inr w' \<Longrightarrow> z w' = z w \<and> spherical w' = spherical w"
  by (auto simp: fft_def bind_eq_Inr split: if_splits)

lemma inv_fft_frame:
  "inv_fft E w = Inr w' \<Longrightarrow> z w' = z w \<and> spherical w' = spherical w"
  by (auto simp: inv_fft_def bind_eq_Inr split: if_splits)

lemma imul_frame:
  "imul_QuadPhase E zm lam w = Inr w' \<Longrightarrow> z w' = z w \<and> spherical w' = spherical w"
  by (auto simp: imul_QuadPhase_def bind_eq_Inr)

lemma ptp_frame:
  assumes "ptp E (Metres d) w = Inr w'"
  shows "z w' = (if \<bar>d\<bar> < Angstrom then z w else z w + d) \<and> spherical w' = spherical w"
proof (cases "\<bar>d\<bar> < Angstrom")
  case True
  then show ?thesis using assms by (auto simp: ptp_Metres)
next
  case False
  then obtain eT w1 w2 where "fft E w = Inr w1"
    "inv_fft E (w1\<lparr>wavefront := mul_arr (wavefront w1) eT\<rparr>) = Inr w2"
    "w' = w2\<lparr>z := z w2 + d, history := history w2 @ [Propagated_PTP d]\<rparr>"
    using assms by (auto simp: ptp_Metres bind_eq_Inr)
  then show ?thesis using fft_frame inv_fft_frame False by fastforce
qed

lemma stw_frame:
  assumes "stw E d w = Inr w'"
  shows "z w' = z w + d \<and> spherical w' = spherical w"
proof (cases "d = 0")
  case True
  then show ?thesis using assms by (auto simp: stw_def)
next
  case False
  let ?wa = "add_log [(DEBUG, ''Spherical to Waist propagation,dz='')] w"
  from False obtain w1 ps w2 where 1: "(if 0 < d then fft E ?wa else inv_fft E ?wa) = Inr w1"
    "imul_QuadPhase E (Fin d) (wavelength w1) (w1\<lparr>pixelscale := ps\<rparr>) = Inr w2"
    "w' = w2\<lparr>z := z w2 + d, history := history w2 @ [Propagated_STW d]\<rparr>"
    using assms by (auto simp: stw_def Let_def bind_eq_Inr)
  have "z w1 = z w \<and> spherical w1 = spherical w"
    using 1(1) fft_frame[of E ?wa w1] inv_fft_frame[of E ?wa w1] by (simp split: if_splits)
  moreover have "z w2 = z w1 \<and> spherical w2 = spherical w1" using imul_frame[OF 1(2)] by simp
  ultimately show ?thesis using 1(3) by simp
qed

lemma wts_frame:
  assumes "wts E d w = Inr w'"
  shows "z w' = z w + d \<and> spherical w' = spherical w"
proof (cases "d = 0")
  case True
  then show ?thesis using assms by (auto simp: wts_def)
next
  case False
  let ?wa = "add_log [(DEBUG, ''Waist to Spherical propagation, dz='')] w"
  from False obtain w1 w2 ps where 1:
    "imul_QuadPhase E (Fin d) (wavelength ?wa) ?wa = Inr w1"
    "(if 0 < d then fft E w1 else inv_fft E w1) = Inr w2"
    "w' = w2\<lparr>pixelscale := ps, z := z w2 + d, history := history w2 @ [Propagated_WTS d]\<rparr>"
    using assms by (auto simp: wts_def Let_def bind_eq_Inr)
  have "z w1 = z w \<and> spherical w1 = spherical w" using imul_frame[OF 1(1)] by simp
  moreover have "z w2 = z w1 \<and> spherical w2 = spherical w1"
    using 1(2) fft_frame[of E w1 w2] inv_fft_frame[of E w1 w2] by (simp split: if_splits)
  ultimately show ?thesis using 1(3) by simp
qed

lemma propagate_fresnel_returns:
  assumes "propagate_fresnel E dz w = Inr w'"
  shows "z w' = z w + dz - (if \<bar>ptp_leg w dz\<bar> < Angstrom then ptp_leg w dz else 0)"
    and "spherical w' = spherical w" and "planetype w' = INTERMED"
proof -
  define w0 where "w0 = add_log [(DEBUG, ''Beginning Fresnel Prop. Waist at z = '')]
                 (w\<lparr>wavefront := fftshift (wavefront w)\<rparr>)"
  have f0: "z w0 = z w" "z_w0 w0 = z_w0 w" "spherical w0 = spherical w"
    "planar_range w0 zz = planar_range w zz" for zz
    by (simp_all add: w0_def planar_range_def z_R_def)
  define r where "r =
           (if \<not> spherical w then
              if planar_range w (z w + dz) then
                ptp E (Metres dz)
                  (add_log [(DEBUG, ''Plane to Plane Regime, dz=''),
                            (DEBUG, ''Constant Pixelscale: '')] w0)
              else
                bind (ptp E (Metres (z_w0 w - z w))
                       (add_log [(DEBUG, ''Plane to Spherical, inside Z_R to outside Z_R'')] w0))
                  (\<lambda>w1. wts E (z w + dz - z_w0 w1) w1)
            else
              if planar_range w (z w + dz) then
                bind (stw E (z_w0 w - z w)
                       (add_log [(DEBUG, ''Spherical to Plane Regime, outside Z_R to inside Z_R'')] w0))
                  (\<lambda>w1. ptp E (Metres (z w + dz - z_w0 w1)) w1)
              else
                bind (stw E (z_w0 w - z w)
                       (add_log [(DEBUG, ''Spherical to Spherical, Outside Z_R to waist (z_w0) to outside Z_R''),
                                 (DEBUG, ''Starting Pixelscale: '')] w0))
                  (\<lambda>w1. wts E (z w + dz - z_w0 w1)
                          (add_log [(DEBUG, ''Intermediate Pixelscale: '')] w1)))"
  have pf: "propagate_fresnel E dz w = bind r (\<lambda>w2.
           Inr (add_log [(DEBUG, ''------ Propagated to plane of type '')]
                 (w2\<lparr>wavefront := fftshift (wavefront w2), planetype := INTERMED\<rparr>)))"
    unfolding propagate_fresnel_def Let_def r_def w0_def[symmetric] f0 ..
  from assms obtain w2 where w2: "r = Inr w2"
    "w' = add_log [(DEBUG, ''------ Propagated to plane of type '')]
                 (w2\<lparr>wavefront := fftshift (wavefront w2), planetype := INTERMED\<rparr>)"
    unfolding pf bind_eq_Inr by auto
  show "planetype w' = INTERMED" by (simp add: w2(2))
  have "z w2 = z w + dz - (if \<bar>ptp_leg w dz\<bar> < Angstrom then ptp_leg w dz else 0) \<and>
        spherical w2 = spherical w"
  proof (cases "spherical w")
    case False
    show ?thesis
    proof (cases "planar_range w (z w + dz)")
      case True
      with False have "ptp E (Metres dz) (add_log [(DEBUG, ''Plane to Plane Regime, dz=''),
                            (DEBUG, ''Constant Pixelscale: '')] w0) = Inr w2"
        using w2(1) by (simp add: r_def)
      from ptp_frame[OF this] show ?thesis
        using False True by (simp add: ptp_leg_def f0)
    next
      case out: False
      with False obtain w1 where 1: "ptp E (Metres (z_w0 w - z w))
          (add_log [(DEBUG, ''Plane to Spherical, inside Z_R to outside Z_R'')] w0) = Inr w1"
        "wts E (z w + dz - z_w0 w1) w1 = Inr w2"
        using w2(1) by (auto simp: r_def bind_eq_Inr)
      have zw: "z_w0 w1 = z_w0 w" using ptp_z_w0[OF 1(1)] by (simp add: f0)
      from ptp_frame[OF 1(1)] wts_frame[OF 1(2)] show ?thesis
        using False out by (simp add: ptp_leg_def f0 zw)
    qed
  next
    case sph: True
    show ?thesis
    proof (cases "planar_range w (z w + dz)")
      case True
      with sph obtain w1 where 1: "stw E (z_w0 w - z w)
          (add_log [(DEBUG, ''Spherical to Plane Regime, outside Z_R to inside Z_R'')] w0) = Inr w1"
        "ptp E (Metres (z w + dz - z_w0 w1)) w1 = Inr w2"
        using w2(1) by (auto simp: r_def bind_eq_Inr)
      have zw: "z_w0 w1 = z_w0 w" using stw_z_w0[OF 1(1)] by (simp add: f0)
      from stw_frame[OF 1(1)] ptp_frame[OF 1(2)] show ?thesis
        using sph True by (simp add: ptp_leg_def f0 zw)
    next
      case out: False
      with sph obtain w1 where 1: "stw E (z_w0 w - z w)
          (add_log [(DEBUG, ''Spherical to Spherical, Outside Z_R to waist (z_w0) to outside Z_R''),
                                 (DEBUG, ''Starting Pixelscale: '')] w0) = Inr w1"
        "wts E (z w + dz - z_w0 w1) (add_log [(DEBUG, ''Intermediate Pixelscale: '')] w1) = Inr w2"
        using w2(1) by (auto simp: r_def bind_eq_Inr)
      have zw: "z_w0 w1 = z_w0 w" using stw_z_w0[OF 1(1)] by (simp add: f0)
      from stw_frame[OF 1(1)] wts_frame[OF 1(2)] show ?thesis
        using sph out by (simp add: ptp_leg_def f0 zw)
    qed
  qed
  then show "z w' = z w + dz - (if \<bar>ptp_leg w dz\<bar> < Angstrom then ptp_leg w dz else 0)"
    and "spherical w' = spherical w"
    by (simp_all add: w2(2))
qed

lemma xreal_less_irrefl: "\<not> (a::xreal) < a"
  by (cases a) (simp_all add: less_xreal_def)

lemma init_beam [simp]:
  "z (init_wavefront X lam ps W) = 0" "z_w0 (init_wavefront X lam ps W) = 0"
  "w_0 (init_wavefront X lam ps W) = W" "wavelength (init_wavefront X lam ps W) = lam"
  "spherical (init_wavefront X lam ps W) = False"
  by (simp_all add: init_wavefront_def)

lemma z_R_unit: "w_0 w = 1 \<Longrightarrow> wavelength w = pi \<Longrightarrow> z_R w = Fin 1"
  by (simp add: z_R_def)

subsection \<open>C1: the dispatch follows the regime table\<close>

text \<open>
  C1. For every environment, wavefront and distance, \<^verbatim>\<open>propagate_fresnel(delta_z)\<close>
  has the outcome of running the kernels of the four-row regime table in order, between the
  two shifts of the field, up to the output of the logger. ``In range'' is the strict
  comparison: when \<open>|z_w0 - z_target|\<close> equals \<open>z_R\<close> the table gives the out-of-range
  row, \<^verbatim>\<open>ptp(z_w0 - z)\<close> or \<^verbatim>\<open>stw(z_w0 - z)\<close> followed by
  \<^verbatim>\<open>wts(z_target - z_w0)\<close>. Whenever the call returns the plane type is intermediate,
  and on a well-formed wavefront it returns.
\<close>

theorem propagate_fresnel_follows_table:
  "same_run (propagate_fresnel E delta_z w) (table_run E delta_z w) \<and>
   (z_R w = \<bar>Fin (z_w0 w - (z w + delta_z))\<bar> \<longrightarrow>
      regime_table w delta_z =
        (if spherical w then [STW (z_w0 w - z w), WTS (z w + delta_z - z_w0 w)]
         else [PTP (z_w0 w - z w), WTS (z w + delta_z - z_w0 w)])) \<and>
   (\<forall>w'. propagate_fresnel E delta_z w = Inr w' \<longrightarrow> planetype w' = INTERMED) \<and>
   (well_formed E w \<longrightarrow> (\<exists>w'. propagate_fresnel E delta_z w = Inr w'))"
proof (intro conjI impI allI)
  show "same_run (propagate_fresnel E delta_z w) (table_run E delta_z w)"
    by (rule dispatch_same_run)
next
  assume "z_R w = \<bar>Fin (z_w0 w - (z w + delta_z))\<bar>"
  then have "\<not> planar_range w (z w + delta_z)"
    by (simp only: planar_range_def xreal_less_irrefl not_False_eq_True)
  then show "regime_table w delta_z =
        (if spherical w then [STW (z_w0 w - z w), WTS (z w + delta_z - z_w0 w)]
         else [PTP (z_w0 w - z w), WTS (z w + delta_z - z_w0 w)])"
    by (simp add: regime_table_rows)
next
  fix w' assume "propagate_fresnel E delta_z w = Inr w'"
  then show "planetype w' = INTERMED" by (rule propagate_fresnel_returns(3))
next
  assume "well_formed E w"
  from propagate_fresnel_run[OF this, of delta_z]
  show "\<exists>w'. propagate_fresnel E delta_z w = Inr w'" by blast
qed

theorem propagate_fresnel_follows_table_witness:
  "z_R (init_wavefront [[1, 0], [0, 0]] pi 1 1) =
     \<bar>Fin (z_w0 (init_wavefront [[1, 0], [0, 0]] pi 1 1) -
           (z (init_wavefront [[1, 0], [0, 0]] pi 1 1) + 1))\<bar> \<and>
   well_formed (numpy_env mid_centre) (init_wavefront [[1, 0], [0, 0]] pi 1 1) \<and>
   regime_table (init_wavefront [[1, 0], [0, 0]] pi 1 1) 1 = [PTP 0, WTS 1] \<and>
   (\<exists>w'. propagate_fresnel (numpy_env mid_centre) 1 (init_wavefront [[1, 0], [0, 0]] pi 1 1)
           = Inr w' \<and> planetype w' = INTERMED) \<and>
   same_run
     (propagate_fresnel (numpy_env mid_centre) 1 (init_wavefront [[1, 0], [0, 0]] pi 1 1))
     (table_run (numpy_env mid_centre) 1 (init_wavefront [[1, 0], [0, 0]] pi 1 1))"
proof -
  let ?E = "numpy_env mid_centre" and ?w = "init_wavefront [[1, 0], [0, 0]] pi 1 1"
  have wf: "well_formed ?E ?w" by (rule well_formed_init_2_2) simp_all
  have zr: "z_R ?w = Fin 1" by (rule z_R_unit) simp_all
  have b: "z_R ?w = \<bar>Fin (z_w0 ?w - (z ?w + 1))\<bar>" by (simp add: zr)
  from propagate_fresnel_follows_table[of ?E 1 ?w] wf b show ?thesis
    by (simp only: init_beam if_False simp_thms diff_self add_0 diff_0_right) blast
qed

subsection \<open>C3: the position after a propagation\<close>

text \<open>
  C3, as the code has it. Whenever \<^verbatim>\<open>propagate_fresnel(delta_z)\<close> returns, the new
  \<open>z\<close> is the old one plus \<open>delta_z\<close>, less the distance of a \<^verbatim>\<open>ptp\<close> step that
  was skipped for being shorter than one angstrom: \<^verbatim>\<open>ptp\<close> then returns before it
  adds to \<open>z\<close>. So \<open>z\<close> ends within one angstrom of the target, in all four rows of the
  table, and on a well-formed wavefront the call returns.
\<close>

theorem propagate_fresnel_final_z:
  "(\<forall>w'. propagate_fresnel E delta_z w = Inr w' \<longrightarrow>
      z w' = z w + delta_z -
        (if \<bar>ptp_leg w delta_z\<bar> < Angstrom then ptp_leg w delta_z else 0) \<and>
      \<bar>z w' - (z w + delta_z)\<bar> < Angstrom) \<and>
   (well_formed E w \<longrightarrow> (\<exists>w'. propagate_fresnel E delta_z w = Inr w'))"
proof (intro conjI impI allI)
  fix w' assume r: "propagate_fresnel E delta_z w = Inr w'"
  show 1: "z w' = z w + delta_z -
        (if \<bar>ptp_leg w delta_z\<bar> < Angstrom then ptp_leg w delta_z else 0)"
    by (rule propagate_fresnel_returns(1)[OF r])
  show "\<bar>z w' - (z w + delta_z)\<bar> < Angstrom"
    unfolding 1 using Angstrom_pos by simp
next
  assume "well_formed E w"
  from propagate_fresnel_run[OF this, of delta_z]
  show "\<exists>w'. propagate_fresnel E delta_z w = Inr w'" by blast
qed

theorem propagate_fresnel_final_z_witness:
  "well_formed (numpy_env mid_centre) (init_wavefront [[1, 0], [0, 0]] pi 1 1) \<and>
   (\<exists>w'. propagate_fresnel (numpy_env mid_centre) (1 / 2)
            (init_wavefront [[1, 0], [0, 0]] pi 1 1) = Inr w' \<and>
      z w' = 1 / 2 \<and> \<bar>z w' - 1 / 2\<bar> < Angstrom)"
proof -
  let ?E = "numpy_env mid_centre" and ?w = "init_wavefront [[1, 0], [0, 0]] pi 1 1"
  have wf: "well_formed ?E ?w" by (rule well_formed_init_2_2) simp_all
  have zr: "z_R ?w = Fin 1" by (rule z_R_unit) simp_all
  have leg: "ptp_leg ?w (1 / 2) = 1 / 2"
    by (simp add: ptp_leg_def planar_range_def zr)
  have big: "\<not> \<bar>1 / 2 :: real\<bar> < Angstrom" by (simp add: Angstrom_def)
  from propagate_fresnel_final_z[of ?E "1 / 2" ?w] wf show ?thesis
    unfolding leg by (simp only: init_beam big if_False simp_thms add_0 diff_0_right) blast
qed

text \<open>
  The claim as stated has \<open>z\<close> end at the old \<open>z\<close> plus \<open>delta_z\<close> for every
  \<open>delta_z\<close>. From the initial planar state at \<open>z = 0\<close> with \<open>z_R = 1\<close>, a call with
  \<open>delta_z\<close> a hundredth of a nanometre returns with \<open>z\<close> still 0.
\<close>

theorem short_propagation_keeps_z:
  "\<exists>w'. propagate_fresnel (numpy_env mid_centre) (1 / 10 ^ 11)
            (init_wavefront [[1, 0], [0, 0]] pi 1 1) = Inr w' \<and>
      z w' = 0 \<and>
      z w' \<noteq> z (init_wavefront [[1, 0], [0, 0]] pi 1 1) + 1 / 10 ^ 11"
proof -
  let ?E = "numpy_env mid_centre" and ?w = "init_wavefront [[1, 0], [0, 0]] pi 1 1"
  have wf: "well_formed ?E ?w" by (rule well_formed_init_2_2) simp_all
  have zr: "z_R ?w = Fin 1" by (rule z_R_unit) simp_all
  have leg: "ptp_leg ?w (1 / 10 ^ 11) = 1 / 10 ^ 11"
    by (simp add: ptp_leg_def planar_range_def zr)
  have small: "\<bar>1 / 10 ^ 11 :: real\<bar> < Angstrom" by (simp add: Angstrom_def)
  from propagate_fresnel_run[OF wf, of "1 / 10 ^ 11"] show ?thesis
    unfolding leg by (simp only: init_beam small if_True) auto
qed

subsection \<open>C5: the spherical flag after a propagation\<close>

text \<open>
  C5. \<^verbatim>\<open>propagate_fresnel\<close> never assigns \<^verbatim>\<open>self.spherical\<close>, and neither do the
  kernels (line 466 asks whether \<^verbatim>\<open>wts\<close> should): whenever the call returns, the flag
  is what it was. The witness is a failing input of the claim: from the initial planar
  state with \<open>z_R = 1\<close>, \<^verbatim>\<open>propagate_fresnel(5)\<close> runs the out-of-range row, ending in
  \<^verbatim>\<open>wts\<close>, and returns at \<open>z = 5\<close>, outside the Rayleigh range, with the flag still
  False, so that the next call takes a planar row of the table.
\<close>

theorem propagate_fresnel_keeps_spherical:
  "propagate_fresnel E delta_z w = Inr w' \<Longrightarrow> spherical w' = spherical w"
  by (rule propagate_fresnel_returns(2))

theorem propagate_fresnel_keeps_spherical_witness:
  "regime_table (init_wavefront [[1, 0], [0, 0]] pi 1 1) 5 = [PTP 0, WTS 5] \<and>
   (\<exists>w'. propagate_fresnel (numpy_env mid_centre) 5
            (init_wavefront [[1, 0], [0, 0]] pi 1 1) = Inr w' \<and>
      z w' = 5 \<and> \<not> planar_range w' (z w') \<and> \<not> spherical w' \<and>
      regime_table w' 1 = [PTP (- 5), WTS 6])"
proof -
  let ?E = "numpy_env mid_centre" and ?w = "init_wavefront [[1, 0], [0, 0]] pi 1 1"
  have wf: "well_formed ?E ?w" by (rule well_formed_init_2_2) simp_all
  have zr: "z_R ?w = Fin 1" by (rule z_R_unit) simp_all
  have leg: "ptp_leg ?w 5 = 0"
    by (simp add: ptp_leg_def planar_range_def zr)
  have tab: "regime_table ?w 5 = [PTP 0, WTS 5]"
    by (simp add: regime_table_rows planar_range_def zr)
  from propagate_fresnel_run[OF wf, of 5] obtain w' where w':
    "propagate_fresnel ?E 5 ?w = Inr w'" "z w' = 5" "z_w0 w' = 0" "w_0 w' = 1"
    "wavelength w' = pi"
    unfolding leg using Angstrom_pos by auto
  have s: "\<not> spherical w'"
    using propagate_fresnel_keeps_spherical[OF w'(1)] by simp
  have zr': "z_R w' = Fin 1" by (rule z_R_unit) (simp_all add: w')
  have "\<not> planar_range w' (z w')" by (simp add: planar_range_def zr' w')
  moreover have "regime_table w' 1 = [PTP (- 5), WTS 6]"
    using s by (simp add: regime_table_rows planar_range_def zr' w')
  ultimately show ?thesis using tab w' s by blast
qed

subsection \<open>The beam update of \<^verbatim>\<open>apply_optic\<close>\<close>

lemma z_R_add_log [simp]: "z_R (add_log es w) = z_R w"
  by (simp add: z_R_def)

lemma beam_add_log [simp]:
  "R_c (add_log es w) zl = R_c w zl"
  "spot_radius (add_log es w) zl = spot_radius w zl"
  "outside_rayleigh (add_log es w) = outside_rayleigh w"
  "R_input_beam (add_log es w) = R_input_beam w"
  "fraunhofer_suffices optic (add_log es w) = fraunhofer_suffices optic w"
  by (simp_all add: R_c_def spot_radius_def outside_rayleigh_def R_input_beam_def
      fraunhofer_suffices_def Let_def)

lemma r_curve_add_log [simp]: "r_curve optic zl (add_log es w) = r_curve optic zl w"
  by (simp add: r_curve_def)

lemma classify_fields [simp]:
  "z (classify w) = z w" "z_w0 (classify w) = z_w0 w" "w_0 (classify w) = w_0 w"
  "wavelength (classify w) = wavelength w" "planetype (classify w) = planetype w"
  "wavefront (classify w) = wavefront w" "pixelscale (classify w) = pixelscale w"
  "waists_z (classify w) = waists_z w" "waists_w0 (classify w) = waists_w0 w"
  "force_fresnel (classify w) = force_fresnel w" "oversample (classify w) = oversample w"
  "rayl_factor (classify w) = rayl_factor w" "n (classify w) = n w"
  "history (classify w) = history w"
  "spherical (classify w) = (spherical w \<or> outside_rayleigh w)"
  by (simp_all add: classify_def)

lemma z_R_classify [simp]: "z_R (classify w) = z_R w"
  by (simp add: z_R_def)

lemma R_c_classify [simp]: "R_c (classify w) zl = R_c w zl"
  by (simp add: R_c_def Let_def)

lemma r_curve_classify [simp]: "r_curve optic zl (classify w) = r_curve optic zl w"
  by (simp add: r_curve_def)

text \<open>What \<^verbatim>\<open>update_waist\<close> and the beam update leave as they were.\<close>

lemma update_waist_frame:
  assumes "update_waist optic zl nw r w = Inr w'"
  shows "z w' = z w" "wavelength w' = wavelength w" "planetype w' = planetype w"
    "wavefront w' = wavefront w" "pixelscale w' = pixelscale w"
    "waists_z w' = waists_z w" "waists_w0 w' = waists_w0 w"
    "force_fresnel w' = force_fresnel w" "oversample w' = oversample w"
    "rayl_factor w' = rayl_factor w" "n w' = n w" "history w' = history w"
    "spherical w' = spherical w"
  using assms by (auto simp: update_waist_def bind_eq_Inr split: if_splits)

lemma update_waist_values:
  assumes "update_waist optic zl nw r w = Inr w'"
  shows "xeq (R_c w zl) (Fin (fl optic)) \<Longrightarrow> z_w0 w' = zl \<and> Fin (w_0 w') = nw"
    and "\<not> xeq (R_c w zl) (Fin (fl optic)) \<Longrightarrow>
         Fin (z_w0 w') = new_z_w0 (wavelength w) r nw zl \<and>
         Fin (w_0 w') = new_w_0 (wavelength w) r nw"
  using assms by (auto simp: update_waist_def bind_eq_Inr store_eq_Inr split: if_splits)

lemma update_waist_returns:
  "xeq (R_c w zl) (Fin (fl optic)) \<Longrightarrow> nw = Fin s \<Longrightarrow>
     \<exists>w'. update_waist optic zl nw r w = Inr w'"
  "\<not> xeq (R_c w zl) (Fin (fl optic)) \<Longrightarrow> new_z_w0 (wavelength w) r nw zl = Fin a \<Longrightarrow>
     new_w_0 (wavelength w) r nw = Fin b \<Longrightarrow> \<exists>w'. update_waist optic zl nw r w = Inr w'"
  by (simp_all add: update_waist_def)

lemma beam_update_form:
  "beam_update optic zl w =
     bind (update_waist optic zl (spot_radius w zl) (r_curve optic zl w)
        (add_log [(DEBUG, if at_pupil_or_image (planetype w)
                                then '' input flat wavefront and ''
                                else '' input curved wavefront '')]
           (classify (add_log [(DEBUG, ''Beam radius at'')]
              (add_log [(DEBUG, ''Pre-Lens Parameters:'')] w)))))
      (\<lambda>wd. Inr (R_input_beam w, add_log [(DEBUG, ''Post Optic Parameters:'')] wd))"
  by (simp add: beam_update_def Let_def)

lemma beam_update_frame:
  assumes "beam_update optic zl w = Inr (R, we)"
  shows "R = R_input_beam w"
    "z we = z w" "wavelength we = wavelength w" "planetype we = planetype w"
    "wavefront we = wavefront w" "pixelscale we = pixelscale w"
    "waists_z we = waists_z w" "waists_w0 we = waists_w0 w"
    "force_fresnel we = force_fresnel w" "oversample we = oversample w"
    "rayl_factor we = rayl_factor w" "n we = n w" "history we = history w"
    "spherical we = (spherical w \<or> outside_rayleigh w)"
proof -
  from assms obtain wd where wd: "update_waist optic zl (spot_radius w zl) (r_curve optic zl w)
        (add_log [(DEBUG, if at_pupil_or_image (planetype w)
                                then '' input flat wavefront and ''
                                else '' input curved wavefront '')]
           (classify (add_log [(DEBUG, ''Beam radius at'')]
              (add_log [(DEBUG, ''Pre-Lens Parameters:'')] w)))) = Inr wd"
    and R: "R = R_input_beam w" and we: "we = add_log [(DEBUG, ''Post Optic Parameters:'')] wd"
    unfolding beam_update_form bind_eq_Inr by auto
  show "R = R_input_beam w" by (rule R)
  show "z we = z w" "wavelength we = wavelength w" "planetype we = planetype w"
    "wavefront we = wavefront w" "pixelscale we = pixelscale w"
    "waists_z we = waists_z w" "waists_w0 we = waists_w0 w"
    "force_fresnel we = force_fresnel w" "oversample we = oversample w"
    "rayl_factor we = rayl_factor w" "n we = n w" "history we = history w"
    "spherical we = (spherical w \<or> outside_rayleigh w)"
    unfolding we using update_waist_frame[OF wd] by simp_all
qed

lemma beam_update_values:
  assumes "beam_update optic zl w = Inr (R, we)"
  shows "xeq (R_c w zl) (Fin (fl optic)) \<Longrightarrow>
           z_w0 we = zl \<and> Fin (w_0 we) = spot_radius w zl"
    and "\<not> xeq (R_c w zl) (Fin (fl optic)) \<Longrightarrow>
         Fin (z_w0 we) = new_z_w0 (wavelength w) (r_curve optic zl w) (spot_radius w zl) zl \<and>
         Fin (w_0 we) = new_w_0 (wavelength w) (r_curve optic zl w) (spot_radius w zl)"
proof -
  from assms obtain wd where wd: "update_waist optic zl (spot_radius w zl) (r_curve optic zl w)
        (add_log [(DEBUG, if at_pupil_or_image (planetype w)
                                then '' input flat wavefront and ''
                                else '' input curved wavefront '')]
           (classify (add_log [(DEBUG, ''Beam radius at'')]
              (add_log [(DEBUG, ''Pre-Lens Parameters:'')] w)))) = Inr wd"
    and we: "we = add_log [(DEBUG, ''Post Optic Parameters:'')] wd"
    unfolding beam_update_form bind_eq_Inr by auto
  show "xeq (R_c w zl) (Fin (fl optic)) \<Longrightarrow>
           z_w0 we = zl \<and> Fin (w_0 we) = spot_radius w zl"
    unfolding we using update_waist_values(1)[OF wd] by simp
  show "\<not> xeq (R_c w zl) (Fin (fl optic)) \<Longrightarrow>
         Fin (z_w0 we) = new_z_w0 (wavelength w) (r_curve optic zl w) (spot_radius w zl) zl \<and>
         Fin (w_0 we) = new_w_0 (wavelength w) (r_curve optic zl w) (spot_radius w zl)"
    unfolding we using update_waist_values(2)[OF wd] by simp
qed

lemma beam_update_returns:
  "xeq (R_c w zl) (Fin (fl optic)) \<Longrightarrow> spot_radius w zl = Fin s \<Longrightarrow>
     \<exists>we. beam_update optic zl w = Inr (R_input_beam w, we)"
  "\<not> xeq (R_c w zl) (Fin (fl optic)) \<Longrightarrow>
     new_z_w0 (wavelength w) (r_curve optic zl w) (spot_radius w zl) zl = Fin a \<Longrightarrow>
     new_w_0 (wavelength w) (r_curve optic zl w) (spot_radius w zl) = Fin b \<Longrightarrow>
     \<exists>we. beam_update optic zl w = Inr (R_input_beam w, we)"
proof -
  let ?wc = "add_log [(DEBUG, if at_pupil_or_image (planetype w)
                                then '' input flat wavefront and ''
                                else '' input curved wavefront '')]
           (classify (add_log [(DEBUG, ''Beam radius at'')]
              (add_log [(DEBUG, ''Pre-Lens Parameters:'')] w)))"
  have f: "R_c ?wc zl = R_c w zl" "wavelength ?wc = wavelength w" by simp_all
  show "xeq (R_c w zl) (Fin (fl optic)) \<Longrightarrow> spot_radius w zl = Fin s \<Longrightarrow>
     \<exists>we. beam_update optic zl w = Inr (R_input_beam w, we)"
    using update_waist_returns(1)[of ?wc zl optic "spot_radius w zl" s "r_curve optic zl w"]
    unfolding beam_update_form f by auto
  show "\<not> xeq (R_c w zl) (Fin (fl optic)) \<Longrightarrow>
     new_z_w0 (wavelength w) (r_curve optic zl w) (spot_radius w zl) zl = Fin a \<Longrightarrow>
     new_w_0 (wavelength w) (r_curve optic zl w) (spot_radius w zl) = Fin b \<Longrightarrow>
     \<exists>we. beam_update optic zl w = Inr (R_input_beam w, we)"
    using update_waist_returns(2)[of ?wc zl optic "r_curve optic zl w" "spot_radius w zl" a b]
    unfolding beam_update_form f by auto
qed

lemma one_plus_sq_neq0 [simp]: "1 + a * a \<noteq> (0::real)" "0 < 1 + a * a"
proof -
  have "0 \<le> a * a" by simp
  then show "1 + a * a \<noteq> 0" "0 < 1 + a * a" by linarith+
qed

lemma xeq_Fin: "xeq a (Fin b) = (a = Fin b)"
  by (cases a) simp_all

lemma z_R_finite: "wavelength w \<noteq> 0 \<Longrightarrow> z_R w = Fin (pi * (w_0 w)\<^sup>2 / wavelength w)"
  by (simp add: z_R_def)

text \<open>
  A lens at the waist of a beam that is at a pupil or an image: the curvature behind the
  lens is that of the lens, and the new waist follows from lines 642-643.
\<close>

lemma spot_radius_at_waist:
  assumes "w_0 w \<noteq> 0" "wavelength w \<noteq> 0"
  shows "spot_radius w (z_w0 w) = Fin (w_0 w)"
  using assms by (simp add: spot_radius_def z_R_finite)

lemma R_c_at_waist: "R_c w (z_w0 w) = PInf"
  by (simp add: R_c_def)

lemma new_z_w0_lens:
  assumes "W \<noteq> 0"
  shows "new_z_w0 lam (Fin (- f)) (Fin W) zl =
         Fin (f / (1 + (lam * f / (pi * W\<^sup>2))\<^sup>2) + zl)"
proof -
  have "1 + lam * f * (lam * f) / (pi * (W * W) * (pi * (W * W))) \<noteq> 0"
    using one_plus_sq_neq0(1)[of "lam * f / (pi * (W * W))"] by simp
  then show ?thesis
    using assms by (simp add: new_z_w0_def power2_eq_square)
qed

lemma new_w_0_lens:
  assumes "lam \<noteq> 0" "f \<noteq> 0"
  shows "new_w_0 lam (Fin (- f)) (Fin W) =
         Fin (W / sqrt (1 + (pi * W\<^sup>2 / (lam * f))\<^sup>2))"
proof -
  have "\<not> 1 + pi * (W * W) * (pi * (W * W)) / (lam * f * (lam * f)) < 0"
    using one_plus_sq_neq0(2)[of "pi * (W * W) / (lam * f)"] by simp
  moreover have "1 + pi * (W * W) * (pi * (W * W)) / (lam * f * (lam * f)) \<noteq> 0"
    using one_plus_sq_neq0(1)[of "pi * (W * W) / (lam * f)"] by simp
  ultimately show ?thesis
    using assms by (simp add: new_w_0_def power2_eq_square)
qed

lemma lens_at_waist:
  assumes "at_pupil_or_image (planetype w)" "w_0 w \<noteq> 0" "wavelength w \<noteq> 0" "fl optic \<noteq> 0"
  shows "\<exists>we. beam_update optic (z_w0 w) w = Inr (R_input_beam w, we) \<and>
     z_w0 we = fl optic / (1 + (wavelength w * fl optic / (pi * (w_0 w)\<^sup>2))\<^sup>2) + z_w0 w \<and>
     w_0 we = w_0 w / sqrt (1 + (pi * (w_0 w)\<^sup>2 / (wavelength w * fl optic))\<^sup>2)"
proof -
  have nx: "\<not> xeq (R_c w (z_w0 w)) (Fin (fl optic))" by (simp add: R_c_at_waist)
  have rc: "r_curve optic (z_w0 w) w = Fin (- fl optic)"
    using assms(1) by (simp add: r_curve_def)
  have sr: "spot_radius w (z_w0 w) = Fin (w_0 w)"
    by (rule spot_radius_at_waist[OF assms(2,3)])
  note zw = new_z_w0_lens[OF assms(2), of "wavelength w" "fl optic" "z_w0 w"]
  note ww = new_w_0_lens[OF assms(3,4), of "w_0 w"]
  from beam_update_returns(2)[OF nx, unfolded rc sr, OF zw ww]
  obtain we where we: "beam_update optic (z_w0 w) w = Inr (R_input_beam w, we)" by blast
  from beam_update_values(2)[OF we nx, unfolded rc sr zw ww]
  show ?thesis using we by auto
qed

subsection \<open>C10: the radius of the input beam is not zero\<close>

lemma R_input_beam_nonzero:
  assumes "0 < w_0 w" "0 < wavelength w" "0 \<le> rayl_factor w"
  shows "R_input_beam w \<noteq> Fin 0"
proof (cases "outside_rayleigh w")
  case False
  then show ?thesis by (simp add: R_input_beam_def)
next
  case True
  have "0 \<le> rayl_factor w * (pi * (w_0 w)\<^sup>2 / wavelength w)"
    using assms by simp
  moreover have "rayl_factor w * (pi * (w_0 w)\<^sup>2 / wavelength w) < \<bar>z_w0 w - z w\<bar>"
    using True assms(2) by (simp add: outside_rayleigh_def z_R_finite)
  ultimately have "z w - z_w0 w \<noteq> 0" by linarith
  then show ?thesis using True by (simp add: R_input_beam_def)
qed

lemma guard_not_taken:
  "\<not> xeq R (Fin 0) \<Longrightarrow>
     SphSph_Rzero \<notin> set (assigned (effective_focal_length optic zl R we))"
  by (simp add: effective_focal_length_def Let_def)

text \<open>
  C10. In a call of \<^verbatim>\<open>apply_optic\<close> on a wavefront with positive waist radius \<open>w_0\<close>,
  positive wavelength (so that \<open>z_R > 0\<close>) and a \<^verbatim>\<open>rayl_factor\<close> that is not negative,
  the local \<^verbatim>\<open>R_input_beam\<close> is never zero: it is \<open>z - z_w0\<close> only when
  \<open>|z_w0 - z| > rayl_factor * z_R\<close>, and infinity otherwise. So the test
  \<^verbatim>\<open>R_input_beam == 0\<close> of the spherical-to-spherical case is never true and its
  assignment to \<^verbatim>\<open>z_eff\<close> never runs.
\<close>

theorem R_input_beam_never_zero:
  assumes "0 < w_0 w" "0 < wavelength w" "0 \<le> rayl_factor w"
  shows "R_input_beam w \<noteq> Fin 0 \<and>
    (\<forall>R we. beam_update optic zl w = Inr (R, we) \<longrightarrow>
       R = R_input_beam w \<and> \<not> xeq R (Fin 0) \<and>
       SphSph_Rzero \<notin> set (assigned (effective_focal_length optic zl R we)))"
proof (intro conjI allI impI)
  show nz: "R_input_beam w \<noteq> Fin 0" by (rule R_input_beam_nonzero[OF assms])
  fix R we assume "beam_update optic zl w = Inr (R, we)"
  then show R: "R = R_input_beam w" by (rule beam_update_frame(1))
  show nx: "\<not> xeq R (Fin 0)" using nz R by (simp add: xeq_Fin)
  show "SphSph_Rzero \<notin> set (assigned (effective_focal_length optic zl R we))"
    by (rule guard_not_taken[OF nx])
qed

theorem R_input_beam_never_zero_witness:
  "0 < w_0 ((init_wavefront [[1, 0], [0, 0]] pi 1 1)\<lparr>z := 5\<rparr>) \<and>
   0 < wavelength ((init_wavefront [[1, 0], [0, 0]] pi 1 1)\<lparr>z := 5\<rparr>) \<and>
   0 \<le> rayl_factor ((init_wavefront [[1, 0], [0, 0]] pi 1 1)\<lparr>z := 5\<rparr>) \<and>
   R_input_beam ((init_wavefront [[1, 0], [0, 0]] pi 1 1)\<lparr>z := 5\<rparr>) = Fin 5 \<and>
   (\<exists>we. beam_update (GaussianLens 1) 0 ((init_wavefront [[1, 0], [0, 0]] pi 1 1)\<lparr>z := 5\<rparr>)
            = Inr (Fin 5, we) \<and>
      SphSph_Rzero \<notin> set (assigned (effective_focal_length (GaussianLens 1) 0 (Fin 5) we)))"
proof -
  let ?w = "(init_wavefront [[1, 0], [0, 0]] pi 1 1)\<lparr>z := 5\<rparr>"
  have f: "w_0 ?w = 1" "wavelength ?w = pi" "rayl_factor ?w = 2" "z_w0 ?w = 0" "z ?w = 5"
    "planetype ?w = PUPIL"
    by (simp_all add: init_wavefront_def)
  have h: "0 < w_0 ?w" "0 < wavelength ?w" "0 \<le> rayl_factor ?w" by (simp_all add: f)
  have R: "R_input_beam ?w = Fin 5"
    by (simp add: R_input_beam_def outside_rayleigh_def z_R_finite f)
  from lens_at_waist[of ?w "GaussianLens 1"]
  obtain we where we: "beam_update (GaussianLens 1) 0 ?w = Inr (Fin 5, we)"
    unfolding f R by (auto simp: at_pupil_or_image_def GaussianLens_def)
  from R_input_beam_never_zero[OF h, of "GaussianLens 1" 0] we
  have "SphSph_Rzero \<notin> set (assigned (effective_focal_length (GaussianLens 1) 0 (Fin 5) we))"
    by blast
  then show ?thesis using h R we by blast
qed

subsection \<open>C8: the history of waists\<close>

lemma extend_truncate: "poppy_wavefront.extend (poppy_wavefront.truncate w) (poppy_wavefront.more w) = w"
  by (cases w) (simp add: poppy_wavefront.extend_def poppy_wavefront.truncate_def)

lemma extend_more_fields:
  "waists_z (poppy_wavefront.extend b (poppy_wavefront.more w)) = waists_z w"
  "waists_w0 (poppy_wavefront.extend b (poppy_wavefront.more w)) = waists_w0 w"
  "z_w0 (poppy_wavefront.extend b (poppy_wavefront.more w)) = z_w0 w"
  "w_0 (poppy_wavefront.extend b (poppy_wavefront.more w)) = w_0 w"
  by (cases w, cases b, simp add: poppy_wavefront.extend_def)+

lemma propagateTo_base_frame:
  assumes "propagateTo_base E optic w = Inr w'"
  shows "waists_z w' = waists_z w" "waists_w0 w' = waists_w0 w"
    "z_w0 w' = z_w0 w" "w_0 w' = w_0 w"
  using assms by (auto simp: propagateTo_base_def bind_eq_Inr extend_more_fields)

lemma propagateTo_base_numpy: "propagateTo_base (numpy_env c) optic w = Inr w"
  by (simp add: propagateTo_base_def numpy_env_def extend_truncate)

lemma imul_waists:
  assumes "imul_QuadPhase E zm lam w = Inr w'"
  shows "waists_z w' = waists_z w" "waists_w0 w' = waists_w0 w"
    "z_w0 w' = z_w0 w" "w_0 w' = w_0 w"
  using assms by (auto simp: imul_QuadPhase_def bind_eq_Inr)

lemma apply_phase_waists:
  assumes "apply_phase E optic r w = Inr w'"
  shows "waists_z w' = waists_z w @ [z_w0 w]" "waists_w0 w' = waists_w0 w @ [w_0 w]"
    "z_w0 w' = z_w0 w" "w_0 w' = w_0 w"
proof -
  let ?w1 = "(add_log (messages r) w)\<lparr>spherical := now_spherical r\<rparr>"
  from assms obtain ze w2 where 1: "imul_QuadPhase E (- ze) (wavelength ?w1) ?w1 = Inr w2"
    "w' = w2\<lparr>waists_z := waists_z w2 @ [z_w0 w2], waists_w0 := waists_w0 w2 @ [w_0 w2],
            planetype := optic_planetype optic\<rparr>"
    by (auto simp: apply_phase_def Let_def bind_eq_Inr split: option.splits)
  show "waists_z w' = waists_z w @ [z_w0 w]" "waists_w0 w' = waists_w0 w @ [w_0 w]"
    "z_w0 w' = z_w0 w" "w_0 w' = w_0 w"
    using imul_waists[OF 1(1)] by (simp_all add: 1(2))
qed

lemma fraunhofer_suffices_update:
  "beam_update optic zl w = Inr (R, we) \<Longrightarrow>
     fraunhofer_suffices optic we = fraunhofer_suffices optic w"
  by (simp add: fraunhofer_suffices_def beam_update_frame)

lemma apply_optic_cases:
  assumes "oversample w = optic_oversample optic" "beam_update optic zl w = Inr (R, we)"
  shows "fraunhofer_suffices optic w \<Longrightarrow> apply_optic E optic zl ig w =
           propagateTo_base E optic
             (add_log [(DEBUG, ''Simple pupil / image propagation, Fresnel unnecessary.'')] we)"
    and "\<not> fraunhofer_suffices optic w \<Longrightarrow> apply_optic E optic zl True w = Inr we"
    and "\<not> fraunhofer_suffices optic w \<Longrightarrow> apply_optic E optic zl False w =
           apply_phase E optic (effective_focal_length optic zl R we) we"
  using assms fraunhofer_suffices_update[OF assms(2)] by (simp_all add: apply_optic_def)

lemma apply_optic_Inr:
  assumes "apply_optic E optic zl ig w = Inr w'"
  obtains R we where "oversample w = optic_oversample optic"
    "beam_update optic zl w = Inr (R, we)"
  using assms by (auto simp: apply_optic_def bind_eq_Inr split: if_splits)

text \<open>
  C8. Whenever \<^verbatim>\<open>apply_optic\<close> returns, the two lists have either both gained the new
  waist at their ends or are both as they were: the entries they had stay, and the lists
  stay of equal length when they were. They are as they were exactly when the call
  returned early, with \<^verbatim>\<open>ignore_wavefront=True\<close> or after delegating to
  \<^verbatim>\<open>propagateTo\<close> (lines 650-658), and these returns come after \<open>z_w0\<close> and \<open>w_0\<close>
  have been updated. The witness is a failing input of the claim, for each of the two
  early returns: the lens moves the waist from 0 to 1/2 and the lists keep the one entry
  of the constructor.
\<close>

theorem apply_optic_waist_history:
  assumes "apply_optic E optic zl ig w = Inr w'"
  shows "if ig \<or> fraunhofer_suffices optic w
         then waists_z w' = waists_z w \<and> waists_w0 w' = waists_w0 w
         else waists_z w' = waists_z w @ [z_w0 w'] \<and> waists_w0 w' = waists_w0 w @ [w_0 w']"
proof -
  from assms obtain R we where os: "oversample w = optic_oversample optic"
    and bu: "beam_update optic zl w = Inr (R, we)"
    by (rule apply_optic_Inr)
  note fr = beam_update_frame(7,8)[OF bu]
  show ?thesis
  proof (cases "fraunhofer_suffices optic w")
    case True
    from assms[unfolded apply_optic_cases(1)[OF os bu True]]
    show ?thesis using True fr by (simp add: propagateTo_base_frame)
  next
    case nf: False
    show ?thesis
    proof (cases ig)
      case True
      with assms apply_optic_cases(2)[OF os bu nf, of E] have "w' = we" by simp
      then show ?thesis using True fr by simp
    next
      case False
      with assms apply_optic_cases(3)[OF os bu nf, of E]
      have "apply_phase E optic (effective_focal_length optic zl R we) we = Inr w'" by simp
      from apply_phase_waists[OF this] show ?thesis using False nf fr by simp
    qed
  qed
qed

theorem apply_optic_waist_history_witness:
  "(\<exists>w'. apply_optic (numpy_env mid_centre) (GaussianLens 1) 0 True
            (init_wavefront [[1, 0], [0, 0]] pi 1 1) = Inr w' \<and>
      z_w0 w' = 1 / 2 \<and> z_w0 w' \<noteq> z_w0 (init_wavefront [[1, 0], [0, 0]] pi 1 1) \<and>
      waists_z w' = [0] \<and> waists_w0 w' = [1]) \<and>
   (\<exists>w'. apply_optic (numpy_env mid_centre) ((GaussianLens 1)\<lparr>optic_planetype := IMAGE\<rparr>) 0 False
            ((init_wavefront [[1, 0], [0, 0]] pi 1 1)\<lparr>force_fresnel := False\<rparr>) = Inr w' \<and>
      z_w0 w' = 1 / 2 \<and>
      z_w0 w' \<noteq> z_w0 ((init_wavefront [[1, 0], [0, 0]] pi 1 1)\<lparr>force_fresnel := False\<rparr>) \<and>
      waists_z w' = [0] \<and> waists_w0 w' = [1])"
proof -
  let ?E = "numpy_env mid_centre"
  let ?w = "init_wavefront [[1, 0], [0, 0]] pi 1 1"
  let ?v = "?w\<lparr>force_fresnel := False\<rparr>"
  let ?L = "GaussianLens 1" let ?M = "(GaussianLens 1)\<lparr>optic_planetype := IMAGE\<rparr>"
  have fw: "w_0 ?w = 1" "wavelength ?w = pi" "z_w0 ?w = 0" "planetype ?w = PUPIL"
    "oversample ?w = 2" "waists_z ?w = [0]" "waists_w0 ?w = [1]" "force_fresnel ?w"
    by (simp_all add: init_wavefront_def)
  have fv: "w_0 ?v = 1" "wavelength ?v = pi" "z_w0 ?v = 0" "planetype ?v = PUPIL"
    "oversample ?v = 2" "waists_z ?v = [0]" "waists_w0 ?v = [1]" "\<not> force_fresnel ?v"
    by (simp_all add: init_wavefront_def)
  have fL: "fl ?L = 1" "optic_oversample ?L = 2" "fl ?M = 1" "optic_oversample ?M = 2"
    "optic_planetype ?M = IMAGE"
    by (simp_all add: GaussianLens_def)
  have 1: "\<exists>w'. apply_optic ?E ?L 0 True ?w = Inr w' \<and> z_w0 w' = 1 / 2 \<and> z_w0 w' \<noteq> z_w0 ?w \<and>
      waists_z w' = [0] \<and> waists_w0 w' = [1]"
  proof -
    from lens_at_waist[of ?w ?L] obtain we where
      we: "beam_update ?L 0 ?w = Inr (R_input_beam ?w, we)" "z_w0 we = 1 / 2"
      unfolding fw fL by (auto simp: at_pupil_or_image_def)
    have nf: "\<not> fraunhofer_suffices ?L ?w" by (simp add: fraunhofer_suffices_def fw)
    have r: "apply_optic ?E ?L 0 True ?w = Inr we"
      by (rule apply_optic_cases(2)[OF _ we(1) nf]) (simp add: fw fL)
    from apply_optic_waist_history[OF r] have "waists_z we = [0] \<and> waists_w0 we = [1]"
      by (simp add: fw)
    then show ?thesis using r we(2) by (simp add: fw)
  qed
  have 2: "\<exists>w'. apply_optic ?E ?M 0 False ?v = Inr w' \<and> z_w0 w' = 1 / 2 \<and> z_w0 w' \<noteq> z_w0 ?v \<and>
      waists_z w' = [0] \<and> waists_w0 w' = [1]"
  proof -
    from lens_at_waist[of ?v ?M] obtain we where
      we: "beam_update ?M 0 ?v = Inr (R_input_beam ?v, we)" "z_w0 we = 1 / 2"
      unfolding fv fL by (auto simp: at_pupil_or_image_def)
    have f: "fraunhofer_suffices ?M ?v"
      by (simp add: fraunhofer_suffices_def fv fL at_pupil_or_image_def)
    let ?we = "add_log [(DEBUG, ''Simple pupil / image propagation, Fresnel unnecessary.'')] we"
    have r: "apply_optic ?E ?M 0 False ?v = Inr ?we"
      unfolding apply_optic_cases(1)[OF _ we(1) f, of ?E False, unfolded fv fL, OF refl]
      by (rule propagateTo_base_numpy)
    from apply_optic_waist_history[OF r] have "waists_z ?we = [0] \<and> waists_w0 ?we = [1]"
      using f by (simp add: fv)
    then show ?thesis using r we(2) by (simp add: fv)
  qed
  from 1 2 show ?thesis by (rule conjI)
qed

subsection \<open>C2: the waist behind a lens\<close>

lemma xsqrt_one_plus_sq: "xsqrt (Fin 1 + xsq (Fin a)) = Fin (sqrt (1 + a\<^sup>2))"
proof -
  have "\<not> 1 + a * a < 0" using one_plus_sq_neq0(2)[of a] by linarith
  then show ?thesis by (simp add: power2_eq_square)
qed

lemma spot_radius_finite:
  assumes "w_0 w \<noteq> 0" "wavelength w \<noteq> 0"
  shows "spot_radius w zl =
     Fin (w_0 w * sqrt (1 + ((zl - z_w0 w) / (pi * (w_0 w)\<^sup>2 / wavelength w))\<^sup>2))"
proof -
  have r: "pi * (w_0 w)\<^sup>2 / wavelength w \<noteq> 0" using assms by simp
  have "Fin (zl - z_w0 w) / z_R w =
        Fin ((zl - z_w0 w) / (pi * (w_0 w)\<^sup>2 / wavelength w))"
    unfolding z_R_finite[OF assms(2)] using r by (simp only: xreal_div if_False)
  then have "spot_radius w zl = Fin (w_0 w) *
      Fin (sqrt (1 + ((zl - z_w0 w) / (pi * (w_0 w)\<^sup>2 / wavelength w))\<^sup>2))"
    unfolding spot_radius_def by (simp only: xsqrt_one_plus_sq)
  then show ?thesis by (simp only: xreal_arith)
qed

lemma apply_optic_beam:
  assumes "apply_optic E optic zl ig w = Inr w'"
  shows "\<exists>R we. beam_update optic zl w = Inr (R, we) \<and> z_w0 w' = z_w0 we \<and> w_0 w' = w_0 we"
proof -
  from assms obtain R we where os: "oversample w = optic_oversample optic"
    and bu: "beam_update optic zl w = Inr (R, we)"
    by (rule apply_optic_Inr)
  have "z_w0 w' = z_w0 we \<and> w_0 w' = w_0 we"
  proof (cases "fraunhofer_suffices optic w")
    case True
    from assms[unfolded apply_optic_cases(1)[OF os bu True]]
    show ?thesis by (simp add: propagateTo_base_frame)
  next
    case nf: False
    show ?thesis
    proof (cases ig)
      case True
      with assms apply_optic_cases(2)[OF os bu nf, of E] show ?thesis by simp
    next
      case False
      with assms apply_optic_cases(3)[OF os bu nf, of E]
      have "apply_phase E optic (effective_focal_length optic zl R we) we = Inr w'" by simp
      from apply_phase_waists(3,4)[OF this] show ?thesis by simp
    qed
  qed
  then show ?thesis using bu by blast
qed

text \<open>
  C2. On a wavefront at a pupil with its waist at \<open>z = 0\<close>, of radius \<open>W = w_0\<close>, and a
  lens of focal length \<open>f\<close>, \<^verbatim>\<open>apply_optic(lens, 0, ignore_wavefront=True)\<close> leaves
  \<open>z_w0 = f / (1 + (\<lambda> f / (\<pi> W\<^sup>2))\<^sup>2)\<close> and \<open>w_0 = W / sqrt (1 + (\<pi> W\<^sup>2 / (\<lambda> f))\<^sup>2)\<close>,
  the transformation of a Gaussian beam by a lens. And at any \<open>z_lens\<close>, when
  \<^verbatim>\<open>R_c(z_lens)\<close> equals the focal length exactly, the call leaves
  \<open>z_w0 = z_lens\<close> and \<open>w_0 = spot_radius(z_lens)\<close>, the spot radius before the call.
  The values hold whenever the call returns, and with \<^verbatim>\<open>ignore_wavefront=True\<close> it
  returns unless it delegates to \<^verbatim>\<open>propagateTo\<close> of the base class.
\<close>

theorem lens_updates_waist:
  assumes "oversample w = optic_oversample optic" "w_0 w \<noteq> 0" "wavelength w \<noteq> 0"
  shows
  "(planetype w = PUPIL \<and> z_w0 w = 0 \<and> fl optic \<noteq> 0 \<longrightarrow>
      (\<forall>w'. apply_optic E optic 0 True w = Inr w' \<longrightarrow>
          z_w0 w' = fl optic / (1 + (wavelength w * fl optic / (pi * (w_0 w)\<^sup>2))\<^sup>2) \<and>
          w_0 w' = w_0 w / sqrt (1 + (pi * (w_0 w)\<^sup>2 / (wavelength w * fl optic))\<^sup>2)) \<and>
      (\<not> fraunhofer_suffices optic w \<longrightarrow> (\<exists>w'. apply_optic E optic 0 True w = Inr w'))) \<and>
   (xeq (R_c w zl) (Fin (fl optic)) \<longrightarrow>
      (\<forall>ig w'. apply_optic E optic zl ig w = Inr w' \<longrightarrow>
          z_w0 w' = zl \<and> Fin (w_0 w') = spot_radius w zl) \<and>
      (\<not> fraunhofer_suffices optic w \<longrightarrow> (\<exists>w'. apply_optic E optic zl True w = Inr w')))"
proof (intro conjI impI allI)
  assume h: "planetype w = PUPIL \<and> z_w0 w = 0 \<and> fl optic \<noteq> 0"
  then have p: "at_pupil_or_image (planetype w)" by (simp add: at_pupil_or_image_def)
  from lens_at_waist[OF p assms(2,3)] h obtain we where
    we: "beam_update optic 0 w = Inr (R_input_beam w, we)"
      "z_w0 we = fl optic / (1 + (wavelength w * fl optic / (pi * (w_0 w)\<^sup>2))\<^sup>2)"
      "w_0 we = w_0 w / sqrt (1 + (pi * (w_0 w)\<^sup>2 / (wavelength w * fl optic))\<^sup>2)"
    by auto
  {
    fix w' assume "apply_optic E optic 0 True w = Inr w'"
    from apply_optic_beam[OF this] we
    show "z_w0 w' = fl optic / (1 + (wavelength w * fl optic / (pi * (w_0 w)\<^sup>2))\<^sup>2)"
      and "w_0 w' = w_0 w / sqrt (1 + (pi * (w_0 w)\<^sup>2 / (wavelength w * fl optic))\<^sup>2)"
      by auto
  }
  assume "\<not> fraunhofer_suffices optic w"
  from apply_optic_cases(2)[OF assms(1) we(1) this, of E]
  show "\<exists>w'. apply_optic E optic 0 True w = Inr w'" by blast
next
  assume x: "xeq (R_c w zl) (Fin (fl optic))"
  {
    fix ig w' assume "apply_optic E optic zl ig w = Inr w'"
    from apply_optic_beam[OF this] obtain R we where
      "beam_update optic zl w = Inr (R, we)" "z_w0 w' = z_w0 we" "w_0 w' = w_0 we" by blast
    with beam_update_values(1)[OF this(1) x]
    show "z_w0 w' = zl" and "Fin (w_0 w') = spot_radius w zl" by simp_all
  }
  assume nf: "\<not> fraunhofer_suffices optic w"
  from beam_update_returns(1)[OF x spot_radius_finite[OF assms(2,3)]]
  obtain we where "beam_update optic zl w = Inr (R_input_beam w, we)" by blast
  from apply_optic_cases(2)[OF assms(1) this nf, of E]
  show "\<exists>w'. apply_optic E optic zl True w = Inr w'" by blast
qed

theorem lens_updates_waist_witness:
  "oversample (init_wavefront [[1, 0], [0, 0]] pi 1 1) = optic_oversample (GaussianLens 2) \<and>
   w_0 (init_wavefront [[1, 0], [0, 0]] pi 1 1) \<noteq> 0 \<and>
   wavelength (init_wavefront [[1, 0], [0, 0]] pi 1 1) \<noteq> 0 \<and>
   planetype (init_wavefront [[1, 0], [0, 0]] pi 1 1) = PUPIL \<and>
   z_w0 (init_wavefront [[1, 0], [0, 0]] pi 1 1) = 0 \<and> fl (GaussianLens 2) \<noteq> 0 \<and>
   \<not> fraunhofer_suffices (GaussianLens 2) (init_wavefront [[1, 0], [0, 0]] pi 1 1) \<and>
   xeq (R_c (init_wavefront [[1, 0], [0, 0]] pi 1 1) 1) (Fin (fl (GaussianLens 2))) \<and>
   (\<exists>w'. apply_optic (numpy_env mid_centre) (GaussianLens 2) 0 True
            (init_wavefront [[1, 0], [0, 0]] pi 1 1) = Inr w' \<and>
      z_w0 w' = 2 / 5 \<and> w_0 w' = 1 / sqrt (5 / 4)) \<and>
   (\<exists>w'. apply_optic (numpy_env mid_centre) (GaussianLens 2) 1 True
            (init_wavefront [[1, 0], [0, 0]] pi 1 1) = Inr w' \<and>
      z_w0 w' = 1 \<and> w_0 w' = sqrt 2)"
proof -
  let ?E = "numpy_env mid_centre"
  let ?w = "init_wavefront [[1, 0], [0, 0]] pi 1 1"
  let ?L = "GaussianLens 2"
  have fw: "w_0 ?w = 1" "wavelength ?w = pi" "z_w0 ?w = 0" "planetype ?w = PUPIL"
    "oversample ?w = 2" "force_fresnel ?w"
    by (simp_all add: init_wavefront_def)
  have fL: "fl ?L = 2" "optic_oversample ?L = 2" by (simp_all add: GaussianLens_def)
  have h: "oversample ?w = optic_oversample ?L" "w_0 ?w \<noteq> 0" "wavelength ?w \<noteq> 0"
    by (simp_all add: fw fL)
  have p: "planetype ?w = PUPIL \<and> z_w0 ?w = 0 \<and> fl ?L \<noteq> 0" by (simp add: fw fL)
  have nf: "\<not> fraunhofer_suffices ?L ?w" by (simp add: fraunhofer_suffices_def fw)
  have rc: "R_c ?w 1 = Fin 2" by (simp add: R_c_def z_R_finite fw)
  have x: "xeq (R_c ?w 1) (Fin (fl ?L))" by (simp add: rc fL)
  have sr: "spot_radius ?w 1 = Fin (sqrt 2)"
    unfolding spot_radius_finite[OF h(2,3)] by (simp add: fw)
  have v1: "fl ?L / (1 + (wavelength ?w * fl ?L / (pi * (w_0 ?w)\<^sup>2))\<^sup>2) = 2 / 5"
    by (simp add: fw fL power2_eq_square)
  have v2: "w_0 ?w / sqrt (1 + (pi * (w_0 ?w)\<^sup>2 / (wavelength ?w * fl ?L))\<^sup>2) = 1 / sqrt (5 / 4)"
    by (simp add: fw fL power2_eq_square)
  note t = lens_updates_waist[OF h, of ?E 1]
  from t p nf obtain a where a: "apply_optic ?E ?L 0 True ?w = Inr a" by blast
  from t p a have a': "z_w0 a = 2 / 5 \<and> w_0 a = 1 / sqrt (5 / 4)"
    unfolding v1 v2 by blast
  from t x nf obtain b where b: "apply_optic ?E ?L 1 True ?w = Inr b" by blast
  from t x b have "z_w0 b = 1 \<and> Fin (w_0 b) = spot_radius ?w 1" by blast
  then have b': "z_w0 b = 1 \<and> w_0 b = sqrt 2" by (simp add: sr)
  from h p nf x a a' b b' show ?thesis by blast
qed

subsection \<open>C6: the divisions of the effective focal length\<close>

lemma phasor_over_zero: "phasor (u / (Fin 2 * Fin 0)) = Inl NotFinite"
proof -
  have "\<forall>a. u / Fin 0 \<noteq> Fin a"
    by (cases u) (simp_all add: divide_xreal_def signed_inf_def)
  then have "phasor (u / Fin 0) = Inl NotFinite"
    by (cases "u / Fin 0") simp_all
  then show ?thesis by simp
qed

lemma phasor_zero_radius: "phasor (QuadPhase_phase lam (Fin 0) yx) = Inl NotFinite"
  unfolding QuadPhase_phase_def Let_def by (rule phasor_over_zero)

lemma collect2_fails:
  assumes "0 < M" "0 < N"
  shows "collect2 (tabulate2 M N (\<lambda>i j. Inl e)) = Inl e"
proof -
  have "[0..<N] = 0 # [Suc 0..<N]" "[0..<M] = 0 # [Suc 0..<M]"
    using assms by (simp_all add: upt_conv_Cons)
  then show ?thesis by (simp add: collect2_def tabulate2_def)
qed

lemma imul_QuadPhase_zero_radius:
  assumes "grid (wavefront w)"
  shows "imul_QuadPhase E (Fin 0) lam w = Inl NotFinite"
proof -
  have "getPhasor E lam (Fin 0) w = Inl NotFinite"
    unfolding getPhasor_def phasor_zero_radius
    using assms by (simp add: collect2_fails grid_def shape_def)
  then show ?thesis by (simp add: imul_QuadPhase_def)
qed

text \<open>
  When the tests \<^verbatim>\<open>R_input_beam == 0\<close> and \<^verbatim>\<open>(zl-self.z_w0) == 0\<close> of the
  spherical-to-spherical case both hold, both assignments run and the second one stays.
\<close>

lemma second_assignment_overwrites:
  assumes "spherical w" "z_R w < \<bar>Fin (z_w0 w - zl)\<bar>" "xeq R (Fin 0)" "zl - z_w0 w = 0"
  shows "assigned (effective_focal_length optic zl R w) = [SphSph_Rzero, SphSph_AtWaist]"
    and "z_eff (effective_focal_length optic zl R w) =
           Some (Fin 1 / (Fin 1 / Fin (fl optic) + Fin 1 / Fin (z w - z_w0 w)))"
    and "Fin 0 \<in> set (divisors (effective_focal_length optic zl R w))"
  using assms by (simp_all add: effective_focal_length_def Let_def xeq_Fin)

text \<open>
  C6. The tests of step 7 do not keep a zero out of the denominators: the planar,
  out-of-range case (line 668) divides by \<^verbatim>\<open>self.z - self.z_w0\<close> with no test, and the
  two tests of the spherical-to-spherical case guard assignments that divide by the very
  quantity found zero, or by another one. On a fresh wavefront with \<open>z_R = 1\<close> at
  \<open>z = 0\<close>, a lens of focal length 5/2 at \<open>z_lens = -2\<close> puts the new waist at
  \<open>z_w0 = 0 = z\<close> with \<open>w_0 = 1\<close>; step 7 takes the planar, out-of-range case and divides
  by \<open>z - z_w0 = 0\<close>; \<^verbatim>\<open>z_eff\<close> comes out 0 and the phase of the effective optic is
  not finite.
\<close>

theorem effective_focal_length_divides_by_zero:
  "\<exists>we. beam_update (GaussianLens (5 / 2)) (- 2) (init_wavefront [[1, 0], [0, 0]] pi 1 1)
           = Inr (PInf, we) \<and>
     z we - z_w0 we = 0 \<and>
     assigned (effective_focal_length (GaussianLens (5 / 2)) (- 2) PInf we) = [PlaneToSpherical] \<and>
     divisors (effective_focal_length (GaussianLens (5 / 2)) (- 2) PInf we)
       = [Fin (5 / 2), Fin 0, PInf] \<and>
     z_eff (effective_focal_length (GaussianLens (5 / 2)) (- 2) PInf we) = Some (Fin 0) \<and>
     apply_optic (numpy_env mid_centre) (GaussianLens (5 / 2)) (- 2) False
       (init_wavefront [[1, 0], [0, 0]] pi 1 1) = Inl NotFinite"
proof -
  let ?E = "numpy_env mid_centre"
  let ?w = "init_wavefront [[1, 0], [0, 0]] pi 1 1"
  let ?L = "GaussianLens (5 / 2)"
  have fw: "w_0 ?w = 1" "wavelength ?w = pi" "z_w0 ?w = 0" "planetype ?w = PUPIL"
    "oversample ?w = 2" "force_fresnel ?w" "z ?w = 0" "\<not> spherical ?w" "rayl_factor ?w = 2"
    "wavefront ?w = [[1, 0], [0, 0]]"
    by (simp_all add: init_wavefront_def)
  have fL: "fl ?L = 5 / 2" "optic_oversample ?L = 2" by (simp_all add: GaussianLens_def)
  have h: "w_0 ?w \<noteq> 0" "wavelength ?w \<noteq> 0" by (simp_all add: fw)
  have R: "R_input_beam ?w = PInf" "\<not> outside_rayleigh ?w"
    by (simp_all add: R_input_beam_def outside_rayleigh_def z_R_finite fw)
  have sr: "spot_radius ?w (- 2) = Fin (sqrt 5)"
    unfolding spot_radius_finite[OF h] by (simp add: fw)
  have rc: "R_c ?w (- 2) = Fin (- (5 / 2))" by (simp add: R_c_def z_R_finite fw)
  have nx: "\<not> xeq (R_c ?w (- 2)) (Fin (fl ?L))" by (simp add: rc fL)
  have cu: "r_curve ?L (- 2) ?w = Fin (- (5 / 2))"
    by (simp add: r_curve_def at_pupil_or_image_def fw fL)
  have zw: "new_z_w0 pi (Fin (- (5 / 2))) (Fin (sqrt 5)) (- 2) = Fin 0"
    unfolding new_z_w0_lens[of "sqrt 5" pi "5 / 2" "- 2", simplified] by (simp add: power2_eq_square)
  have ww: "new_w_0 pi (Fin (- (5 / 2))) (Fin (sqrt 5)) = Fin 1"
    unfolding new_w_0_lens[of pi "5 / 2" "sqrt 5", simplified] by (simp add: power2_eq_square)
  from beam_update_returns(2)[OF nx, unfolded cu sr fw, OF zw ww]
  obtain we where we: "beam_update ?L (- 2) ?w = Inr (PInf, we)" unfolding R by blast
  from beam_update_values(2)[OF we nx, unfolded cu sr fw zw ww]
  have v: "z_w0 we = 0" "w_0 we = 1" by simp_all
  note fr = beam_update_frame[OF we]
  have f: "z we = 0" "wavelength we = pi" "\<not> spherical we" "wavefront we = [[1, 0], [0, 0]]"
    using fr fw R by simp_all
  have zr: "z_R we = Fin 1" by (rule z_R_unit) (simp_all add: v f)
  let ?r = "effective_focal_length ?L (- 2) PInf we"
  have e: "assigned ?r = [PlaneToSpherical]" "divisors ?r = [Fin (5 / 2), Fin 0, PInf]"
    "z_eff ?r = Some (Fin 0)"
    by (simp_all add: effective_focal_length_def Let_def zr v f fL)
  have nf: "\<not> fraunhofer_suffices ?L ?w" by (simp add: fraunhofer_suffices_def fw)
  have "apply_optic ?E ?L (- 2) False ?w = apply_phase ?E ?L ?r we"
    by (rule apply_optic_cases(3)[OF _ we nf]) (simp add: fw fL)
  also have "\<dots> = Inl NotFinite"
    by (simp add: apply_phase_def Let_def e imul_QuadPhase_zero_radius f)
  finally show ?thesis using we v f e by auto
qed

end
